theory Spec2Isabelle
  imports Main "HOL-Library.Sublist"
begin

section \<open>Strings as the program uses them\<close>

text \<open>
  A JavaScript string is modelled as a \<^typ>\<open>string\<close>: one \<^typ>\<open>char\<close> per code unit,
  restricted to the code units below 256. The string methods the program calls are
  written out with the results JavaScript gives for them.
\<close>

abbreviation LF :: char where "LF \<equiv> CHR 0x0A"
abbreviation CR :: char where "CR \<equiv> CHR 0x0D"
abbreviation BSL :: char where "BSL \<equiv> CHR 0x5C"

definition startsWith :: "string \<Rightarrow> string \<Rightarrow> bool" where
  "startsWith s p = (take (length p) s = p)"

definition endsWith :: "string \<Rightarrow> string \<Rightarrow> bool" where
  "endsWith s p = (length p \<le> length s \<and> drop (length s - length p) s = p)"

text \<open>\<open>s.includes(p)\<close>: \<open>p\<close> occurs at some position of \<open>s\<close>.\<close>

fun str_includes :: "string \<Rightarrow> string \<Rightarrow> bool" where
  "str_includes [] p = (p = [])"
| "str_includes (c # cs) p = (startsWith (c # cs) p \<or> str_includes cs p)"

text \<open>
  \<open>findFrom p s k\<close> is the position of the first occurrence of \<open>p\<close> in \<open>s\<close>, counted
  from \<open>k\<close>; \<open>s.indexOf(p, i)\<close> searches from position \<open>i\<close>, and \<open>None\<close> is its \<open>-1\<close>.
\<close>

fun findFrom :: "string \<Rightarrow> string \<Rightarrow> nat \<Rightarrow> nat option" where
  "findFrom p [] k = (if p = [] then Some k else None)"
| "findFrom p (c # cs) k = (if startsWith (c # cs) p then Some k else findFrom p cs (Suc k))"

definition indexOf :: "string \<Rightarrow> string \<Rightarrow> nat \<Rightarrow> nat option" where
  "indexOf s p i = findFrom p (drop i s) (min i (length s))"

text \<open>\<open>s.slice(a, b)\<close> and \<open>s.slice(a)\<close> for indices that are not negative.\<close>

definition slice :: "string \<Rightarrow> nat \<Rightarrow> nat \<Rightarrow> string" where
  "slice s a b = drop a (take b s)"

definition sliceFrom :: "string \<Rightarrow> nat \<Rightarrow> string" where
  "sliceFrom s a = drop a s"

text \<open>The white space and line terminators that \<open>trim\<close> removes, below code unit 256.\<close>

definition isWhitespace :: "char \<Rightarrow> bool" where
  "isWhitespace c = (c \<in> {CHR 0x09, CHR 0x0A, CHR 0x0B, CHR 0x0C, CHR 0x0D, CHR 0x20, CHR 0xA0})"

definition trim :: "string \<Rightarrow> string" where
  "trim s = rev (dropWhile isWhitespace (rev (dropWhile isWhitespace s)))"

text \<open>\<open>s.replace(/c/g, r)\<close> for a pattern that is the single character \<open>c\<close>.\<close>

definition replaceChar :: "char \<Rightarrow> string \<Rightarrow> string \<Rightarrow> string" where
  "replaceChar c r s = concat (map (\<lambda>x. if x = c then r else [x]) s)"

text \<open>\<open>s.replace(/\r\n/g, "\n")\<close>.\<close>

fun replaceCRLF :: "string \<Rightarrow> string" where
  "replaceCRLF (c # d # cs) =
     (if c = CR \<and> d = LF then LF # replaceCRLF cs else c # replaceCRLF (d # cs))"
| "replaceCRLF cs = cs"

text \<open>\<open>content.split(/\r?\n/)\<close>; the first argument is the piece read so far.\<close>

fun splitLines :: "string \<Rightarrow> string \<Rightarrow> string list" where
  "splitLines cur (c # d # cs) =
     (if c = CR \<and> d = LF then cur # splitLines [] cs
      else if c = LF then cur # splitLines [] (d # cs)
      else splitLines (cur @ [c]) (d # cs))"
| "splitLines cur [c] = (if c = LF then [cur, []] else [cur @ [c]])"
| "splitLines cur [] = [cur]"

text \<open>\<open>p.split(sep).join("/")\<close> for the one-character separator of \<open>node:path\<close>.\<close>

fun splitSep :: "char \<Rightarrow> string \<Rightarrow> string \<Rightarrow> string list" where
  "splitSep s cur [] = [cur]"
| "splitSep s cur (c # cs) = (if c = s then cur # splitSep s [] cs else splitSep s (cur @ [c]) cs)"

fun joinWith :: "string \<Rightarrow> string list \<Rightarrow> string" where
  "joinWith d [] = []"
| "joinWith d [x] = x"
| "joinWith d (x # y # xs) = x @ d @ joinWith d (y # xs)"

text \<open>The decimal numeral a template literal prints for a length.\<close>

function showNat :: "nat \<Rightarrow> string" where
  "showNat n = (if n < 10 then [''0123456789'' ! n] else showNat (n div 10) @ [''0123456789'' ! (n mod 10)])"
  by pat_completeness auto
termination
  by (relation "measure id") auto

section \<open>utils: frontmatter extraction and XML escaping\<close>

definition normalizeNewlines :: "string \<Rightarrow> string" where
  "normalizeNewlines v = replaceChar CR [LF] (replaceCRLF v)"

record Extracted =
  yamlString :: "string option"
  body :: string

definition extractFrontmatter :: "string \<Rightarrow> Extracted" where
  "extractFrontmatter content =
     (let normalized = normalizeNewlines content in
      if \<not> startsWith normalized ''---'' then \<lparr>yamlString = None, body = normalized\<rparr>
      else case indexOf normalized (LF # ''---'') 3 of
             None \<Rightarrow> \<lparr>yamlString = None, body = normalized\<rparr>
           | Some endIndex \<Rightarrow>
               \<lparr>yamlString = Some (slice normalized 4 endIndex),
                body = trim (sliceFrom normalized (endIndex + 4))\<rparr>)"

text \<open>
  The frontmatter fields the program reads. \<open>fm_disable\<close> holds whether the field
  \<open>disable-model-invocation\<close> is the boolean \<open>true\<close>.
\<close>

record SkillFrontmatter =
  fm_name :: "string option"
  fm_description :: "string option"
  fm_disable :: bool

definition emptyFrontmatter :: SkillFrontmatter where
  "emptyFrontmatter = \<lparr>fm_name = None, fm_description = None, fm_disable = False\<rparr>"

text \<open>
  The YAML parser is a library: it is a parameter, a function that throws (\<open>Inl\<close> of the
  message), returns \<open>null\<close> or \<open>undefined\<close> (\<open>Inr None\<close>) or returns a mapping.
\<close>

type_synonym yamlParser = "string \<Rightarrow> string + SkillFrontmatter option"

record ParsedFrontmatter =
  frontmatter :: SkillFrontmatter
  pbody :: string

definition parseFrontmatter :: "yamlParser \<Rightarrow> string \<Rightarrow> ParsedFrontmatter" where
  "parseFrontmatter parse content =
     (let ex = extractFrontmatter content in
      case yamlString ex of
        None \<Rightarrow> \<lparr>frontmatter = emptyFrontmatter, pbody = body ex\<rparr>
      | Some y \<Rightarrow>
          if y = [] then \<lparr>frontmatter = emptyFrontmatter, pbody = body ex\<rparr>
          else (case parse y of
                  Inl _ \<Rightarrow> \<lparr>frontmatter = emptyFrontmatter, pbody = body ex\<rparr>
                | Inr None \<Rightarrow> \<lparr>frontmatter = emptyFrontmatter, pbody = body ex\<rparr>
                | Inr (Some parsed) \<Rightarrow> \<lparr>frontmatter = parsed, pbody = body ex\<rparr>))"

definition escapeXml :: "string \<Rightarrow> string" where
  "escapeXml str =
     replaceChar (CHR 0x27) ''&apos;''
       (replaceChar (CHR 0x22) ''&quot;''
         (replaceChar (CHR ''>'') ''&gt;''
           (replaceChar (CHR ''<'') ''&lt;''
             (replaceChar (CHR ''&'') ''&amp;'' str))))"

section \<open>Types\<close>

record ResourceCollision =
  resourceType :: string
  cname :: string
  winnerPath :: string
  loserPath :: string

datatype DiagnosticType = warning | error | collision

record ResourceDiagnostic =
  type :: DiagnosticType
  message :: string
  path :: "string option"
  collisionInfo :: "ResourceCollision option"

record Skill =
  name :: string
  description :: string
  filePath :: string
  baseDir :: string
  source :: string
  disableModelInvocation :: bool

record LoadSkillsResult =
  skills :: "Skill list"
  diagnostics :: "ResourceDiagnostic list"

section \<open>Validation\<close>

definition MAX_NAME_LENGTH :: nat where "MAX_NAME_LENGTH = 64"
definition MAX_DESCRIPTION_LENGTH :: nat where "MAX_DESCRIPTION_LENGTH = 1024"
definition IGNORE_FILE_NAMES :: "string list" where
  "IGNORE_FILE_NAMES = [''.gitignore'', ''.ignore'', ''.fdignore'']"

text \<open>The regular expression \<open>/^[a-z0-9-]+$/\<close>: one or more characters of the class.\<close>

definition isNameChar :: "char \<Rightarrow> bool" where
  "isNameChar c =
     ((97 \<le> (of_char c :: nat) \<and> (of_char c :: nat) \<le> 122)
      \<or> (48 \<le> (of_char c :: nat) \<and> (of_char c :: nat) \<le> 57)
      \<or> c = CHR ''-'')"

definition nameRegexTest :: "string \<Rightarrow> bool" where
  "nameRegexTest s = (s \<noteq> [] \<and> list_all isNameChar s)"

definition msgNameMismatch :: "string \<Rightarrow> string \<Rightarrow> string" where
  \<open>msgNameMismatch n p = ''name "'' @ n @ ''" does not match parent directory "'' @ p @ ''"''\<close>

text \<open>
  \<open>validateName\<close> as the module with \<open>loadSkillsFromDirInternal\<close> has it (five checks).
\<close>

definition validateName :: "string \<Rightarrow> string \<Rightarrow> string list" where
  "validateName n parentDirName =
     (if n \<noteq> parentDirName then [msgNameMismatch n parentDirName] else [])
     @ (if length n > MAX_NAME_LENGTH
        then [''name exceeds '' @ showNat MAX_NAME_LENGTH @ '' characters ('' @ showNat (length n) @ '')'']
        else [])
     @ (if \<not> nameRegexTest n
        then [''name contains invalid characters (must be lowercase a-z, 0-9, hyphens only)'']
        else [])
     @ (if startsWith n ''-'' \<or> endsWith n ''-''
        then [''name must not start or end with a hyphen'']
        else [])
     @ (if str_includes n ''--''
        then [''name must not contain consecutive hyphens'']
        else [])"

text \<open>
  \<open>validateName\<close> as the exported function of \<open>index\<close> has it (three checks).
\<close>

definition validateName_index :: "string \<Rightarrow> string \<Rightarrow> string list" where
  "validateName_index n parentDirName =
     (if n \<noteq> parentDirName then [msgNameMismatch n parentDirName] else [])
     @ (if length n > MAX_NAME_LENGTH
        then [''name exceeds '' @ showNat MAX_NAME_LENGTH @ '' characters'']
        else [])
     @ (if \<not> nameRegexTest n then [''invalid characters in name''] else [])"

text \<open>
  \<open>!description || description.trim() === ""\<close>: the description is \<open>undefined\<close>, the empty
  string, or blank.
\<close>

definition descriptionBlank :: "string option \<Rightarrow> bool" where
  "descriptionBlank d = (case d of None \<Rightarrow> True | Some s \<Rightarrow> s = [] \<or> trim s = [])"

definition validateDescription :: "string option \<Rightarrow> string list" where
  "validateDescription d =
     (case d of
        None \<Rightarrow> [''description is required'']
      | Some s \<Rightarrow>
          if s = [] \<or> trim s = [] then [''description is required'']
          else if length s > MAX_DESCRIPTION_LENGTH
          then [''description exceeds '' @ showNat MAX_DESCRIPTION_LENGTH @ '' characters (''
                @ showNat (length s) @ '')'']
          else [])"

definition validateDescription_index :: "string option \<Rightarrow> string list" where
  "validateDescription_index d =
     (case d of
        None \<Rightarrow> [''description is required'']
      | Some s \<Rightarrow>
          if s = [] \<or> trim s = [] then [''description is required'']
          else if length s > MAX_DESCRIPTION_LENGTH
          then [''description exceeds '' @ showNat MAX_DESCRIPTION_LENGTH @ '' characters'']
          else [])"

section \<open>Prompt formatting\<close>

definition skillLines :: "Skill \<Rightarrow> string list" where
  "skillLines s =
     [''  <skill>'',
      ''    <name>'' @ escapeXml (name s) @ ''</name>'',
      ''    <description>'' @ escapeXml (description s) @ ''</description>'',
      ''    <location>'' @ escapeXml (filePath s) @ ''</location>'',
      ''  </skill>'']"

definition preambleLines :: "string list" where
  "preambleLines =
     [LF # LF # ''The following skills provide specialized instructions for specific tasks.'',
      ''Use the read tool to load a skill's file when the task matches its description.'',
      ''When a skill file references a relative path, resolve it against the skill directory (parent of SKILL.md / dirname of the path) and use that absolute path in tool commands.'',
      '''',
      ''<available_skills>'']"

definition formatSkillsForPrompt :: "Skill list \<Rightarrow> string" where
  "formatSkillsForPrompt sks =
     (let visible = filter (\<lambda>s. \<not> disableModelInvocation s) sks in
      if length visible = 0 then []
      else joinWith [LF] (preambleLines @ concat (map skillLines visible) @ [''</available_skills>'']))"

section \<open>The environment: filesystem, path library, YAML parser, ignore matcher\<close>

text \<open>
  The filesystem primitives, the functions of \<open>node:path\<close>, the YAML parser and the
  matcher of the \<open>ignore\<close> package are not code of the program: they are the fields of an
  environment. A primitive that can throw returns \<open>Inl\<close> of the exception's message.
  The matcher is the list of the patterns added to it so far, in order, and \<open>ignores\<close>
  decides a path from that list; the matcher object is shared by reference along a
  walk, so the walker takes the list and returns it updated. The path functions, the
  matcher's \<open>add\<close> and \<open>ignores\<close> and \<open>process.cwd()\<close> are taken to return a value for every
  argument the program hands them.
\<close>

datatype DirentKind = DFile | DDirectory | DSymbolicLink | DOther

record Dirent =
  d_name :: string
  d_kind :: DirentKind

datatype StatKind = SFile | SDirectory | SOther

record env =
  existsSync :: "string \<Rightarrow> bool"
  statSync :: "string \<Rightarrow> string + StatKind"
  readdirSync :: "string \<Rightarrow> string + Dirent list"
  readFileSync :: "string \<Rightarrow> string + string"
  realpathSync :: "string \<Rightarrow> string + string"
  parse :: yamlParser
  ignores :: "string list \<Rightarrow> string \<Rightarrow> bool"
  join :: "string \<Rightarrow> string \<Rightarrow> string"
  relative :: "string \<Rightarrow> string \<Rightarrow> string"
  dirname :: "string \<Rightarrow> string"
  basename :: "string \<Rightarrow> string"
  resolve :: "string \<Rightarrow> string \<Rightarrow> string"
  isAbsolute :: "string \<Rightarrow> bool"
  sep :: char
  process_cwd :: string

definition toPosixPath :: "env \<Rightarrow> string \<Rightarrow> string" where
  "toPosixPath e p = joinWith ''/'' (splitSep (sep e) [] p)"

section \<open>Ignore rules\<close>

definition prefixIgnorePattern :: "string \<Rightarrow> string \<Rightarrow> string option" where
  "prefixIgnorePattern line pfx =
     (let trimmed = trim line in
      if trimmed = [] then None
      else if startsWith trimmed ''#'' \<and> \<not> startsWith trimmed [BSL, CHR ''#''] then None
      else
        let negated = startsWith line ''!'';
            pattern = (if startsWith line ''!'' then sliceFrom line 1
                       else if startsWith line [BSL, CHR ''!''] then sliceFrom line 1
                       else line);
            pattern' = (if startsWith pattern ''/'' then sliceFrom pattern 1 else pattern);
            prefixed = (if pfx \<noteq> [] then pfx @ pattern' else pattern')
        in Some (if negated then ''!'' @ prefixed else prefixed))"

text \<open>
  The patterns one ignore file contributes: \<open>.map(prefixIgnorePattern)\<close>, then
  \<open>.filter(Boolean)\<close>, which drops \<open>null\<close> and the empty string.
\<close>

definition ignorePatterns :: "string \<Rightarrow> string \<Rightarrow> string list" where
  "ignorePatterns content pfx =
     filter (\<lambda>p. p \<noteq> []) (List.map_filter (\<lambda>line. prefixIgnorePattern line pfx) (splitLines [] content))"

definition addIgnoreFile :: "env \<Rightarrow> string \<Rightarrow> string \<Rightarrow> string list \<Rightarrow> string \<Rightarrow> string list" where
  "addIgnoreFile e dir pfx ig filename =
     (let ignorePath = join e dir filename in
      if \<not> existsSync e ignorePath then ig
      else case readFileSync e ignorePath of
             Inl _ \<Rightarrow> ig
           | Inr content \<Rightarrow>
               let patterns = ignorePatterns content pfx in
               if length patterns > 0 then ig @ patterns else ig)"

definition addIgnoreRules :: "env \<Rightarrow> string list \<Rightarrow> string \<Rightarrow> string \<Rightarrow> string list" where
  "addIgnoreRules e ig dir rootDir =
     (let relativeDir = relative e rootDir dir;
          pfx = (if relativeDir \<noteq> [] then toPosixPath e relativeDir @ ''/'' else [])
      in foldl (addIgnoreFile e dir pfx) ig IGNORE_FILE_NAMES)"

section \<open>The skill parser\<close>

record FileResult =
  skill :: "Skill option"
  fdiagnostics :: "ResourceDiagnostic list"

definition warningAt :: "string \<Rightarrow> string \<Rightarrow> ResourceDiagnostic" where
  "warningAt m p = \<lparr>type = warning, message = m, path = Some p, collisionInfo = None\<rparr>"

text \<open>\<open>frontmatter.name || parentDirName\<close>.\<close>

definition nameOr :: "string option \<Rightarrow> string \<Rightarrow> string" where
  "nameOr n parentDirName = (case n of None \<Rightarrow> parentDirName | Some x \<Rightarrow> if x = [] then parentDirName else x)"

text \<open>\<open>loadSkillFromFile\<close> of the module with \<open>loadSkillsFromDirInternal\<close>.\<close>

definition loadSkillFromFile :: "env \<Rightarrow> string \<Rightarrow> string \<Rightarrow> FileResult" where
  "loadSkillFromFile e fp src =
     (case readFileSync e fp of
        Inl msg \<Rightarrow> \<lparr>skill = None, fdiagnostics = [warningAt msg fp]\<rparr>
      | Inr rawContent \<Rightarrow>
          let fm = frontmatter (parseFrontmatter (parse e) rawContent);
              skillDir = dirname e fp;
              parentDirName = basename e skillDir;
              descErrors = validateDescription (fm_description fm);
              n = nameOr (fm_name fm) parentDirName;
              nameErrors = validateName n parentDirName;
              ds = map (\<lambda>m. warningAt m fp) descErrors @ map (\<lambda>m. warningAt m fp) nameErrors
          in (case fm_description fm of
                None \<Rightarrow> \<lparr>skill = None, fdiagnostics = ds\<rparr>
              | Some d \<Rightarrow>
                  if d = [] \<or> trim d = [] then \<lparr>skill = None, fdiagnostics = ds\<rparr>
                  else \<lparr>skill = Some \<lparr>name = n, description = d, filePath = fp, baseDir = skillDir,
                                      source = src, disableModelInvocation = fm_disable fm\<rparr>,
                        fdiagnostics = ds\<rparr>))"

text \<open>\<open>loadSkillFromFile\<close> of \<open>index\<close>: the skill is withheld on \<open>!frontmatter.description\<close> alone.\<close>

definition loadSkillFromFile_index :: "env \<Rightarrow> string \<Rightarrow> string \<Rightarrow> FileResult" where
  "loadSkillFromFile_index e fp src =
     (case readFileSync e fp of
        Inl msg \<Rightarrow> \<lparr>skill = None, fdiagnostics = [warningAt msg fp]\<rparr>
      | Inr rawContent \<Rightarrow>
          let fm = frontmatter (parseFrontmatter (parse e) rawContent);
              skillDir = dirname e fp;
              parentDirName = basename e skillDir;
              n = nameOr (fm_name fm) parentDirName;
              ds = map (\<lambda>m. warningAt m fp) (validateDescription_index (fm_description fm))
                   @ map (\<lambda>m. warningAt m fp) (validateName_index n parentDirName)
          in (case fm_description fm of
                None \<Rightarrow> \<lparr>skill = None, fdiagnostics = ds\<rparr>
              | Some d \<Rightarrow>
                  if d = [] then \<lparr>skill = None, fdiagnostics = ds\<rparr>
                  else \<lparr>skill = Some \<lparr>name = n, description = d, filePath = fp, baseDir = skillDir,
                                      source = src, disableModelInvocation = fm_disable fm\<rparr>,
                        fdiagnostics = ds\<rparr>))"

section \<open>The directory walker\<close>

text \<open>
  The walker recurses along the directories it finds, so it takes fuel: one unit for
  each level of directories below the start. \<open>None\<close> is "out of fuel", never a result of
  the program. The result carries the matcher as the walk left it.
\<close>

definition emptyResult :: LoadSkillsResult where
  "emptyResult = \<lparr>skills = [], diagnostics = []\<rparr>"

definition mergeResult :: "LoadSkillsResult \<Rightarrow> LoadSkillsResult \<Rightarrow> LoadSkillsResult" where
  "mergeResult r sub = \<lparr>skills = skills r @ skills sub, diagnostics = diagnostics r @ diagnostics sub\<rparr>"

definition pushFile :: "LoadSkillsResult \<Rightarrow> FileResult \<Rightarrow> LoadSkillsResult" where
  "pushFile r res =
     \<lparr>skills = skills r @ (case skill res of None \<Rightarrow> [] | Some s \<Rightarrow> [s]),
      diagnostics = diagnostics r @ fdiagnostics res\<rparr>"

text \<open>
  What the type flags of a directory entry say, a symbolic link being replaced by the
  \<open>stat\<close> of its target; \<open>None\<close> when that \<open>stat\<close> throws.
\<close>

definition entryType :: "env \<Rightarrow> string \<Rightarrow> Dirent \<Rightarrow> (bool \<times> bool) option" where
  "entryType e fullPath entry =
     (if d_kind entry = DSymbolicLink
      then (case statSync e fullPath of
              Inl _ \<Rightarrow> None
            | Inr stats \<Rightarrow> Some (stats = SDirectory, stats = SFile))
      else Some (d_kind entry = DDirectory, d_kind entry = DFile))"

text \<open>
  What the loop body does with one entry before anything is read or entered: it skips
  the entry (\<open>continue\<close>), enters it as a directory, or hands it to the skill parser.
\<close>

datatype Action = Skip | Descend string | Parse string

text \<open>The loop body of \<open>loadSkillsFromDirInternal\<close>.\<close>

definition entryAction :: "env \<Rightarrow> string \<Rightarrow> bool \<Rightarrow> string \<Rightarrow> string list \<Rightarrow> Dirent \<Rightarrow> Action" where
  "entryAction e dir includeRootFiles root ig entry =
     (if startsWith (d_name entry) ''.'' then Skip
      else if d_name entry = ''node_modules'' then Skip
      else
        let fullPath = join e dir (d_name entry) in
        (case entryType e fullPath entry of
           None \<Rightarrow> Skip
         | Some (isDirectory, isFile) \<Rightarrow>
             let relPath = toPosixPath e (relative e root fullPath);
                 ignorePath = (if isDirectory then relPath @ ''/'' else relPath)
             in if ignores e ig ignorePath then Skip
                else if isDirectory then Descend fullPath
                else if \<not> isFile then Skip
                else
                  let isRootMd = (includeRootFiles \<and> endsWith (d_name entry) ''.md'');
                      isSkillMd = (\<not> includeRootFiles \<and> d_name entry = ''SKILL.md'')
                  in if \<not> isRootMd \<and> \<not> isSkillMd then Skip else Parse fullPath))"

text \<open>
  The loop body of \<open>loadSkillsFromDir\<close> in \<open>index\<close>: an entry that is not a directory goes
  to the file test whatever else it is.
\<close>

definition entryAction_index :: "env \<Rightarrow> string \<Rightarrow> bool \<Rightarrow> string \<Rightarrow> string list \<Rightarrow> Dirent \<Rightarrow> Action" where
  "entryAction_index e dir includeRootFiles root ig entry =
     (if startsWith (d_name entry) ''.'' \<or> d_name entry = ''node_modules'' then Skip
      else
        let fullPath = join e dir (d_name entry) in
        (case entryType e fullPath entry of
           None \<Rightarrow> Skip
         | Some (isDir, isFile) \<Rightarrow>
             let relPath = toPosixPath e (relative e root fullPath) in
             if ignores e ig (if isDir then relPath @ ''/'' else relPath) then Skip
             else if isDir then Descend fullPath
             else
               let isRootMd = (includeRootFiles \<and> endsWith (d_name entry) ''.md'');
                   isSkillMd = (\<not> includeRootFiles \<and> d_name entry = ''SKILL.md'')
               in if isRootMd \<or> isSkillMd then Parse fullPath else Skip))"

fun loadSkillsFromDirInternal ::
    "nat \<Rightarrow> env \<Rightarrow> string \<Rightarrow> string \<Rightarrow> bool \<Rightarrow> string list option \<Rightarrow> string option
      \<Rightarrow> (LoadSkillsResult \<times> string list) option"
  and entriesInternal ::
    "nat \<Rightarrow> env \<Rightarrow> string \<Rightarrow> string \<Rightarrow> bool \<Rightarrow> string \<Rightarrow> Dirent list
      \<Rightarrow> LoadSkillsResult \<Rightarrow> string list \<Rightarrow> (LoadSkillsResult \<times> string list) option"
where
  "loadSkillsFromDirInternal 0 e dir src includeRootFiles ignoreMatcher rootDir = None"
| "loadSkillsFromDirInternal (Suc fuel) e dir src includeRootFiles ignoreMatcher rootDir =
     (if \<not> existsSync e dir
      then Some (emptyResult, case ignoreMatcher of None \<Rightarrow> [] | Some m \<Rightarrow> m)
      else
        (case readdirSync e dir of
           Inl _ \<Rightarrow>
             Some (emptyResult,
                   addIgnoreRules e (case ignoreMatcher of None \<Rightarrow> [] | Some m \<Rightarrow> m) dir
                     (case rootDir of None \<Rightarrow> dir | Some r \<Rightarrow> r))
         | Inr entries \<Rightarrow>
             entriesInternal fuel e dir src includeRootFiles
               (case rootDir of None \<Rightarrow> dir | Some r \<Rightarrow> r) entries emptyResult
               (addIgnoreRules e (case ignoreMatcher of None \<Rightarrow> [] | Some m \<Rightarrow> m) dir
                  (case rootDir of None \<Rightarrow> dir | Some r \<Rightarrow> r))))"
| "entriesInternal fuel e dir src includeRootFiles root [] acc ig = Some (acc, ig)"
| "entriesInternal fuel e dir src includeRootFiles root (entry # entries) acc ig =
     (case entryAction e dir includeRootFiles root ig entry of
        Skip \<Rightarrow> entriesInternal fuel e dir src includeRootFiles root entries acc ig
      | Descend fullPath \<Rightarrow>
          (case loadSkillsFromDirInternal fuel e fullPath src False (Some ig) (Some root) of
             None \<Rightarrow> None
           | Some (subResult, ig') \<Rightarrow>
               entriesInternal fuel e dir src includeRootFiles root entries (mergeResult acc subResult) ig')
      | Parse fullPath \<Rightarrow>
          entriesInternal fuel e dir src includeRootFiles root entries
            (pushFile acc (loadSkillFromFile e fullPath src)) ig)"

fun loadSkillsFromDir ::
    "nat \<Rightarrow> env \<Rightarrow> string \<Rightarrow> string \<Rightarrow> bool \<Rightarrow> string list option \<Rightarrow> string option
      \<Rightarrow> (LoadSkillsResult \<times> string list) option"
  and entriesDir ::
    "nat \<Rightarrow> env \<Rightarrow> string \<Rightarrow> string \<Rightarrow> bool \<Rightarrow> string \<Rightarrow> Dirent list
      \<Rightarrow> LoadSkillsResult \<Rightarrow> string list \<Rightarrow> (LoadSkillsResult \<times> string list) option"
where
  "loadSkillsFromDir 0 e dir src includeRootFiles ignoreMatcher rootDir = None"
| "loadSkillsFromDir (Suc fuel) e dir src includeRootFiles ignoreMatcher rootDir =
     (if \<not> existsSync e dir
      then Some (emptyResult, case ignoreMatcher of None \<Rightarrow> [] | Some m \<Rightarrow> m)
      else
        (case readdirSync e dir of
           Inl _ \<Rightarrow>
             Some (emptyResult,
                   addIgnoreRules e (case ignoreMatcher of None \<Rightarrow> [] | Some m \<Rightarrow> m) dir
                     (case rootDir of None \<Rightarrow> dir | Some r \<Rightarrow> r))
         | Inr entries \<Rightarrow>
             entriesDir fuel e dir src includeRootFiles
               (case rootDir of None \<Rightarrow> dir | Some r \<Rightarrow> r) entries emptyResult
               (addIgnoreRules e (case ignoreMatcher of None \<Rightarrow> [] | Some m \<Rightarrow> m) dir
                  (case rootDir of None \<Rightarrow> dir | Some r \<Rightarrow> r))))"
| "entriesDir fuel e dir src includeRootFiles root [] acc ig = Some (acc, ig)"
| "entriesDir fuel e dir src includeRootFiles root (entry # entries) acc ig =
     (case entryAction_index e dir includeRootFiles root ig entry of
        Skip \<Rightarrow> entriesDir fuel e dir src includeRootFiles root entries acc ig
      | Descend fullPath \<Rightarrow>
          (case loadSkillsFromDir fuel e fullPath src False (Some ig) (Some root) of
             None \<Rightarrow> None
           | Some (sub, ig') \<Rightarrow>
               entriesDir fuel e dir src includeRootFiles root entries (mergeResult acc sub) ig')
      | Parse fullPath \<Rightarrow>
          entriesDir fuel e dir src includeRootFiles root entries
            (pushFile acc (loadSkillFromFile_index e fullPath src)) ig)"

section \<open>The loader\<close>

record LoadSkillsOptions =
  cwd :: "string option"
  skillPaths :: "string list option"

text \<open>
  The mutable state of one \<open>loadSkills\<close> call: the \<open>Map\<close> from names to skills in insertion
  order, the \<open>Set\<close> of resolved paths, and the two diagnostic arrays.
\<close>

record LoaderState =
  skillMap :: "(string \<times> Skill) list"
  realPathSet :: "string set"
  allDiagnostics :: "ResourceDiagnostic list"
  collisionDiagnostics :: "ResourceDiagnostic list"

definition initialState :: LoaderState where
  "initialState = \<lparr>skillMap = [], realPathSet = {}, allDiagnostics = [], collisionDiagnostics = []\<rparr>"

definition collisionDiagnostic :: "Skill \<Rightarrow> Skill \<Rightarrow> ResourceDiagnostic" where
  \<open>collisionDiagnostic existing s =
     \<lparr>type = collision,
      message = ''name "'' @ name s @ ''" collision'',
      path = Some (filePath s),
      collisionInfo = Some \<lparr>resourceType = ''skill'', cname = name s,
                            winnerPath = filePath existing, loserPath = filePath s\<rparr>\<rparr>\<close>

text \<open>\<open>try { realPath = realpathSync(skill.filePath); } catch { realPath = skill.filePath; }\<close>\<close>

definition realPathOf :: "env \<Rightarrow> Skill \<Rightarrow> string" where
  "realPathOf e s = (case realpathSync e (filePath s) of Inl _ \<Rightarrow> filePath s | Inr r \<Rightarrow> r)"

text \<open>The body of the loop of \<open>addSkills\<close>, the same in both modules.\<close>

definition addSkill :: "env \<Rightarrow> LoaderState \<Rightarrow> Skill \<Rightarrow> LoaderState" where
  "addSkill e st s =
     (let realPath = realPathOf e s in
      if realPath \<in> realPathSet st then st
      else (case map_of (skillMap st) (name s) of
              Some existing \<Rightarrow>
                st\<lparr>collisionDiagnostics := collisionDiagnostics st @ [collisionDiagnostic existing s]\<rparr>
            | None \<Rightarrow>
                st\<lparr>skillMap := skillMap st @ [(name s, s)],
                   realPathSet := insert realPath (realPathSet st)\<rparr>))"

definition addSkills :: "env \<Rightarrow> LoaderState \<Rightarrow> LoadSkillsResult \<Rightarrow> LoaderState" where
  "addSkills e st result =
     foldl (addSkill e) (st\<lparr>allDiagnostics := allDiagnostics st @ diagnostics result\<rparr>) (skills result)"

definition pushDiagnostics :: "LoaderState \<Rightarrow> ResourceDiagnostic list \<Rightarrow> LoaderState" where
  "pushDiagnostics st ds = st\<lparr>allDiagnostics := allDiagnostics st @ ds\<rparr>"

definition resolvePath :: "env \<Rightarrow> string \<Rightarrow> string \<Rightarrow> string" where
  "resolvePath e c rawPath = (if isAbsolute e rawPath then rawPath else resolve e c rawPath)"

definition finalResult :: "LoaderState \<Rightarrow> LoadSkillsResult" where
  "finalResult st = \<lparr>skills = map snd (skillMap st), diagnostics = allDiagnostics st @ collisionDiagnostics st\<rparr>"

text \<open>
  The loop of \<open>loadSkills\<close> over \<open>skillPaths\<close> in the module with
  \<open>loadSkillsFromDirInternal\<close>: the \<open>stat\<close> and what follows are inside \<open>try\<close>, and the
  handler turns the exception into a warning.
\<close>

fun loadSkillsLoop :: "nat \<Rightarrow> env \<Rightarrow> string \<Rightarrow> string list \<Rightarrow> LoaderState \<Rightarrow> LoaderState option" where
  "loadSkillsLoop fuel e c [] st = Some st"
| "loadSkillsLoop fuel e c (rawPath # rest) st =
     (let resolvedPath = resolvePath e c rawPath in
      if \<not> existsSync e resolvedPath then
        loadSkillsLoop fuel e c rest (pushDiagnostics st [warningAt ''skill path does not exist'' resolvedPath])
      else
        (case statSync e resolvedPath of
           Inl msg \<Rightarrow> loadSkillsLoop fuel e c rest (pushDiagnostics st [warningAt msg resolvedPath])
         | Inr stats \<Rightarrow>
             if stats = SDirectory then
               (case loadSkillsFromDirInternal fuel e resolvedPath ''path'' True None None of
                  None \<Rightarrow> None
                | Some (res, ig) \<Rightarrow> loadSkillsLoop fuel e c rest (addSkills e st res))
             else if stats = SFile \<and> endsWith resolvedPath ''.md'' then
               (let result = loadSkillFromFile e resolvedPath ''path'' in
                case skill result of
                  Some s \<Rightarrow>
                    loadSkillsLoop fuel e c rest
                      (addSkills e st \<lparr>skills = [s], diagnostics = fdiagnostics result\<rparr>)
                | None \<Rightarrow> loadSkillsLoop fuel e c rest (pushDiagnostics st (fdiagnostics result)))
             else loadSkillsLoop fuel e c rest st))"

definition loadSkills :: "nat \<Rightarrow> env \<Rightarrow> LoadSkillsOptions \<Rightarrow> LoadSkillsResult option" where
  "loadSkills fuel e options =
     (case loadSkillsLoop fuel e
             (case cwd options of None \<Rightarrow> process_cwd e | Some c \<Rightarrow> c)
             (case skillPaths options of None \<Rightarrow> [] | Some ps \<Rightarrow> ps) initialState of
        None \<Rightarrow> None
      | Some st \<Rightarrow> Some (finalResult st))"

text \<open>
  The loop of \<open>loadSkills\<close> in \<open>index\<close>: \<open>statSync\<close> is called outside any \<open>try\<close>, so its
  exception leaves \<open>loadSkills\<close>; \<open>Some (Inl msg)\<close> is that exception.
\<close>

fun loadSkillsLoop_index ::
    "nat \<Rightarrow> env \<Rightarrow> string \<Rightarrow> string list \<Rightarrow> LoaderState \<Rightarrow> (string + LoaderState) option" where
  "loadSkillsLoop_index fuel e c [] st = Some (Inr st)"
| "loadSkillsLoop_index fuel e c (rawPath # rest) st =
     (let resolvedPath = resolvePath e c rawPath in
      if \<not> existsSync e resolvedPath then
        loadSkillsLoop_index fuel e c rest (pushDiagnostics st [warningAt ''path not found'' resolvedPath])
      else
        (case statSync e resolvedPath of
           Inl msg \<Rightarrow> Some (Inl msg)
         | Inr stats \<Rightarrow>
             if stats = SDirectory then
               (case loadSkillsFromDir fuel e resolvedPath ''path'' True None None of
                  None \<Rightarrow> None
                | Some (res, ig) \<Rightarrow> loadSkillsLoop_index fuel e c rest (addSkills e st res))
             else if stats = SFile \<and> endsWith resolvedPath ''.md'' then
               (let res = loadSkillFromFile_index e resolvedPath ''path'' in
                case skill res of
                  Some s \<Rightarrow>
                    loadSkillsLoop_index fuel e c rest
                      (addSkills e st \<lparr>skills = [s], diagnostics = fdiagnostics res\<rparr>)
                | None \<Rightarrow> loadSkillsLoop_index fuel e c rest (pushDiagnostics st (fdiagnostics res)))
             else loadSkillsLoop_index fuel e c rest st))"

definition loadSkills_index :: "nat \<Rightarrow> env \<Rightarrow> LoadSkillsOptions \<Rightarrow> (string + LoadSkillsResult) option" where
  "loadSkills_index fuel e options =
     (case loadSkillsLoop_index fuel e
             (case cwd options of None \<Rightarrow> process_cwd e | Some c \<Rightarrow> c)
             (case skillPaths options of None \<Rightarrow> [] | Some ps \<Rightarrow> ps) initialState of
        None \<Rightarrow> None
      | Some (Inl msg) \<Rightarrow> Some (Inl msg)
      | Some (Inr st) \<Rightarrow> Some (Inr (finalResult st)))"

section \<open>Notions the properties are stated with\<close>

text \<open>The named XML entity of a character, or the character itself when it has none.\<close>

definition xmlEntity :: "char \<Rightarrow> string" where
  "xmlEntity c =
     (if c = CHR ''&'' then ''&amp;''
      else if c = CHR ''<'' then ''&lt;''
      else if c = CHR ''>'' then ''&gt;''
      else if c = CHR 0x22 then ''&quot;''
      else if c = CHR 0x27 then ''&apos;''
      else [c])"

text \<open>The number of positions of a text at which a pattern occurs.\<close>

fun occurrences :: "string \<Rightarrow> string \<Rightarrow> nat" where
  "occurrences p [] = 0"
| "occurrences p (c # cs) = (if prefix p (c # cs) then 1 else 0) + occurrences p cs"

text \<open>The text of one \<open><skill>\<close> block, with every field written entity by entity.\<close>

definition blockText :: "Skill \<Rightarrow> string" where
  "blockText s = ''  <skill>'' @ [LF] @ ''    <name>'' @ concat (map xmlEntity (name s)) @ ''</name>'' @ [LF]
     @ ''    <description>'' @ concat (map xmlEntity (description s)) @ ''</description>'' @ [LF]
     @ ''    <location>'' @ concat (map xmlEntity (filePath s)) @ ''</location>'' @ [LF] @ ''  </skill>''"

text \<open>
  The invariant of the loader's \<open>Map\<close>: its keys are distinct and each skill is stored
  under its own name.
\<close>

definition namesOk :: "LoaderState \<Rightarrow> bool" where
  "namesOk st = (distinct (map fst (skillMap st)) \<and> (\<forall>(k, s) \<in> set (skillMap st). name s = k))"


text \<open>Every skill the loader has recorded has a description that is not blank.\<close>

definition describedOk :: "LoaderState \<Rightarrow> bool" where
  "describedOk st = (\<forall>(k, s) \<in> set (skillMap st). description s \<noteq> [] \<and> trim (description s) \<noteq> [])"

text \<open>
  A file is a candidate of a walk of \<open>dir\<close> when it is named \<open>SKILL.md\<close>, or lies directly in
  \<open>dir\<close> with a name ending in \<open>.md\<close> and the walk includes root files. A result comes from
  candidates when each of its skills and diagnostics was returned by the skill parser
  for a candidate file.
\<close>

definition candidatePath :: "string \<Rightarrow> bool \<Rightarrow> string \<Rightarrow> string \<Rightarrow> bool" where
  "candidatePath dir includeRootFiles d n =
     (n = ''SKILL.md'' \<or> (includeRootFiles \<and> d = dir \<and> endsWith n ''.md''))"

definition fromCandidates ::
    "(env \<Rightarrow> string \<Rightarrow> string \<Rightarrow> FileResult) \<Rightarrow> env \<Rightarrow> string \<Rightarrow> string \<Rightarrow> bool
      \<Rightarrow> LoadSkillsResult \<Rightarrow> bool" where
  "fromCandidates parser e src dir includeRootFiles r =
     ((\<forall>s \<in> set (skills r).
         \<exists>d n. skill (parser e (join e d n) src) = Some s \<and> candidatePath dir includeRootFiles d n)
      \<and> (\<forall>x \<in> set (diagnostics r).
         \<exists>d n. x \<in> set (fdiagnostics (parser e (join e d n) src)) \<and> candidatePath dir includeRootFiles d n))"

text \<open>
  A filesystem is ranked when every entry of a directory listing has a smaller rank than
  the directory: its directory tree, as listings show it, has no infinite descent.
\<close>

definition ranked :: "env \<Rightarrow> (string \<Rightarrow> nat) \<Rightarrow> bool" where
  "ranked e rank =
     (\<forall>d es. readdirSync e d = Inr es \<longrightarrow> (\<forall>en \<in> set es. rank (join e d (d_name en)) < rank d))"

section \<open>A small environment to run the model on\<close>

text \<open>
  A POSIX instance of the environment over a handful of files, for evaluating the
  definitions at concrete inputs. The path functions are those of \<open>node:path\<close> on
  normalized absolute paths; the matcher knows literal patterns only: a path is ignored
  when it is one of the patterns, with or without a trailing slash. The YAML parser knows
  the three frontmatter blocks the files use.

  \<^item> \<open>/r\<close> lists \<open>bar\<close>, \<open>foo\<close>, \<open>a.md\<close> and \<open>.h.md\<close>; \<open>/r/bar\<close> lists \<open>.gitignore\<close> (the one rule
    \<open>foo\<close>) and \<open>foo\<close>; \<open>/r/bar/foo\<close> and \<open>/r/foo\<close> each hold a \<open>SKILL.md\<close>.
  \<^item> \<open>/r/a.md\<close> names its skill \<open>foo\<close>; \<open>/l.md\<close> is a symbolic link to it.
  \<^item> \<open>/b/SKILL.md\<close> has a description of two spaces; \<open>/c/SKILL.md\<close> is a plain skill.
  \<^item> \<open>/gone.md\<close> passes the existence check and is gone when \<open>stat\<close> is called.
  \<^item> \<open>/m/sub/.ignore\<close> has five lines: a comment, a blank line, \<open>x\<close> ended by \<open>\r\n\<close>, \<open>!/y\<close>
    and \<open>/z\<close>.
\<close>

definition docD :: string where
  "docD = ''---'' @ [LF] @ ''description: d'' @ [LF] @ ''---'' @ [LF] @ ''Body''"

definition docFoo :: string where
  "docFoo = ''---'' @ [LF] @ ''name: foo'' @ [LF] @ ''description: d'' @ [LF] @ ''---'' @ [LF] @ ''Body''"

definition docBlank :: string where
  \<open>docBlank = ''---'' @ [LF] @ ''description: "  "'' @ [LF] @ ''---'' @ [LF] @ ''Body''\<close>

definition demoFiles :: "(string \<times> string) list" where
  "demoFiles =
     [(''/r/bar/.gitignore'', ''foo''),
      (''/r/bar/foo/SKILL.md'', docD),
      (''/r/foo/SKILL.md'', docD),
      (''/r/a.md'', docFoo),
      (''/r/.h.md'', docD),
      (''/l.md'', docFoo),
      (''/b/SKILL.md'', docBlank),
      (''/c/SKILL.md'', docD),
      (''/m/sub/.ignore'', ''# c'' @ [LF, LF] @ ''x'' @ [CR, LF] @ ''!/y'' @ [LF] @ ''/z'')]"

definition demoDirs :: "(string \<times> Dirent list) list" where
  "demoDirs =
     [(''/r'', [\<lparr>d_name = ''bar'', d_kind = DDirectory\<rparr>, \<lparr>d_name = ''foo'', d_kind = DDirectory\<rparr>,
               \<lparr>d_name = ''a.md'', d_kind = DFile\<rparr>, \<lparr>d_name = ''.h.md'', d_kind = DFile\<rparr>]),
      (''/r/bar'', [\<lparr>d_name = ''.gitignore'', d_kind = DFile\<rparr>, \<lparr>d_name = ''foo'', d_kind = DDirectory\<rparr>]),
      (''/r/bar/foo'', [\<lparr>d_name = ''SKILL.md'', d_kind = DFile\<rparr>]),
      (''/r/foo'', [\<lparr>d_name = ''SKILL.md'', d_kind = DFile\<rparr>]),
      (''/b'', [\<lparr>d_name = ''SKILL.md'', d_kind = DFile\<rparr>]),
      (''/c'', [\<lparr>d_name = ''SKILL.md'', d_kind = DFile\<rparr>])]"

definition demoYaml :: yamlParser where
  \<open>demoYaml y =
     (if y = ''description: d'' then Inr (Some \<lparr>fm_name = None, fm_description = Some ''d'', fm_disable = False\<rparr>)
      else if y = ''name: foo'' @ [LF] @ ''description: d''
      then Inr (Some \<lparr>fm_name = Some ''foo'', fm_description = Some ''d'', fm_disable = False\<rparr>)
      else if y = ''description: "  "''
      then Inr (Some \<lparr>fm_name = None, fm_description = Some ''  '', fm_disable = False\<rparr>)
      else Inl ''bad yaml'')\<close>

definition demoEnv :: env where
  "demoEnv =
     \<lparr>existsSync = (\<lambda>p. p = ''/gone.md'' \<or> p \<in> set (map fst demoFiles) \<or> p \<in> set (map fst demoDirs)),
      statSync = (\<lambda>p. if p \<in> set (map fst demoDirs) then Inr SDirectory
                       else if p \<in> set (map fst demoFiles) then Inr SFile
                       else Inl ''ENOENT: no such file or directory''),
      readdirSync = (\<lambda>p. case map_of demoDirs p of
                             Some es \<Rightarrow> Inr es
                           | None \<Rightarrow> Inl ''ENOTDIR: not a directory''),
      readFileSync = (\<lambda>p. case map_of demoFiles p of
                              Some c \<Rightarrow> Inr c
                            | None \<Rightarrow> Inl ''ENOENT: no such file or directory''),
      realpathSync = (\<lambda>p. if p = ''/l.md'' then Inr ''/r/a.md''
                           else if p \<in> set (map fst demoFiles) \<or> p \<in> set (map fst demoDirs) then Inr p
                           else Inl ''ENOENT: no such file or directory''),
      parse = demoYaml,
      ignores = (\<lambda>ps p. list_ex (\<lambda>q. p = q \<or> p = q @ ''/'') ps),
      join = (\<lambda>d n. d @ ''/'' @ n),
      relative = (\<lambda>r p. if p = r then [] else drop (length r + 1) p),
      dirname = (\<lambda>p. let d = rev (drop 1 (dropWhile (\<lambda>c. c \<noteq> CHR ''/'') (rev p)))
                      in if d = [] then ''/'' else d),
      basename = (\<lambda>p. rev (takeWhile (\<lambda>c. c \<noteq> CHR ''/'') (rev p))),
      resolve = (\<lambda>c p. c @ ''/'' @ p),
      isAbsolute = (\<lambda>p. startsWith p ''/''),
      sep = CHR ''/'',
      process_cwd = ''/w''\<rparr>"

text \<open>The skills these files yield, and the loader's state once \<open>/r/foo/SKILL.md\<close> is kept.\<close>

definition skFoo :: Skill where
  "skFoo = \<lparr>name = ''foo'', description = ''d'', filePath = ''/r/foo/SKILL.md'', baseDir = ''/r/foo'',
            source = ''path'', disableModelInvocation = False\<rparr>"

definition skA :: Skill where
  "skA = \<lparr>name = ''foo'', description = ''d'', filePath = ''/r/a.md'', baseDir = ''/r'',
          source = ''path'', disableModelInvocation = False\<rparr>"

definition skL :: Skill where
  "skL = \<lparr>name = ''foo'', description = ''d'', filePath = ''/l.md'', baseDir = ''/'',
          source = ''path'', disableModelInvocation = False\<rparr>"

definition skC :: Skill where
  "skC = \<lparr>name = ''c'', description = ''d'', filePath = ''/c/SKILL.md'', baseDir = ''/c'',
          source = ''path'', disableModelInvocation = False\<rparr>"

definition stFoo :: LoaderState where
  "stFoo = \<lparr>skillMap = [(''foo'', skFoo)], realPathSet = {''/r/foo/SKILL.md''},
            allDiagnostics = [], collisionDiagnostics = []\<rparr>"

section \<open>Properties of the string functions\<close>


lemma char_in_range:
  assumes "a \<le> (of_char c :: nat)" "(of_char c :: nat) < b"
  shows "c \<in> set (map char_of [a..<b])"
proof -
  have "(of_char c :: nat) \<in> set [a..<b]" using assms by simp
  then have "char_of (of_char c :: nat) \<in> char_of ` set [a..<b]" by (rule imageI)
  then show ?thesis by simp
qed

lemma lower_chars: "map char_of [97..<123::nat] = ''abcdefghijklmnopqrstuvwxyz''"
  by code_simp

lemma digit_chars: "map char_of [48..<58::nat] = ''0123456789''"
  by code_simp

lemma isNameChar_set: "isNameChar c \<longleftrightarrow> c \<in> set ''abcdefghijklmnopqrstuvwxyz0123456789-''"
proof
  assume h: "isNameChar c"
  have "c \<in> set ''abcdefghijklmnopqrstuvwxyz'' \<or> c \<in> set ''0123456789'' \<or> c = CHR ''-''"
    using h char_in_range[of 97 c 123] char_in_range[of 48 c 58]
    unfolding isNameChar_def lower_chars digit_chars by linarith
  then show "c \<in> set ''abcdefghijklmnopqrstuvwxyz0123456789-''" by auto
next
  assume "c \<in> set ''abcdefghijklmnopqrstuvwxyz0123456789-''"
  then show "isNameChar c" unfolding isNameChar_def by auto
qed

lemma showNat_64: "showNat 64 = ''64''"
  by (simp add: showNat.simps[of 64] showNat.simps[of 6])


lemma startsWith_prefix: "startsWith s p \<longleftrightarrow> prefix p s"
  unfolding startsWith_def
  by (metis append_eq_conv_conj prefix_def append_take_drop_id)

lemma endsWith_suffix: "endsWith s p \<longleftrightarrow> suffix p s"
  unfolding endsWith_def suffix_def
  by (auto simp: ) (metis append_take_drop_id)

lemma str_includes_sublist: "str_includes s p \<longleftrightarrow> sublist p s"
  by (induction s) (auto simp: startsWith_prefix sublist_Cons_right)

lemma nameRegexTest_iff:
  "nameRegexTest n \<longleftrightarrow> n \<noteq> [] \<and> set n \<subseteq> set ''abcdefghijklmnopqrstuvwxyz0123456789-''"
  unfolding nameRegexTest_def list_all_iff isNameChar_set by blast


section \<open>Name validation\<close>

text \<open>
  The exported \<open>validateName\<close> of \<open>index\<close> has no hyphen checks: a name that starts and
  ends with a hyphen and has two hyphens in a row passes it.
\<close>

lemma validateName_index_hyphens: "validateName_index ''-a--b-'' ''-a--b-'' = []"
  by (simp add: validateName_index_def nameRegexTest_def isNameChar_def MAX_NAME_LENGTH_def)

text \<open>
  C4, as amended. For every name and parent directory name, \<open>validateName\<close> (the version
  with five checks) returns one error for each of exactly these conditions: the name
  differs from the parent directory name; its length exceeds 64; it is empty or has a
  character outside \<open>[a-z0-9-]\<close>; it starts or ends with \<open>-\<close>; it contains \<open>--\<close>. It returns
  no other error, so the number of errors is the number of conditions that hold.
\<close>

theorem validateName_errors:
  \<open>(''name "'' @ n @ ''" does not match parent directory "'' @ p @ ''"'' \<in> set (validateName n p)
      \<longleftrightarrow> n \<noteq> p)
   \<and> (''name exceeds 64 characters ('' @ showNat (length n) @ '')'' \<in> set (validateName n p)
      \<longleftrightarrow> 64 < length n)
   \<and> (''name contains invalid characters (must be lowercase a-z, 0-9, hyphens only)'' \<in> set (validateName n p)
      \<longleftrightarrow> n = [] \<or> \<not> set n \<subseteq> set ''abcdefghijklmnopqrstuvwxyz0123456789-'')
   \<and> (''name must not start or end with a hyphen'' \<in> set (validateName n p)
      \<longleftrightarrow> prefix ''-'' n \<or> suffix ''-'' n)
   \<and> (''name must not contain consecutive hyphens'' \<in> set (validateName n p)
      \<longleftrightarrow> sublist ''--'' n)
   \<and> length (validateName n p) =
       (if n \<noteq> p then 1 else 0) + (if 64 < length n then 1 else 0)
       + (if n = [] \<or> \<not> set n \<subseteq> set ''abcdefghijklmnopqrstuvwxyz0123456789-'' then 1 else 0)
       + (if prefix ''-'' n \<or> suffix ''-'' n then 1 else 0)
       + (if sublist ''--'' n then 1 else 0)\<close>
  unfolding validateName_def msgNameMismatch_def MAX_NAME_LENGTH_def showNat_64
    nameRegexTest_iff startsWith_prefix endsWith_suffix str_includes_sublist
  by (simp (no_asm))

theorem validateName_errors_witness:
  \<open>''name must not start or end with a hyphen'' \<in> set (validateName ''-a'' ''-a'')
   \<and> length (validateName ''-a'' ''-a'') = 1\<close>
  using validateName_errors[of "''-a''" "''-a''"] by (simp add: sublist_Cons_right)

text \<open>
  The claim as first stated has no error for a name that is empty: the empty name equals
  an empty parent directory name, is not longer than 64, has no character at all and no
  hyphen, and still gets the error of the character check.
\<close>

theorem validateName_empty_counterexample:
  "validateName '''' '''' = [''name contains invalid characters (must be lowercase a-z, 0-9, hyphens only)'']"
  by (simp add: validateName_def nameRegexTest_def startsWith_def endsWith_def MAX_NAME_LENGTH_def)

section \<open>Prompt formatting and escaping\<close>


lemma replaceChar_append: "replaceChar c r (a @ b) = replaceChar c r a @ replaceChar c r b"
  by (simp add: replaceChar_def)

lemma replaceChar_Cons: "replaceChar c r (x # xs) = (if x = c then r else [x]) @ replaceChar c r xs"
  by (simp add: replaceChar_def)

lemma replaceChar_Nil: "replaceChar c r [] = []"
  by (simp add: replaceChar_def)

lemma escapeXml_Cons: "escapeXml (x # xs) = xmlEntity x @ escapeXml xs"
  by (simp add: escapeXml_def xmlEntity_def replaceChar_Cons replaceChar_append replaceChar_Nil)

lemma escapeXml_entities: "escapeXml str = concat (map xmlEntity str)"
  by (induction str) (simp_all add: escapeXml_Cons, simp add: escapeXml_def replaceChar_Nil)

lemma xmlEntity_no_lt: "CHR ''<'' \<notin> set (xmlEntity c)"
  by (simp add: xmlEntity_def)

lemma escapeXml_no_lt: "CHR ''<'' \<notin> set (escapeXml str)"
  by (simp add: escapeXml_entities xmlEntity_no_lt)

lemma occurrences_skip:
  "CHR ''<'' \<notin> set xs \<Longrightarrow> occurrences ''<skill>'' (xs @ ys) = occurrences ''<skill>'' ys"
  by (induction xs) auto

lemma occ_esc: "occurrences ''<skill>'' (escapeXml x @ ys) = occurrences ''<skill>'' ys"
  by (rule occurrences_skip[OF escapeXml_no_lt])

lemma joinWith_Cons: "xs \<noteq> [] \<Longrightarrow> joinWith d (x # xs) = x @ d @ joinWith d xs"
  by (cases xs) auto

lemma joinWith_skillLines:
  "rest \<noteq> [] \<Longrightarrow> joinWith [LF] (skillLines s @ rest) = blockText s @ [LF] @ joinWith [LF] rest"
  by (simp add: skillLines_def blockText_def joinWith_Cons escapeXml_entities)

lemma occ_block: "occurrences ''<skill>'' (blockText s @ LF # ys) = Suc (occurrences ''<skill>'' ys)"
  unfolding blockText_def escapeXml_entities[symmetric]
  by (simp add: occ_esc)

lemma occ_blocks:
  "occurrences ''<skill>'' (joinWith [LF] (concat (map skillLines vs) @ [''</available_skills>''])) = length vs"
proof (induction vs)
  case Nil
  show ?case by simp
next
  case (Cons v vs)
  have "joinWith [LF] (concat (map skillLines (v # vs)) @ [''</available_skills>''])
        = blockText v @ [LF] @ joinWith [LF] (concat (map skillLines vs) @ [''</available_skills>''])"
    using joinWith_skillLines[of "concat (map skillLines vs) @ [''</available_skills>'']" v] by simp
  then show ?case using Cons.IH by (simp add: occ_block)
qed

lemma occ_preamble:
  "rest \<noteq> [] \<Longrightarrow> occurrences ''<skill>'' (joinWith [LF] (preambleLines @ rest)) = occurrences ''<skill>'' (joinWith [LF] rest)"
proof -
  assume r: "rest \<noteq> []"
  obtain pre where pre: "joinWith [LF] (preambleLines @ rest) = pre @ ''<available_skills>'' @ LF # joinWith [LF] rest"
    and nolt: "CHR ''<'' \<notin> set pre"
    using r by (simp add: preambleLines_def joinWith_Cons)
  show ?thesis unfolding pre occurrences_skip[OF nolt] by simp
qed

lemma joinWith_append:
  "xs \<noteq> [] \<Longrightarrow> ys \<noteq> [] \<Longrightarrow> joinWith d (xs @ ys) = joinWith d xs @ d @ joinWith d ys"
  by (induction d xs rule: joinWith.induct) (auto simp: joinWith_Cons)

text \<open>
  C7. \<open>formatSkillsForPrompt\<close> returns the empty string when every skill is disabled
  (the empty list included). The text \<open><skill>\<close> occurs in its output exactly as many
  times as there are skills with \<open>disableModelInvocation\<close> not true, and for each of
  those skills the output contains its block, in which the name, the description and
  the file path have each of \<open>& < > " '\<close> replaced by its named entity.
\<close>
theorem formatSkillsForPrompt_blocks:
  "((\<forall>s \<in> set sks. disableModelInvocation s) \<longrightarrow> formatSkillsForPrompt sks = [])
   \<and> occurrences ''<skill>'' (formatSkillsForPrompt sks)
       = length (filter (\<lambda>s. \<not> disableModelInvocation s) sks)
   \<and> (\<forall>s \<in> set sks. \<not> disableModelInvocation s \<longrightarrow>
         sublist (''  <skill>'' @ [LF]
                  @ ''    <name>'' @ concat (map xmlEntity (name s)) @ ''</name>'' @ [LF]
                  @ ''    <description>'' @ concat (map xmlEntity (description s)) @ ''</description>'' @ [LF]
                  @ ''    <location>'' @ concat (map xmlEntity (filePath s)) @ ''</location>'' @ [LF]
                  @ ''  </skill>'')
           (formatSkillsForPrompt sks))"
proof (intro conjI impI ballI)
  assume "\<forall>s \<in> set sks. disableModelInvocation s"
  then have "filter (\<lambda>s. \<not> disableModelInvocation s) sks = []" by (simp add: filter_empty_conv)
  then show "formatSkillsForPrompt sks = []" by (simp add: formatSkillsForPrompt_def)
next
  show "occurrences ''<skill>'' (formatSkillsForPrompt sks)
       = length (filter (\<lambda>s. \<not> disableModelInvocation s) sks)"
  proof (cases "filter (\<lambda>s. \<not> disableModelInvocation s) sks = []")
    case True
    then show ?thesis by (simp add: formatSkillsForPrompt_def)
  next
    case False
    then show ?thesis
      using occ_preamble[of "concat (map skillLines (filter (\<lambda>s. \<not> disableModelInvocation s) sks)) @ [''</available_skills>'']"]
      by (simp add: formatSkillsForPrompt_def Let_def occ_blocks)
  qed
next
  fix s assume s: "s \<in> set sks" and v: "\<not> disableModelInvocation s"
  let ?vis = "filter (\<lambda>s. \<not> disableModelInvocation s) sks"
  have sv: "s \<in> set ?vis" using s v by simp
  then obtain as bs where split: "?vis = as @ s # bs" by (meson split_list)
  have ne: "?vis \<noteq> []" using split by simp
  have out: "formatSkillsForPrompt sks
             = joinWith [LF] ((preambleLines @ concat (map skillLines as)) @ skillLines s
                               @ (concat (map skillLines bs) @ [''</available_skills>'']))"
    using ne by (simp add: formatSkillsForPrompt_def Let_def split)
  have "formatSkillsForPrompt sks
        = joinWith [LF] (preambleLines @ concat (map skillLines as)) @ [LF]
          @ blockText s @ [LF] @ joinWith [LF] (concat (map skillLines bs) @ [''</available_skills>''])"
    unfolding out
    by (subst joinWith_append) (simp_all add: preambleLines_def joinWith_skillLines)
  then show "sublist (''  <skill>'' @ [LF]
                  @ ''    <name>'' @ concat (map xmlEntity (name s)) @ ''</name>'' @ [LF]
                  @ ''    <description>'' @ concat (map xmlEntity (description s)) @ ''</description>'' @ [LF]
                  @ ''    <location>'' @ concat (map xmlEntity (filePath s)) @ ''</location>'' @ [LF]
                  @ ''  </skill>'')
           (formatSkillsForPrompt sks)"
    unfolding blockText_def[symmetric] sublist_def by (metis append.assoc)
qed

theorem formatSkillsForPrompt_blocks_witness:
  "occurrences ''<skill>''
     (formatSkillsForPrompt
        [\<lparr>name = ''a<b'', description = ''d'', filePath = ''/r/a.md'', baseDir = ''/r'',
          source = ''path'', disableModelInvocation = False\<rparr>,
         \<lparr>name = ''c'', description = ''d'', filePath = ''/r/c.md'', baseDir = ''/r'',
          source = ''path'', disableModelInvocation = True\<rparr>]) = 1
   \<and> formatSkillsForPrompt
        [\<lparr>name = ''c'', description = ''d'', filePath = ''/r/c.md'', baseDir = ''/r'',
          source = ''path'', disableModelInvocation = True\<rparr>] = []
   \<and> sublist (''  <skill>'' @ [LF] @ ''    <name>a&lt;b</name>'' @ [LF]
                @ ''    <description>d</description>'' @ [LF]
                @ ''    <location>/r/a.md</location>'' @ [LF] @ ''  </skill>'')
        (formatSkillsForPrompt
           [\<lparr>name = ''a<b'', description = ''d'', filePath = ''/r/a.md'', baseDir = ''/r'',
             source = ''path'', disableModelInvocation = False\<rparr>,
            \<lparr>name = ''c'', description = ''d'', filePath = ''/r/c.md'', baseDir = ''/r'',
             source = ''path'', disableModelInvocation = True\<rparr>])"
  using formatSkillsForPrompt_blocks
          [of "[\<lparr>name = ''a<b'', description = ''d'', filePath = ''/r/a.md'', baseDir = ''/r'',
                  source = ''path'', disableModelInvocation = False\<rparr>,
                \<lparr>name = ''c'', description = ''d'', filePath = ''/r/c.md'', baseDir = ''/r'',
                  source = ''path'', disableModelInvocation = True\<rparr>]"]
        formatSkillsForPrompt_blocks
          [of "[\<lparr>name = ''c'', description = ''d'', filePath = ''/r/c.md'', baseDir = ''/r'',
                  source = ''path'', disableModelInvocation = True\<rparr>]"]
  by (simp add: xmlEntity_def)

section \<open>Frontmatter extraction\<close>


lemma replaceChar_removes: "c \<notin> set r \<Longrightarrow> c \<notin> set (replaceChar c r s)"
  by (induction s) (auto simp: replaceChar_def)

lemma normalizeNewlines_no_CR: "CR \<notin> set (normalizeNewlines v)"
  unfolding normalizeNewlines_def by (rule replaceChar_removes) simp

lemma replaceCRLF_id: "CR \<notin> set v \<Longrightarrow> replaceCRLF v = v"
  by (induction v rule: replaceCRLF.induct) auto

lemma replaceChar_id: "c \<notin> set v \<Longrightarrow> replaceChar c r v = v"
  by (induction v) (auto simp: replaceChar_def)

lemma normalizeNewlines_id: "CR \<notin> set v \<Longrightarrow> normalizeNewlines v = v"
  by (simp add: normalizeNewlines_def replaceCRLF_id replaceChar_id)

lemma normalizeNewlines_CRLF: "normalizeNewlines (CR # LF # v) = LF # normalizeNewlines v"
  by (simp add: normalizeNewlines_def replaceChar_def)

lemma normalizeNewlines_CR:
  "\<not> prefix [LF] v \<Longrightarrow> normalizeNewlines (CR # v) = LF # normalizeNewlines v"
  by (cases v) (simp_all add: normalizeNewlines_def replaceChar_def)

lemma normalizeNewlines_other:
  "d \<noteq> CR \<Longrightarrow> normalizeNewlines (d # v) = d # normalizeNewlines v"
  by (cases v) (simp_all add: normalizeNewlines_def replaceChar_def)

lemma findFrom_first:
  "(\<forall>i<length a. \<not> prefix p (drop i (a @ p @ b))) \<Longrightarrow> findFrom p (a @ p @ b) k = Some (k + length a)"
proof (induction a arbitrary: k)
  case Nil
  show ?case
  proof (cases "p @ b")
    case Nil
    then show ?thesis by simp
  next
    case (Cons x l)
    have "prefix p (x # l)" unfolding Cons[symmetric] by simp
    then have "findFrom p (x # l) k = Some k" by (simp add: startsWith_prefix)
    then show ?thesis by (simp add: Cons)
  qed
next
  case (Cons x a)
  from Cons.prems have "\<not> prefix p ((x # a) @ p @ b)" by force
  moreover have "\<forall>i<length a. \<not> prefix p (drop i (a @ p @ b))"
  proof (intro allI impI)
    fix i assume "i < length a"
    then have "\<not> prefix p (drop (Suc i) ((x # a) @ p @ b))" using Cons.prems by force
    then show "\<not> prefix p (drop i (a @ p @ b))" by simp
  qed
  ultimately show ?case using Cons.IH[of "Suc k"] by (simp add: startsWith_prefix)
qed

lemma findFrom_none:
  "(\<forall>i. \<not> prefix p (drop i s)) \<Longrightarrow> findFrom p s k = None"
proof (induction s arbitrary: k)
  case Nil
  from Nil[rule_format, of 0] show ?case by simp
next
  case (Cons x s)
  from Cons.prems[rule_format, of 0] have "\<not> prefix p (x # s)" by simp
  moreover have "\<forall>i. \<not> prefix p (drop i s)"
    using Cons.prems[rule_format, of "Suc _"] by simp
  ultimately show ?case using Cons.IH by (simp add: startsWith_prefix)
qed

text \<open>
  C5, as amended. For every input string, \<open>extractFrontmatter\<close> first normalizes line
  endings to \<open>\n\<close>: reading from the left, a carriage return followed by a newline
  becomes one newline, any other carriage return becomes a newline, and every other
  character is kept; so no carriage return is left, and a text without one is
  unchanged. If the normalized text does not begin with \<open>---\<close>, or begins with \<open>---\<close> and
  has no newline followed by \<open>---\<close> at index 3 or later, it returns no YAML block and the
  whole normalized text as body. Otherwise the YAML block is the text after the opening \<open>---\<close>
  and the one character \<open>c\<close> that follows it, up to the first newline followed by \<open>---\<close>
  found from index 3, and the body is everything after that closing delimiter, trimmed:
  for a text that begins with \<open>---\n\<close> this is exactly the text strictly between the
  opening \<open>---\n\<close> and the closing \<open>\n---\<close>. When the closing newline is the character
  right after the opening \<open>---\<close>, the YAML block is empty.
\<close>

theorem extractFrontmatter_cases:
  "CR \<notin> set (normalizeNewlines content)
   \<and> (CR \<notin> set content \<longrightarrow> normalizeNewlines content = content)
   \<and> normalizeNewlines [] = []
   \<and> normalizeNewlines (CR # LF # v) = LF # normalizeNewlines v
   \<and> (\<not> prefix [LF] v \<longrightarrow> normalizeNewlines (CR # v) = LF # normalizeNewlines v)
   \<and> (d \<noteq> CR \<longrightarrow> normalizeNewlines (d # v) = d # normalizeNewlines v)
   \<and> (\<not> prefix ''---'' (normalizeNewlines content) \<longrightarrow>
        extractFrontmatter content = \<lparr>yamlString = None, body = normalizeNewlines content\<rparr>)
   \<and> (prefix ''---'' (normalizeNewlines content)
        \<and> (\<forall>k\<ge>3. \<not> prefix (LF # ''---'') (drop k (normalizeNewlines content))) \<longrightarrow>
        extractFrontmatter content = \<lparr>yamlString = None, body = normalizeNewlines content\<rparr>)
   \<and> (normalizeNewlines content = ''---'' @ [c] @ y @ LF # ''---'' @ rest
        \<and> (\<forall>k. 3 \<le> k \<and> k < 4 + length y \<longrightarrow> \<not> prefix (LF # ''---'') (drop k (normalizeNewlines content))) \<longrightarrow>
        extractFrontmatter content = \<lparr>yamlString = Some y, body = trim rest\<rparr>)
   \<and> (normalizeNewlines content = ''---'' @ LF # ''---'' @ rest \<longrightarrow>
        extractFrontmatter content = \<lparr>yamlString = Some [], body = trim rest\<rparr>)"
proof (intro conjI impI)
  show "CR \<notin> set (normalizeNewlines content)" by (rule normalizeNewlines_no_CR)
next
  assume "CR \<notin> set content" then show "normalizeNewlines content = content"
    by (rule normalizeNewlines_id)
next
  show "normalizeNewlines [] = []" by (simp add: normalizeNewlines_def replaceChar_def)
next
  show "normalizeNewlines (CR # LF # v) = LF # normalizeNewlines v" by (rule normalizeNewlines_CRLF)
next
  assume "\<not> prefix [LF] v" then show "normalizeNewlines (CR # v) = LF # normalizeNewlines v"
    by (rule normalizeNewlines_CR)
next
  assume "d \<noteq> CR" then show "normalizeNewlines (d # v) = d # normalizeNewlines v"
    by (rule normalizeNewlines_other)
next
  assume "\<not> prefix ''---'' (normalizeNewlines content)"
  then show "extractFrontmatter content = \<lparr>yamlString = None, body = normalizeNewlines content\<rparr>"
    by (simp add: extractFrontmatter_def Let_def startsWith_prefix)
next
  let ?n = "normalizeNewlines content"
  assume h: "prefix ''---'' ?n \<and> (\<forall>k\<ge>3. \<not> prefix (LF # ''---'') (drop k ?n))"
  then have "\<forall>i. \<not> prefix (LF # ''---'') (drop i (drop 3 ?n))" by simp
  then have "findFrom (LF # ''---'') (drop 3 ?n) (min 3 (length ?n)) = None" by (rule findFrom_none)
  then show "extractFrontmatter content = \<lparr>yamlString = None, body = ?n\<rparr>"
    using h by (simp add: extractFrontmatter_def Let_def startsWith_prefix indexOf_def)
next
  let ?n = "normalizeNewlines content"
  assume h: "?n = ''---'' @ [c] @ y @ LF # ''---'' @ rest
        \<and> (\<forall>k. 3 \<le> k \<and> k < 4 + length y \<longrightarrow> \<not> prefix (LF # ''---'') (drop k ?n))"
  then have n: "?n = ''---'' @ (c # y) @ (LF # ''---'') @ rest" by simp
  have d3: "drop 3 ?n = (c # y) @ (LF # ''---'') @ rest" by (subst n) simp
  have "\<forall>i<length (c # y). \<not> prefix (LF # ''---'') (drop i ((c # y) @ (LF # ''---'') @ rest))"
  proof (intro allI impI)
    fix i assume "i < length (c # y)"
    then have "3 \<le> 3 + i \<and> 3 + i < 4 + length y" by simp
    then have "\<not> prefix (LF # ''---'') (drop (3 + i) ?n)" using conjunct2[OF h] by blast
    then show "\<not> prefix (LF # ''---'') (drop i ((c # y) @ (LF # ''---'') @ rest))"
      unfolding d3[symmetric] by (simp add: add.commute)
  qed
  then have ff: "findFrom (LF # ''---'') ((c # y) @ (LF # ''---'') @ rest) 3 = Some (3 + length (c # y))"
    by (rule findFrom_first)
  have len: "min 3 (length ?n) = 3" by (subst n)+ simp
  have e: "4 + length y = 3 + length (c # y)" by simp
  have io: "indexOf ?n (LF # ''---'') 3 = Some (4 + length y)"
    unfolding indexOf_def d3 len e by (rule ff)
  have sw: "startsWith ?n ''---''" by (subst n) (simp add: startsWith_def)
  have e4: "4 + length y = Suc (Suc (Suc (Suc (length y))))" by simp
  have s1: "slice ?n 4 (4 + length y) = y" unfolding e4 slice_def by (subst n)+ simp
  have s2: "sliceFrom ?n (4 + length y + 4) = rest"
  proof -
    have "?n = ((''---'' @ [c]) @ y @ (LF # ''---'')) @ rest" by (subst n) simp
    moreover have "length ((''---'' @ [c]) @ y @ (LF # ''---'')) = 4 + length y + 4" by simp
    ultimately show ?thesis unfolding sliceFrom_def by (metis append_eq_conv_conj)
  qed
  show "extractFrontmatter content = \<lparr>yamlString = Some y, body = trim rest\<rparr>"
    unfolding extractFrontmatter_def Let_def using sw io s1 s2 by simp
next
  let ?n = "normalizeNewlines content"
  assume n: "?n = ''---'' @ LF # ''---'' @ rest"
  have io: "indexOf ?n (LF # ''---'') 3 = Some 3"
    unfolding indexOf_def by (subst n)+ (simp add: startsWith_def)
  have sw: "startsWith ?n ''---''" by (subst n) (simp add: startsWith_def)
  have s1: "slice ?n 4 3 = []" by (simp add: slice_def)
  have s2: "sliceFrom ?n (3 + 4) = rest" by (subst n)+ (simp add: sliceFrom_def)
  show "extractFrontmatter content = \<lparr>yamlString = Some [], body = trim rest\<rparr>"
    unfolding extractFrontmatter_def Let_def using sw io s1 s2 by simp
qed

theorem extractFrontmatter_cases_witness:
  "extractFrontmatter (''---'' @ [LF] @ ''a'' @ [CR, LF] @ ''---'' @ [LF] @ ''B '')
     = \<lparr>yamlString = Some ''a'', body = ''B''\<rparr>
   \<and> extractFrontmatter ''Body'' = \<lparr>yamlString = None, body = ''Body''\<rparr>
   \<and> normalizeNewlines ([CR] @ ''b'' @ [CR, LF] @ ''c'') = [LF] @ ''b'' @ [LF] @ ''c''"
proof (intro conjI)
  let ?c = "''---'' @ [LF] @ ''a'' @ [CR, LF] @ ''---'' @ [LF] @ ''B ''"
  have n: "normalizeNewlines ?c = ''---'' @ [LF] @ ''a'' @ LF # ''---'' @ (LF # ''B '')"
    by (simp add: normalizeNewlines_def replaceChar_def)
  have first: "\<forall>k. 3 \<le> k \<and> k < 4 + length ''a'' \<longrightarrow>
                 \<not> prefix (LF # ''---'') (drop k (normalizeNewlines ?c))"
  proof (intro allI impI)
    fix k :: nat assume "3 \<le> k \<and> k < 4 + length ''a''"
    then have "k = 3 \<or> k = 4" by auto
    then show "\<not> prefix (LF # ''---'') (drop k (normalizeNewlines ?c))"
      unfolding n by auto
  qed
  have t: "trim (LF # ''B '') = ''B''" by (simp add: trim_def isWhitespace_def)
  show "extractFrontmatter ?c = \<lparr>yamlString = Some ''a'', body = ''B''\<rparr>"
    using extractFrontmatter_cases[where content = ?c and c = LF and y = "''a''" and rest = "LF # ''B ''"]
      n first t by presburger
next
  have b: "normalizeNewlines ''Body'' = ''Body''"
    by (simp add: normalizeNewlines_def replaceChar_def)
  have "\<not> prefix ''---'' (normalizeNewlines ''Body'')"
    unfolding b by simp
  then have "extractFrontmatter ''Body'' = \<lparr>yamlString = None, body = normalizeNewlines ''Body''\<rparr>"
    using extractFrontmatter_cases[where content = "''Body''"] by blast
  then show "extractFrontmatter ''Body'' = \<lparr>yamlString = None, body = ''Body''\<rparr>"
    unfolding b .
next
  have l: "\<not> prefix [LF] (''b'' @ [CR, LF] @ ''c'')" by simp
  have o: "CHR ''b'' \<noteq> CR" by simp
  have k: "CR \<notin> set ''c''" by simp
  have s1: "normalizeNewlines (CR # ''b'' @ [CR, LF] @ ''c'') = LF # normalizeNewlines (''b'' @ [CR, LF] @ ''c'')"
    using extractFrontmatter_cases[where v = "''b'' @ [CR, LF] @ ''c''"] l by blast
  have s2: "normalizeNewlines (CHR ''b'' # CR # LF # ''c'') = CHR ''b'' # normalizeNewlines (CR # LF # ''c'')"
    using extractFrontmatter_cases[where d = "CHR ''b''" and v = "CR # LF # ''c''"] o by blast
  have s3: "normalizeNewlines (CR # LF # ''c'') = LF # normalizeNewlines ''c''"
    using extractFrontmatter_cases[where v = "''c''"] by blast
  have s4: "normalizeNewlines ''c'' = ''c''"
    using extractFrontmatter_cases[where content = "''c''"] k by blast
  have "normalizeNewlines (CR # CHR ''b'' # CR # LF # ''c'') = LF # CHR ''b'' # LF # ''c''"
    using s1 s2 s3 s4 by simp
  then show "normalizeNewlines ([CR] @ ''b'' @ [CR, LF] @ ''c'') = [LF] @ ''b'' @ [LF] @ ''c''"
    by simp
qed

text \<open>
  The claim as first stated takes the opening delimiter to be \<open>---\n\<close>. A text that begins
  with \<open>---\<close> and goes on at once loses the character after the dashes: the block
  returned for \<open>---a: 1\<close> is \<open>: 1\<close>, which is not the text between an opening \<open>---\n\<close>
  and the closing delimiter.
\<close>

theorem extractFrontmatter_opening_counterexample:
  "extractFrontmatter (''---a: 1'' @ [LF] @ ''---'' @ [LF] @ ''body'')
     = \<lparr>yamlString = Some '': 1'', body = ''body''\<rparr>"
  by (simp add: extractFrontmatter_def normalizeNewlines_def replaceChar_def startsWith_def
        indexOf_def slice_def sliceFrom_def trim_def isWhitespace_def)

section \<open>The loader: names, identities and collisions\<close>


lemma namesOk_initial: "namesOk initialState"
  by (simp add: namesOk_def initialState_def)

lemma namesOk_addSkill: "namesOk st \<Longrightarrow> namesOk (addSkill e st s)"
  by (auto simp: namesOk_def addSkill_def Let_def map_of_eq_None_iff split: option.splits)

lemma namesOk_foldl: "namesOk st \<Longrightarrow> namesOk (foldl (addSkill e) st xs)"
  by (induction xs arbitrary: st) (simp_all add: namesOk_addSkill)

lemma namesOk_pushDiagnostics: "namesOk st \<Longrightarrow> namesOk (pushDiagnostics st ds)"
  by (simp add: namesOk_def pushDiagnostics_def)

lemma namesOk_addSkills: "namesOk st \<Longrightarrow> namesOk (addSkills e st r)"
  unfolding addSkills_def by (rule namesOk_foldl) (simp add: namesOk_def)

lemma loop_invariant:
  assumes add: "\<And>st r. P st \<Longrightarrow> P (addSkills e st r)"
    and push: "\<And>st ds. P st \<Longrightarrow> P (pushDiagnostics st ds)"
  shows "P st \<Longrightarrow> loadSkillsLoop fuel e c ps st = Some st' \<Longrightarrow> P st'"
proof (induction ps arbitrary: st)
  case Nil
  then show ?case by simp
next
  case (Cons p ps)
  show ?case
    using Cons.prems(2) Cons.IH[OF push[OF Cons.prems(1)]]
      Cons.IH[OF add[OF Cons.prems(1)]] Cons.IH[OF Cons.prems(1)]
    by (simp add: Let_def split: if_splits sum.splits option.splits prod.splits)
qed

lemma loop_index_invariant:
  assumes add: "\<And>st r. P st \<Longrightarrow> P (addSkills e st r)"
    and push: "\<And>st ds. P st \<Longrightarrow> P (pushDiagnostics st ds)"
  shows "P st \<Longrightarrow> loadSkillsLoop_index fuel e c ps st = Some (Inr st') \<Longrightarrow> P st'"
proof (induction ps arbitrary: st)
  case Nil
  then show ?case by simp
next
  case (Cons p ps)
  show ?case
    using Cons.prems(2) Cons.IH[OF push[OF Cons.prems(1)]]
      Cons.IH[OF add[OF Cons.prems(1)]] Cons.IH[OF Cons.prems(1)]
    by (simp add: Let_def split: if_splits sum.splits option.splits prod.splits)
qed

lemma namesOk_loop:
  "namesOk st \<Longrightarrow> loadSkillsLoop fuel e c ps st = Some st' \<Longrightarrow> namesOk st'"
  by (rule loop_invariant[where P = namesOk, OF namesOk_addSkills namesOk_pushDiagnostics])

lemma namesOk_loop_index:
  "namesOk st \<Longrightarrow> loadSkillsLoop_index fuel e c ps st = Some (Inr st') \<Longrightarrow> namesOk st'"
  by (rule loop_index_invariant[where P = namesOk, OF namesOk_addSkills namesOk_pushDiagnostics])

lemma namesOk_distinct: "namesOk st \<Longrightarrow> distinct (map name (skills (finalResult st)))"
proof -
  assume h: "namesOk st"
  have eq: "map name (skills (finalResult st)) = map fst (skillMap st)"
    using h by (auto simp: namesOk_def finalResult_def)
  show ?thesis unfolding eq using h by (simp add: namesOk_def)
qed

lemma addSkill_collision:
  "realPathOf e s \<notin> realPathSet st \<Longrightarrow> map_of (skillMap st) (name s) = Some existing \<Longrightarrow>
   addSkill e st s = st\<lparr>collisionDiagnostics := collisionDiagnostics st @ [collisionDiagnostic existing s]\<rparr>"
  by (simp add: addSkill_def Let_def)

lemma addSkill_duplicate: "realPathOf e s \<in> realPathSet st \<Longrightarrow> addSkill e st s = st"
  by (simp add: addSkill_def Let_def)


lemma skillMap_addSkill_prefix: "prefix (skillMap st) (skillMap (addSkill e st s))"
  by (simp add: addSkill_def Let_def split: option.splits)

lemma skillMap_foldl_prefix: "prefix (skillMap st) (skillMap (foldl (addSkill e) st xs))"
proof (induction xs arbitrary: st)
  case Nil show ?case by simp
next
  case (Cons x xs)
  show ?case using Cons.IH[of "addSkill e st x"] skillMap_addSkill_prefix[of st e x]
    by (auto intro: prefix_order.trans)
qed

lemma skillMap_addSkills_prefix: "prefix (skillMap st) (skillMap (addSkills e st r))"
  unfolding addSkills_def
  using skillMap_foldl_prefix[of "st\<lparr>allDiagnostics := allDiagnostics st @ diagnostics r\<rparr>" e "skills r"]
  by simp

lemma skillMap_loop_prefix:
  assumes "loadSkillsLoop fuel e c ps st = Some st'"
  shows "prefix (skillMap st) (skillMap st')"
proof -
  have add: "\<And>s r. prefix (skillMap st) (skillMap s) \<Longrightarrow> prefix (skillMap st) (skillMap (addSkills e s r))"
    using skillMap_addSkills_prefix prefix_order.trans by blast
  have push: "\<And>s ds. prefix (skillMap st) (skillMap s) \<Longrightarrow> prefix (skillMap st) (skillMap (pushDiagnostics s ds))"
    by (simp add: pushDiagnostics_def)
  show ?thesis
    by (rule loop_invariant[where P = "\<lambda>s. prefix (skillMap st) (skillMap s)", OF add push _ assms]) simp_all
qed

lemma map_of_prefix_keep:
  "prefix m m' \<Longrightarrow> map_of m k = Some v \<Longrightarrow> map_of m' k = Some v"
  by (auto simp: prefix_def)



lemma skillMap_loop_index_prefix:
  assumes "loadSkillsLoop_index fuel e c ps st = Some (Inr st')"
  shows "prefix (skillMap st) (skillMap st')"
proof -
  have add: "\<And>s r. prefix (skillMap st) (skillMap s) \<Longrightarrow> prefix (skillMap st) (skillMap (addSkills e s r))"
    using skillMap_addSkills_prefix prefix_order.trans by blast
  have push: "\<And>s ds. prefix (skillMap st) (skillMap s) \<Longrightarrow> prefix (skillMap st) (skillMap (pushDiagnostics s ds))"
    by (simp add: pushDiagnostics_def)
  show ?thesis
    by (rule loop_index_invariant[where P = "\<lambda>s. prefix (skillMap st) (skillMap s)", OF add push _ assms])
      simp_all
qed

lemma collisions_addSkill_prefix:
  "prefix (collisionDiagnostics st) (collisionDiagnostics (addSkill e st s))"
  by (simp add: addSkill_def Let_def split: option.splits)

lemma collisions_foldl_prefix:
  "prefix (collisionDiagnostics st) (collisionDiagnostics (foldl (addSkill e) st xs))"
proof (induction xs arbitrary: st)
  case Nil show ?case by simp
next
  case (Cons x xs)
  show ?case using Cons.IH[of "addSkill e st x"] collisions_addSkill_prefix[of st e x]
    by (auto intro: prefix_order.trans)
qed

lemma collisions_addSkills_prefix:
  "prefix (collisionDiagnostics st) (collisionDiagnostics (addSkills e st r))"
  unfolding addSkills_def
  using collisions_foldl_prefix[of "st\<lparr>allDiagnostics := allDiagnostics st @ diagnostics r\<rparr>" e "skills r"]
  by simp

lemma collisions_loop_prefix:
  assumes "loadSkillsLoop fuel e c ps st = Some st'"
  shows "prefix (collisionDiagnostics st) (collisionDiagnostics st')"
proof -
  have add: "\<And>s r. prefix (collisionDiagnostics st) (collisionDiagnostics s)
               \<Longrightarrow> prefix (collisionDiagnostics st) (collisionDiagnostics (addSkills e s r))"
    using collisions_addSkills_prefix prefix_order.trans by blast
  have push: "\<And>s ds. prefix (collisionDiagnostics st) (collisionDiagnostics s)
               \<Longrightarrow> prefix (collisionDiagnostics st) (collisionDiagnostics (pushDiagnostics s ds))"
    by (simp add: pushDiagnostics_def)
  show ?thesis
    by (rule loop_invariant[where P = "\<lambda>s. prefix (collisionDiagnostics st) (collisionDiagnostics s)",
          OF add push _ assms]) simp_all
qed

lemma collisions_loop_index_prefix:
  assumes "loadSkillsLoop_index fuel e c ps st = Some (Inr st')"
  shows "prefix (collisionDiagnostics st) (collisionDiagnostics st')"
proof -
  have add: "\<And>s r. prefix (collisionDiagnostics st) (collisionDiagnostics s)
               \<Longrightarrow> prefix (collisionDiagnostics st) (collisionDiagnostics (addSkills e s r))"
    using collisions_addSkills_prefix prefix_order.trans by blast
  have push: "\<And>s ds. prefix (collisionDiagnostics st) (collisionDiagnostics s)
               \<Longrightarrow> prefix (collisionDiagnostics st) (collisionDiagnostics (pushDiagnostics s ds))"
    by (simp add: pushDiagnostics_def)
  show ?thesis
    by (rule loop_index_invariant[where P = "\<lambda>s. prefix (collisionDiagnostics st) (collisionDiagnostics s)",
          OF add push _ assms]) simp_all
qed

text \<open>
  Once a skill has lost a name collision, whatever the loader goes on to process, the
  winner is still recorded under the name and the collision diagnostic is still there.
\<close>

lemma collision_stays:
  assumes new: "realPathOf e s \<notin> realPathSet st"
    and old: "map_of (skillMap st) (name s) = Some existing"
    and m: "prefix (skillMap (foldl (addSkill e) (addSkill e st s) later)) (skillMap st')"
    and d: "prefix (collisionDiagnostics (foldl (addSkill e) (addSkill e st s) later))
              (collisionDiagnostics st')"
  shows "map_of (skillMap st') (name s) = Some existing"
    and "existing \<in> set (skills (finalResult st'))"
    and "collisionDiagnostic existing s \<in> set (diagnostics (finalResult st'))"
proof -
  have c: "addSkill e st s
             = st\<lparr>collisionDiagnostics := collisionDiagnostics st @ [collisionDiagnostic existing s]\<rparr>"
    by (rule addSkill_collision[OF new old])
  have "prefix (skillMap (addSkill e st s)) (skillMap st')"
    using skillMap_foldl_prefix[of "addSkill e st s" e later] m prefix_order.trans by blast
  then have "prefix (skillMap st) (skillMap st')" unfolding c by simp
  then show k: "map_of (skillMap st') (name s) = Some existing"
    by (rule map_of_prefix_keep[OF _ old])
  have "(name s, existing) \<in> set (skillMap st')" using k by (rule map_of_SomeD)
  then show "existing \<in> set (skills (finalResult st'))" by (force simp: finalResult_def)
  have "prefix (collisionDiagnostics (addSkill e st s)) (collisionDiagnostics st')"
    using collisions_foldl_prefix[of "addSkill e st s" e later] d prefix_order.trans by blast
  then have "set (collisionDiagnostics (addSkill e st s)) \<subseteq> set (collisionDiagnostics st')"
    by (rule set_mono_prefix)
  then have "collisionDiagnostic existing s \<in> set (collisionDiagnostics st')" unfolding c by simp
  then show "collisionDiagnostic existing s \<in> set (diagnostics (finalResult st'))"
    by (simp add: finalResult_def)
qed

lemma loadSkillFromFile_filePath:
  "skill (loadSkillFromFile e fp src) = Some s \<Longrightarrow> filePath s = fp"
  by (auto simp: loadSkillFromFile_def Let_def split: sum.splits option.splits if_splits)

lemma loadSkillFromFile_index_filePath:
  "skill (loadSkillFromFile_index e fp src) = Some s \<Longrightarrow> filePath s = fp"
  by (auto simp: loadSkillFromFile_index_def Let_def split: sum.splits option.splits if_splits)

lemma loadSkillsLoop_append:
  "loadSkillsLoop fuel e c (ps @ qs) st
     = (case loadSkillsLoop fuel e c ps st of None \<Rightarrow> None | Some st1 \<Rightarrow> loadSkillsLoop fuel e c qs st1)"
proof (induction ps arbitrary: st)
  case Nil
  show ?case by simp
next
  case (Cons p ps)
  show ?case
    by (simp add: Cons.IH Let_def split: sum.splits option.splits prod.splits)
qed

lemma loadSkillsLoop_file:
  assumes "existsSync e (resolvePath e c p)" and "statSync e (resolvePath e c p) = Inr SFile"
    and "endsWith (resolvePath e c p) ''.md''"
    and "skill (loadSkillFromFile e (resolvePath e c p) ''path'') = Some s"
  shows "loadSkillsLoop fuel e c (p # rest) st
           = loadSkillsLoop fuel e c rest
               (addSkill e (st\<lparr>allDiagnostics := allDiagnostics st
                                  @ fdiagnostics (loadSkillFromFile e (resolvePath e c p) ''path'')\<rparr>) s)"
  using assms by (simp add: Let_def addSkills_def)

lemma loadSkillsLoop_index_file:
  assumes "existsSync e (resolvePath e c p)" and "statSync e (resolvePath e c p) = Inr SFile"
    and "endsWith (resolvePath e c p) ''.md''"
    and "skill (loadSkillFromFile_index e (resolvePath e c p) ''path'') = Some s"
  shows "loadSkillsLoop_index fuel e c (p # rest) st
           = loadSkillsLoop_index fuel e c rest
               (addSkill e (st\<lparr>allDiagnostics := allDiagnostics st
                                  @ fdiagnostics (loadSkillFromFile_index e (resolvePath e c p) ''path'')\<rparr>) s)"
  using assms by (simp add: Let_def addSkills_def)

lemma loadSkillsLoop_directory:
  assumes "existsSync e (resolvePath e c p)" and "statSync e (resolvePath e c p) = Inr SDirectory"
    and "loadSkillsFromDirInternal fuel e (resolvePath e c p) ''path'' True None None = Some (res, ig)"
  shows "loadSkillsLoop fuel e c (p # rest) st
           = loadSkillsLoop fuel e c rest
               (foldl (addSkill e) (st\<lparr>allDiagnostics := allDiagnostics st @ diagnostics res\<rparr>) (skills res))"
  using assms by (simp add: Let_def addSkills_def)

lemma loadSkillsLoop_index_append:
  "loadSkillsLoop_index fuel e c (ps @ qs) st
     = (case loadSkillsLoop_index fuel e c ps st of
          None \<Rightarrow> None
        | Some (Inl msg) \<Rightarrow> Some (Inl msg)
        | Some (Inr st1) \<Rightarrow> loadSkillsLoop_index fuel e c qs st1)"
proof (induction ps arbitrary: st)
  case Nil
  show ?case by simp
next
  case (Cons p ps)
  show ?case
    by (simp add: Cons.IH Let_def split: sum.splits option.splits prod.splits)
qed

lemma loadSkillsLoop_index_directory:
  assumes "existsSync e (resolvePath e c p)" and "statSync e (resolvePath e c p) = Inr SDirectory"
    and "loadSkillsFromDir fuel e (resolvePath e c p) ''path'' True None None = Some (res, ig)"
  shows "loadSkillsLoop_index fuel e c (p # rest) st
           = loadSkillsLoop_index fuel e c rest
               (foldl (addSkill e) (st\<lparr>allDiagnostics := allDiagnostics st @ diagnostics res\<rparr>) (skills res))"
  using assms by (simp add: Let_def addSkills_def)

lemma loadSkillFromFile_no_collision:
  "filter (\<lambda>x. type x = collision) (fdiagnostics (loadSkillFromFile e fp src)) = []"
  by (auto simp: loadSkillFromFile_def Let_def warningAt_def filter_empty_conv
           split: sum.splits option.splits)

lemma loadSkillFromFile_index_no_collision:
  "filter (\<lambda>x. type x = collision) (fdiagnostics (loadSkillFromFile_index e fp src)) = []"
  by (auto simp: loadSkillFromFile_index_def Let_def warningAt_def filter_empty_conv
           split: sum.splits option.splits)

lemma addSkill_first:
  "addSkill e (initialState\<lparr>allDiagnostics := ds\<rparr>) s
     = \<lparr>skillMap = [(name s, s)], realPathSet = {realPathOf e s}, allDiagnostics = ds,
        collisionDiagnostics = []\<rparr>"
  by (simp add: addSkill_def initialState_def Let_def)

lemma addSkill_second:
  "realPathOf e s1 \<noteq> realPathOf e s2 \<Longrightarrow> name s1 = name s2 \<Longrightarrow>
   addSkill e (\<lparr>skillMap = [(name s1, s1)], realPathSet = {realPathOf e s1}, allDiagnostics = ds,
                 collisionDiagnostics = []\<rparr>\<lparr>allDiagnostics := ds'\<rparr>) s2
     = \<lparr>skillMap = [(name s1, s1)], realPathSet = {realPathOf e s1}, allDiagnostics = ds',
        collisionDiagnostics = [collisionDiagnostic s1 s2]\<rparr>"
  by (auto simp: addSkill_def Let_def)


text \<open>
  C1. In the result of every \<open>loadSkills\<close> call (either module) no two skills share a
  name. Whenever a skill whose resolved file identity is new has the name of a skill
  already recorded, the map of recorded skills and the set of identities stay as they
  are, so the earlier skill is kept and the later one is discarded, and exactly one
  collision diagnostic is appended, whose \<open>winnerPath\<close> is the kept skill's file path and
  whose \<open>loserPath\<close> is the discarded skill's file path. A skill recorded under a name
  stays recorded under it to the end of the loop.

  The skills the parser and the walker return do reach that comparison, and its outcome
  is what \<open>loadSkills\<close> returns. Given two input paths that are \<open>.md\<close> files of distinct
  identities yielding the same name, \<open>loadSkills\<close> (either module) returns the skill of the
  first path alone, and its diagnostics are the parser's diagnostics of the two files
  followed by one collision diagnostic naming the first path as winner and the second as
  loser. After any input paths, a further \<open>.md\<close> file whose skill has a new identity and a
  recorded name leaves the returned skills as they were without it, and adds to the
  diagnostics the file's own and one collision diagnostic, placed last. A directory
  whose walk returns two skills of one name and distinct identities gives the first
  skill and the walk's diagnostics followed by one collision diagnostic. All of this
  holds of both modules. Whatever the loader processes after a collision (the rest of
  the same walk result, then any further input paths), the winner is still among the
  returned skills under that name and the collision diagnostic is among the returned
  diagnostics. The skill parser itself never emits a collision diagnostic, so the one
  the loader adds is the only one.
\<close>

theorem loadSkills_unique_names:
  \<open>(loadSkills fuel e options = Some r \<longrightarrow> distinct (map name (skills r)))
   \<and> (loadSkills_index fuel e options = Some (Inr r') \<longrightarrow> distinct (map name (skills r')))
   \<and> (realPathOf e s \<notin> realPathSet st \<and> map_of (skillMap st) (name s) = Some existing \<longrightarrow>
        skillMap (addSkill e st s) = skillMap st
        \<and> realPathSet (addSkill e st s) = realPathSet st
        \<and> allDiagnostics (addSkill e st s) = allDiagnostics st
        \<and> collisionDiagnostics (addSkill e st s)
            = collisionDiagnostics st
              @ [\<lparr>type = collision, message = ''name "'' @ name s @ ''" collision'',
                  path = Some (filePath s),
                  collisionInfo = Some \<lparr>resourceType = ''skill'', cname = name s,
                                         winnerPath = filePath existing, loserPath = filePath s\<rparr>\<rparr>])
   \<and> (loadSkillsLoop fuel e c ps st = Some st' \<and> map_of (skillMap st) k = Some existing \<longrightarrow>
        map_of (skillMap st') k = Some existing)
   \<and> (existsSync e (resolvePath e c p1) \<and> statSync e (resolvePath e c p1) = Inr SFile
        \<and> endsWith (resolvePath e c p1) ''.md''
        \<and> existsSync e (resolvePath e c p2) \<and> statSync e (resolvePath e c p2) = Inr SFile
        \<and> endsWith (resolvePath e c p2) ''.md''
        \<and> skill (loadSkillFromFile e (resolvePath e c p1) ''path'') = Some s1
        \<and> skill (loadSkillFromFile e (resolvePath e c p2) ''path'') = Some s2
        \<and> realPathOf e s1 \<noteq> realPathOf e s2 \<and> name s1 = name s2 \<longrightarrow>
        loadSkills fuel e \<lparr>cwd = Some c, skillPaths = Some [p1, p2]\<rparr>
          = Some \<lparr>skills = [s1],
                  diagnostics =
                    fdiagnostics (loadSkillFromFile e (resolvePath e c p1) ''path'')
                    @ fdiagnostics (loadSkillFromFile e (resolvePath e c p2) ''path'')
                    @ [\<lparr>type = collision, message = ''name "'' @ name s1 @ ''" collision'',
                        path = Some (resolvePath e c p2),
                        collisionInfo = Some \<lparr>resourceType = ''skill'', cname = name s1,
                                               winnerPath = resolvePath e c p1,
                                               loserPath = resolvePath e c p2\<rparr>\<rparr>]\<rparr>)
   \<and> (existsSync e (resolvePath e c p1) \<and> statSync e (resolvePath e c p1) = Inr SFile
        \<and> endsWith (resolvePath e c p1) ''.md''
        \<and> existsSync e (resolvePath e c p2) \<and> statSync e (resolvePath e c p2) = Inr SFile
        \<and> endsWith (resolvePath e c p2) ''.md''
        \<and> skill (loadSkillFromFile_index e (resolvePath e c p1) ''path'') = Some s1
        \<and> skill (loadSkillFromFile_index e (resolvePath e c p2) ''path'') = Some s2
        \<and> realPathOf e s1 \<noteq> realPathOf e s2 \<and> name s1 = name s2 \<longrightarrow>
        loadSkills_index fuel e \<lparr>cwd = Some c, skillPaths = Some [p1, p2]\<rparr>
          = Some (Inr \<lparr>skills = [s1],
                  diagnostics =
                    fdiagnostics (loadSkillFromFile_index e (resolvePath e c p1) ''path'')
                    @ fdiagnostics (loadSkillFromFile_index e (resolvePath e c p2) ''path'')
                    @ [\<lparr>type = collision, message = ''name "'' @ name s1 @ ''" collision'',
                        path = Some (resolvePath e c p2),
                        collisionInfo = Some \<lparr>resourceType = ''skill'', cname = name s1,
                                               winnerPath = resolvePath e c p1,
                                               loserPath = resolvePath e c p2\<rparr>\<rparr>]\<rparr>))
   \<and> (loadSkillsLoop fuel e c pre initialState = Some st
        \<and> existsSync e (resolvePath e c p) \<and> statSync e (resolvePath e c p) = Inr SFile
        \<and> endsWith (resolvePath e c p) ''.md''
        \<and> skill (loadSkillFromFile e (resolvePath e c p) ''path'') = Some s
        \<and> realPathOf e s \<notin> realPathSet st \<and> map_of (skillMap st) (name s) = Some existing \<longrightarrow>
        loadSkills fuel e \<lparr>cwd = Some c, skillPaths = Some pre\<rparr>
          = Some \<lparr>skills = map snd (skillMap st),
                  diagnostics = allDiagnostics st @ collisionDiagnostics st\<rparr>
        \<and> existing \<in> set (map snd (skillMap st))
        \<and> loadSkills fuel e \<lparr>cwd = Some c, skillPaths = Some (pre @ [p])\<rparr>
          = Some \<lparr>skills = map snd (skillMap st),
                  diagnostics =
                    allDiagnostics st
                    @ fdiagnostics (loadSkillFromFile e (resolvePath e c p) ''path'')
                    @ collisionDiagnostics st
                    @ [\<lparr>type = collision, message = ''name "'' @ name s @ ''" collision'',
                        path = Some (resolvePath e c p),
                        collisionInfo = Some \<lparr>resourceType = ''skill'', cname = name s,
                                               winnerPath = filePath existing,
                                               loserPath = resolvePath e c p\<rparr>\<rparr>]\<rparr>)
   \<and> (existsSync e (resolvePath e c dp) \<and> statSync e (resolvePath e c dp) = Inr SDirectory
        \<and> loadSkillsFromDirInternal fuel e (resolvePath e c dp) ''path'' True None None = Some (res, ig)
        \<and> skills res = [s1, s2] \<and> realPathOf e s1 \<noteq> realPathOf e s2 \<and> name s1 = name s2 \<longrightarrow>
        loadSkills fuel e \<lparr>cwd = Some c, skillPaths = Some [dp]\<rparr>
          = Some \<lparr>skills = [s1],
                  diagnostics =
                    diagnostics res
                    @ [\<lparr>type = collision, message = ''name "'' @ name s1 @ ''" collision'',
                        path = Some (filePath s2),
                        collisionInfo = Some \<lparr>resourceType = ''skill'', cname = name s1,
                                               winnerPath = filePath s1,
                                               loserPath = filePath s2\<rparr>\<rparr>]\<rparr>)
   \<and> (loadSkillsLoop_index fuel e c pre initialState = Some (Inr st)
        \<and> existsSync e (resolvePath e c p) \<and> statSync e (resolvePath e c p) = Inr SFile
        \<and> endsWith (resolvePath e c p) ''.md''
        \<and> skill (loadSkillFromFile_index e (resolvePath e c p) ''path'') = Some s
        \<and> realPathOf e s \<notin> realPathSet st \<and> map_of (skillMap st) (name s) = Some existing \<longrightarrow>
        loadSkills_index fuel e \<lparr>cwd = Some c, skillPaths = Some pre\<rparr>
          = Some (Inr \<lparr>skills = map snd (skillMap st),
                  diagnostics = allDiagnostics st @ collisionDiagnostics st\<rparr>)
        \<and> loadSkills_index fuel e \<lparr>cwd = Some c, skillPaths = Some (pre @ [p])\<rparr>
          = Some (Inr \<lparr>skills = map snd (skillMap st),
                  diagnostics =
                    allDiagnostics st
                    @ fdiagnostics (loadSkillFromFile_index e (resolvePath e c p) ''path'')
                    @ collisionDiagnostics st
                    @ [\<lparr>type = collision, message = ''name "'' @ name s @ ''" collision'',
                        path = Some (resolvePath e c p),
                        collisionInfo = Some \<lparr>resourceType = ''skill'', cname = name s,
                                               winnerPath = filePath existing,
                                               loserPath = resolvePath e c p\<rparr>\<rparr>]\<rparr>))
   \<and> (existsSync e (resolvePath e c dp) \<and> statSync e (resolvePath e c dp) = Inr SDirectory
        \<and> loadSkillsFromDir fuel e (resolvePath e c dp) ''path'' True None None = Some (res, ig)
        \<and> skills res = [s1, s2] \<and> realPathOf e s1 \<noteq> realPathOf e s2 \<and> name s1 = name s2 \<longrightarrow>
        loadSkills_index fuel e \<lparr>cwd = Some c, skillPaths = Some [dp]\<rparr>
          = Some (Inr \<lparr>skills = [s1],
                  diagnostics =
                    diagnostics res
                    @ [\<lparr>type = collision, message = ''name "'' @ name s1 @ ''" collision'',
                        path = Some (filePath s2),
                        collisionInfo = Some \<lparr>resourceType = ''skill'', cname = name s1,
                                               winnerPath = filePath s1,
                                               loserPath = filePath s2\<rparr>\<rparr>]\<rparr>))
   \<and> (loadSkillsLoop fuel e c ps (foldl (addSkill e) (addSkill e st s) later) = Some st'
        \<and> realPathOf e s \<notin> realPathSet st \<and> map_of (skillMap st) (name s) = Some existing \<longrightarrow>
        map_of (skillMap st') (name s) = Some existing
        \<and> existing \<in> set (skills (finalResult st'))
        \<and> \<lparr>type = collision, message = ''name "'' @ name s @ ''" collision'',
              path = Some (filePath s),
              collisionInfo = Some \<lparr>resourceType = ''skill'', cname = name s,
                                     winnerPath = filePath existing, loserPath = filePath s\<rparr>\<rparr>
            \<in> set (diagnostics (finalResult st')))
   \<and> (loadSkillsLoop_index fuel e c ps (foldl (addSkill e) (addSkill e st s) later) = Some (Inr st')
        \<and> realPathOf e s \<notin> realPathSet st \<and> map_of (skillMap st) (name s) = Some existing \<longrightarrow>
        map_of (skillMap st') (name s) = Some existing
        \<and> existing \<in> set (skills (finalResult st'))
        \<and> \<lparr>type = collision, message = ''name "'' @ name s @ ''" collision'',
              path = Some (filePath s),
              collisionInfo = Some \<lparr>resourceType = ''skill'', cname = name s,
                                     winnerPath = filePath existing, loserPath = filePath s\<rparr>\<rparr>
            \<in> set (diagnostics (finalResult st')))
   \<and> filter (\<lambda>x. type x = collision) (fdiagnostics (loadSkillFromFile e fp src)) = []
   \<and> filter (\<lambda>x. type x = collision) (fdiagnostics (loadSkillFromFile_index e fp src)) = []\<close>
proof (intro conjI impI)
  assume h: "loadSkillsLoop fuel e c ps (foldl (addSkill e) (addSkill e st s) later) = Some st'
        \<and> realPathOf e s \<notin> realPathSet st \<and> map_of (skillMap st) (name s) = Some existing"
  have new: "realPathOf e s \<notin> realPathSet st" and old: "map_of (skillMap st) (name s) = Some existing"
    and l: "loadSkillsLoop fuel e c ps (foldl (addSkill e) (addSkill e st s) later) = Some st'"
    using h by simp_all
  note k = collision_stays[OF new old skillMap_loop_prefix[OF l] collisions_loop_prefix[OF l]]
  show "map_of (skillMap st') (name s) = Some existing" by (rule k(1))
  show "existing \<in> set (skills (finalResult st'))" by (rule k(2))
  show \<open>\<lparr>type = collision, message = ''name "'' @ name s @ ''" collision'',
              path = Some (filePath s),
              collisionInfo = Some \<lparr>resourceType = ''skill'', cname = name s,
                                     winnerPath = filePath existing, loserPath = filePath s\<rparr>\<rparr>
            \<in> set (diagnostics (finalResult st'))\<close>
    using k(3) by (simp add: collisionDiagnostic_def)
next
  assume h: "loadSkillsLoop_index fuel e c ps (foldl (addSkill e) (addSkill e st s) later) = Some (Inr st')
        \<and> realPathOf e s \<notin> realPathSet st \<and> map_of (skillMap st) (name s) = Some existing"
  have new: "realPathOf e s \<notin> realPathSet st" and old: "map_of (skillMap st) (name s) = Some existing"
    and l: "loadSkillsLoop_index fuel e c ps (foldl (addSkill e) (addSkill e st s) later) = Some (Inr st')"
    using h by simp_all
  note k = collision_stays[OF new old skillMap_loop_index_prefix[OF l] collisions_loop_index_prefix[OF l]]
  show "map_of (skillMap st') (name s) = Some existing" by (rule k(1))
  show "existing \<in> set (skills (finalResult st'))" by (rule k(2))
  show \<open>\<lparr>type = collision, message = ''name "'' @ name s @ ''" collision'',
              path = Some (filePath s),
              collisionInfo = Some \<lparr>resourceType = ''skill'', cname = name s,
                                     winnerPath = filePath existing, loserPath = filePath s\<rparr>\<rparr>
            \<in> set (diagnostics (finalResult st'))\<close>
    using k(3) by (simp add: collisionDiagnostic_def)
next
  show "filter (\<lambda>x. type x = collision) (fdiagnostics (loadSkillFromFile e fp src)) = []"
    by (rule loadSkillFromFile_no_collision)
next
  show "filter (\<lambda>x. type x = collision) (fdiagnostics (loadSkillFromFile_index e fp src)) = []"
    by (rule loadSkillFromFile_index_no_collision)
next
  let ?q = "resolvePath e c p"
  let ?d = "fdiagnostics (loadSkillFromFile_index e ?q ''path'')"
  assume h: "loadSkillsLoop_index fuel e c pre initialState = Some (Inr st)
        \<and> existsSync e ?q \<and> statSync e ?q = Inr SFile \<and> endsWith ?q ''.md''
        \<and> skill (loadSkillFromFile_index e ?q ''path'') = Some s
        \<and> realPathOf e s \<notin> realPathSet st \<and> map_of (skillMap st) (name s) = Some existing"
  have f: "filePath s = ?q" using h loadSkillFromFile_index_filePath by blast
  show "loadSkills_index fuel e \<lparr>cwd = Some c, skillPaths = Some pre\<rparr>
          = Some (Inr \<lparr>skills = map snd (skillMap st),
                  diagnostics = allDiagnostics st @ collisionDiagnostics st\<rparr>)"
    using h by (simp add: loadSkills_index_def finalResult_def)
  let ?st1 = "st\<lparr>allDiagnostics := allDiagnostics st @ ?d\<rparr>"
  have one: "loadSkillsLoop_index fuel e c [p] st = loadSkillsLoop_index fuel e c [] (addSkill e ?st1 s)"
    using h by (intro loadSkillsLoop_index_file) simp_all
  have coll: "addSkill e ?st1 s
                = ?st1\<lparr>collisionDiagnostics := collisionDiagnostics ?st1 @ [collisionDiagnostic existing s]\<rparr>"
    using h by (intro addSkill_collision) simp_all
  have lp: "loadSkillsLoop_index fuel e c (pre @ [p]) initialState
          = Some (Inr (?st1\<lparr>collisionDiagnostics := collisionDiagnostics ?st1 @ [collisionDiagnostic existing s]\<rparr>))"
    unfolding loadSkillsLoop_index_append using h one coll by simp
  show \<open>loadSkills_index fuel e \<lparr>cwd = Some c, skillPaths = Some (pre @ [p])\<rparr>
          = Some (Inr \<lparr>skills = map snd (skillMap st),
                  diagnostics = allDiagnostics st @ ?d @ collisionDiagnostics st
                    @ [\<lparr>type = collision, message = ''name "'' @ name s @ ''" collision'',
                        path = Some ?q,
                        collisionInfo = Some \<lparr>resourceType = ''skill'', cname = name s,
                                               winnerPath = filePath existing, loserPath = ?q\<rparr>\<rparr>]\<rparr>)\<close>
    using f by (simp add: loadSkills_index_def lp finalResult_def collisionDiagnostic_def
                  del: loadSkillsLoop_index.simps)
next
  let ?q = "resolvePath e c dp"
  assume h: "existsSync e ?q \<and> statSync e ?q = Inr SDirectory
        \<and> loadSkillsFromDir fuel e ?q ''path'' True None None = Some (res, ig)
        \<and> skills res = [s1, s2] \<and> realPathOf e s1 \<noteq> realPathOf e s2 \<and> name s1 = name s2"
  have d: "loadSkillsLoop_index fuel e c [dp] initialState
             = loadSkillsLoop_index fuel e c []
                 (foldl (addSkill e) (initialState\<lparr>allDiagnostics := allDiagnostics initialState @ diagnostics res\<rparr>)
                    (skills res))"
    using h by (intro loadSkillsLoop_index_directory) simp_all
  have i: "allDiagnostics initialState @ diagnostics res = diagnostics res" by (simp add: initialState_def)
  let ?st1 = "\<lparr>skillMap = [(name s1, s1)], realPathSet = {realPathOf e s1}, allDiagnostics = diagnostics res,
               collisionDiagnostics = []\<rparr>"
  have a2: "addSkill e (?st1\<lparr>allDiagnostics := diagnostics res\<rparr>) s2
              = \<lparr>skillMap = [(name s1, s1)], realPathSet = {realPathOf e s1}, allDiagnostics = diagnostics res,
                 collisionDiagnostics = [collisionDiagnostic s1 s2]\<rparr>"
    using h by (intro addSkill_second) simp_all
  have lp: "loadSkillsLoop_index fuel e c [dp] initialState
          = Some (Inr \<lparr>skillMap = [(name s1, s1)], realPathSet = {realPathOf e s1}, allDiagnostics = diagnostics res,
                  collisionDiagnostics = [collisionDiagnostic s1 s2]\<rparr>)"
    unfolding d i using h a2 by (simp add: addSkill_first)
  show \<open>loadSkills_index fuel e \<lparr>cwd = Some c, skillPaths = Some [dp]\<rparr>
          = Some (Inr \<lparr>skills = [s1],
                  diagnostics = diagnostics res
                    @ [\<lparr>type = collision, message = ''name "'' @ name s1 @ ''" collision'',
                        path = Some (filePath s2),
                        collisionInfo = Some \<lparr>resourceType = ''skill'', cname = name s1,
                                               winnerPath = filePath s1, loserPath = filePath s2\<rparr>\<rparr>]\<rparr>)\<close>
    using h by (simp add: loadSkills_index_def lp finalResult_def collisionDiagnostic_def
                  del: loadSkillsLoop_index.simps)
next
  assume "loadSkills fuel e options = Some r"
  then obtain st where l: "loadSkillsLoop fuel e
             (case cwd options of None \<Rightarrow> process_cwd e | Some c \<Rightarrow> c)
             (case skillPaths options of None \<Rightarrow> [] | Some ps \<Rightarrow> ps) initialState = Some st"
    and r: "r = finalResult st"
    by (auto simp: loadSkills_def split: option.splits)
  have "namesOk st" by (rule namesOk_loop[OF namesOk_initial l])
  then show "distinct (map name (skills r))" unfolding r by (rule namesOk_distinct)
next
  assume "loadSkills_index fuel e options = Some (Inr r')"
  then obtain st where l: "loadSkillsLoop_index fuel e
             (case cwd options of None \<Rightarrow> process_cwd e | Some c \<Rightarrow> c)
             (case skillPaths options of None \<Rightarrow> [] | Some ps \<Rightarrow> ps) initialState = Some (Inr st)"
    and r: "r' = finalResult st"
    by (auto simp: loadSkills_index_def split: option.splits sum.splits)
  have "namesOk st" by (rule namesOk_loop_index[OF namesOk_initial l])
  then show "distinct (map name (skills r'))" unfolding r by (rule namesOk_distinct)
next
  assume h: "realPathOf e s \<notin> realPathSet st \<and> map_of (skillMap st) (name s) = Some existing"
  show "skillMap (addSkill e st s) = skillMap st"
    using h by (simp add: addSkill_collision)
  show "realPathSet (addSkill e st s) = realPathSet st"
    using h by (simp add: addSkill_collision)
  show "allDiagnostics (addSkill e st s) = allDiagnostics st"
    using h by (simp add: addSkill_collision)
  show \<open>collisionDiagnostics (addSkill e st s)
            = collisionDiagnostics st
              @ [\<lparr>type = collision, message = ''name "'' @ name s @ ''" collision'',
                  path = Some (filePath s),
                  collisionInfo = Some \<lparr>resourceType = ''skill'', cname = name s,
                                         winnerPath = filePath existing, loserPath = filePath s\<rparr>\<rparr>]\<close>
    using h by (simp add: addSkill_collision collisionDiagnostic_def)
next
  assume h: "loadSkillsLoop fuel e c ps st = Some st' \<and> map_of (skillMap st) k = Some existing"
  have "prefix (skillMap st) (skillMap st')" by (rule skillMap_loop_prefix[OF conjunct1[OF h]])
  then show "map_of (skillMap st') k = Some existing" by (rule map_of_prefix_keep[OF _ conjunct2[OF h]])
next
  let ?q1 = "resolvePath e c p1" and ?q2 = "resolvePath e c p2"
  let ?d1 = "fdiagnostics (loadSkillFromFile e ?q1 ''path'')"
  let ?d2 = "fdiagnostics (loadSkillFromFile e ?q2 ''path'')"
  assume h: "existsSync e ?q1 \<and> statSync e ?q1 = Inr SFile \<and> endsWith ?q1 ''.md''
        \<and> existsSync e ?q2 \<and> statSync e ?q2 = Inr SFile \<and> endsWith ?q2 ''.md''
        \<and> skill (loadSkillFromFile e ?q1 ''path'') = Some s1
        \<and> skill (loadSkillFromFile e ?q2 ''path'') = Some s2
        \<and> realPathOf e s1 \<noteq> realPathOf e s2 \<and> name s1 = name s2"
  have f: "filePath s1 = ?q1" "filePath s2 = ?q2"
    using h loadSkillFromFile_filePath by blast+
  have step1: "loadSkillsLoop fuel e c [p1, p2] initialState
                 = loadSkillsLoop fuel e c [p2]
                     (addSkill e (initialState\<lparr>allDiagnostics := allDiagnostics initialState @ ?d1\<rparr>) s1)"
    using h by (intro loadSkillsLoop_file) simp_all
  have i: "allDiagnostics initialState @ ?d1 = ?d1" by (simp add: initialState_def)
  let ?st1 = "\<lparr>skillMap = [(name s1, s1)], realPathSet = {realPathOf e s1}, allDiagnostics = ?d1,
               collisionDiagnostics = []\<rparr>"
  have step2: "loadSkillsLoop fuel e c [p2] ?st1
                 = loadSkillsLoop fuel e c []
                     (addSkill e (?st1\<lparr>allDiagnostics := allDiagnostics ?st1 @ ?d2\<rparr>) s2)"
    using h by (intro loadSkillsLoop_file) simp_all
  have a2: "addSkill e (?st1\<lparr>allDiagnostics := ?d1 @ ?d2\<rparr>) s2
              = \<lparr>skillMap = [(name s1, s1)], realPathSet = {realPathOf e s1}, allDiagnostics = ?d1 @ ?d2,
                 collisionDiagnostics = [collisionDiagnostic s1 s2]\<rparr>"
    using h by (intro addSkill_second) simp_all
  have lp: "loadSkillsLoop fuel e c [p1, p2] initialState
          = Some \<lparr>skillMap = [(name s1, s1)], realPathSet = {realPathOf e s1}, allDiagnostics = ?d1 @ ?d2,
                  collisionDiagnostics = [collisionDiagnostic s1 s2]\<rparr>"
    unfolding step1 i addSkill_first step2 using a2 by simp
  show \<open>loadSkills fuel e \<lparr>cwd = Some c, skillPaths = Some [p1, p2]\<rparr>
          = Some \<lparr>skills = [s1],
                  diagnostics = ?d1 @ ?d2
                    @ [\<lparr>type = collision, message = ''name "'' @ name s1 @ ''" collision'',
                        path = Some ?q2,
                        collisionInfo = Some \<lparr>resourceType = ''skill'', cname = name s1,
                                               winnerPath = ?q1, loserPath = ?q2\<rparr>\<rparr>]\<rparr>\<close>
    using h f by (simp add: loadSkills_def lp finalResult_def collisionDiagnostic_def del: loadSkillsLoop.simps)
next
  let ?q1 = "resolvePath e c p1" and ?q2 = "resolvePath e c p2"
  let ?d1 = "fdiagnostics (loadSkillFromFile_index e ?q1 ''path'')"
  let ?d2 = "fdiagnostics (loadSkillFromFile_index e ?q2 ''path'')"
  assume h: "existsSync e ?q1 \<and> statSync e ?q1 = Inr SFile \<and> endsWith ?q1 ''.md''
        \<and> existsSync e ?q2 \<and> statSync e ?q2 = Inr SFile \<and> endsWith ?q2 ''.md''
        \<and> skill (loadSkillFromFile_index e ?q1 ''path'') = Some s1
        \<and> skill (loadSkillFromFile_index e ?q2 ''path'') = Some s2
        \<and> realPathOf e s1 \<noteq> realPathOf e s2 \<and> name s1 = name s2"
  have f: "filePath s1 = ?q1" "filePath s2 = ?q2"
    using h loadSkillFromFile_index_filePath by blast+
  have step1: "loadSkillsLoop_index fuel e c [p1, p2] initialState
                 = loadSkillsLoop_index fuel e c [p2]
                     (addSkill e (initialState\<lparr>allDiagnostics := allDiagnostics initialState @ ?d1\<rparr>) s1)"
    using h by (intro loadSkillsLoop_index_file) simp_all
  have i: "allDiagnostics initialState @ ?d1 = ?d1" by (simp add: initialState_def)
  let ?st1 = "\<lparr>skillMap = [(name s1, s1)], realPathSet = {realPathOf e s1}, allDiagnostics = ?d1,
               collisionDiagnostics = []\<rparr>"
  have step2: "loadSkillsLoop_index fuel e c [p2] ?st1
                 = loadSkillsLoop_index fuel e c []
                     (addSkill e (?st1\<lparr>allDiagnostics := allDiagnostics ?st1 @ ?d2\<rparr>) s2)"
    using h by (intro loadSkillsLoop_index_file) simp_all
  have a2: "addSkill e (?st1\<lparr>allDiagnostics := ?d1 @ ?d2\<rparr>) s2
              = \<lparr>skillMap = [(name s1, s1)], realPathSet = {realPathOf e s1}, allDiagnostics = ?d1 @ ?d2,
                 collisionDiagnostics = [collisionDiagnostic s1 s2]\<rparr>"
    using h by (intro addSkill_second) simp_all
  have lp: "loadSkillsLoop_index fuel e c [p1, p2] initialState
          = Some (Inr \<lparr>skillMap = [(name s1, s1)], realPathSet = {realPathOf e s1}, allDiagnostics = ?d1 @ ?d2,
                  collisionDiagnostics = [collisionDiagnostic s1 s2]\<rparr>)"
    unfolding step1 i addSkill_first step2 using a2 by simp
  show \<open>loadSkills_index fuel e \<lparr>cwd = Some c, skillPaths = Some [p1, p2]\<rparr>
          = Some (Inr \<lparr>skills = [s1],
                  diagnostics = ?d1 @ ?d2
                    @ [\<lparr>type = collision, message = ''name "'' @ name s1 @ ''" collision'',
                        path = Some ?q2,
                        collisionInfo = Some \<lparr>resourceType = ''skill'', cname = name s1,
                                               winnerPath = ?q1, loserPath = ?q2\<rparr>\<rparr>]\<rparr>)\<close>
    using h f by (simp add: loadSkills_index_def lp finalResult_def collisionDiagnostic_def del: loadSkillsLoop_index.simps)
next
  let ?q = "resolvePath e c p"
  let ?d = "fdiagnostics (loadSkillFromFile e ?q ''path'')"
  assume h: "loadSkillsLoop fuel e c pre initialState = Some st
        \<and> existsSync e ?q \<and> statSync e ?q = Inr SFile \<and> endsWith ?q ''.md''
        \<and> skill (loadSkillFromFile e ?q ''path'') = Some s
        \<and> realPathOf e s \<notin> realPathSet st \<and> map_of (skillMap st) (name s) = Some existing"
  have f: "filePath s = ?q" using h loadSkillFromFile_filePath by blast
  show "loadSkills fuel e \<lparr>cwd = Some c, skillPaths = Some pre\<rparr>
          = Some \<lparr>skills = map snd (skillMap st),
                  diagnostics = allDiagnostics st @ collisionDiagnostics st\<rparr>"
    using h by (simp add: loadSkills_def finalResult_def)
  have "(name s, existing) \<in> set (skillMap st)" using h by (simp add: map_of_SomeD)
  then show "existing \<in> set (map snd (skillMap st))" by force
  let ?st1 = "st\<lparr>allDiagnostics := allDiagnostics st @ ?d\<rparr>"
  have one: "loadSkillsLoop fuel e c [p] st = loadSkillsLoop fuel e c [] (addSkill e ?st1 s)"
    using h by (intro loadSkillsLoop_file) simp_all
  have coll: "addSkill e ?st1 s
                = ?st1\<lparr>collisionDiagnostics := collisionDiagnostics ?st1 @ [collisionDiagnostic existing s]\<rparr>"
    using h by (intro addSkill_collision) simp_all
  have lp: "loadSkillsLoop fuel e c (pre @ [p]) initialState
          = Some (?st1\<lparr>collisionDiagnostics := collisionDiagnostics ?st1 @ [collisionDiagnostic existing s]\<rparr>)"
    unfolding loadSkillsLoop_append using h one coll by simp
  show \<open>loadSkills fuel e \<lparr>cwd = Some c, skillPaths = Some (pre @ [p])\<rparr>
          = Some \<lparr>skills = map snd (skillMap st),
                  diagnostics = allDiagnostics st @ ?d @ collisionDiagnostics st
                    @ [\<lparr>type = collision, message = ''name "'' @ name s @ ''" collision'',
                        path = Some ?q,
                        collisionInfo = Some \<lparr>resourceType = ''skill'', cname = name s,
                                               winnerPath = filePath existing, loserPath = ?q\<rparr>\<rparr>]\<rparr>\<close>
    using f by (simp add: loadSkills_def lp finalResult_def collisionDiagnostic_def del: loadSkillsLoop.simps)
next
  let ?q = "resolvePath e c dp"
  assume h: "existsSync e ?q \<and> statSync e ?q = Inr SDirectory
        \<and> loadSkillsFromDirInternal fuel e ?q ''path'' True None None = Some (res, ig)
        \<and> skills res = [s1, s2] \<and> realPathOf e s1 \<noteq> realPathOf e s2 \<and> name s1 = name s2"
  have d: "loadSkillsLoop fuel e c [dp] initialState
             = loadSkillsLoop fuel e c []
                 (foldl (addSkill e) (initialState\<lparr>allDiagnostics := allDiagnostics initialState @ diagnostics res\<rparr>)
                    (skills res))"
    using h by (intro loadSkillsLoop_directory) simp_all
  have i: "allDiagnostics initialState @ diagnostics res = diagnostics res" by (simp add: initialState_def)
  let ?st1 = "\<lparr>skillMap = [(name s1, s1)], realPathSet = {realPathOf e s1}, allDiagnostics = diagnostics res,
               collisionDiagnostics = []\<rparr>"
  have a2: "addSkill e (?st1\<lparr>allDiagnostics := diagnostics res\<rparr>) s2
              = \<lparr>skillMap = [(name s1, s1)], realPathSet = {realPathOf e s1}, allDiagnostics = diagnostics res,
                 collisionDiagnostics = [collisionDiagnostic s1 s2]\<rparr>"
    using h by (intro addSkill_second) simp_all
  have lp: "loadSkillsLoop fuel e c [dp] initialState
          = Some \<lparr>skillMap = [(name s1, s1)], realPathSet = {realPathOf e s1}, allDiagnostics = diagnostics res,
                  collisionDiagnostics = [collisionDiagnostic s1 s2]\<rparr>"
    unfolding d i using h a2 by (simp add: addSkill_first)
  show \<open>loadSkills fuel e \<lparr>cwd = Some c, skillPaths = Some [dp]\<rparr>
          = Some \<lparr>skills = [s1],
                  diagnostics = diagnostics res
                    @ [\<lparr>type = collision, message = ''name "'' @ name s1 @ ''" collision'',
                        path = Some (filePath s2),
                        collisionInfo = Some \<lparr>resourceType = ''skill'', cname = name s1,
                                               winnerPath = filePath s1, loserPath = filePath s2\<rparr>\<rparr>]\<rparr>\<close>
    using h by (simp add: loadSkills_def lp finalResult_def collisionDiagnostic_def del: loadSkillsLoop.simps)
qed

theorem loadSkills_unique_names_witness:
  \<open>(case loadSkills 3 demoEnv \<lparr>cwd = None, skillPaths = Some [''/r'', ''/c/SKILL.md'']\<rparr> of
      None \<Rightarrow> False
    | Some r \<Rightarrow> skills r = [skFoo, skC] \<and> distinct (map name (skills r)))
   \<and> (case loadSkills_index 3 demoEnv \<lparr>cwd = None, skillPaths = Some [''/r'', ''/c/SKILL.md'']\<rparr> of
        Some (Inr r) \<Rightarrow> skills r = [skFoo, skC] \<and> distinct (map name (skills r))
      | _ \<Rightarrow> False)
   \<and> collisionDiagnostics (addSkill demoEnv stFoo skA)
       = [\<lparr>type = collision, message = ''name "foo" collision'', path = Some ''/r/a.md'',
           collisionInfo = Some \<lparr>resourceType = ''skill'', cname = ''foo'',
                                  winnerPath = ''/r/foo/SKILL.md'', loserPath = ''/r/a.md''\<rparr>\<rparr>]
   \<and> map_of (skillMap (addSkills demoEnv stFoo
         \<lparr>skills = [skA], diagnostics = fdiagnostics (loadSkillFromFile demoEnv ''/r/a.md'' ''path'')\<rparr>)) ''foo''
       = Some skFoo
   \<and> loadSkills 1 demoEnv \<lparr>cwd = Some ''/w'', skillPaths = Some [''/r/foo/SKILL.md'', ''/r/a.md'']\<rparr>
       = Some \<lparr>skills = [skFoo],
               diagnostics =
                 [warningAt (msgNameMismatch ''foo'' ''r'') ''/r/a.md'',
                  \<lparr>type = collision, message = ''name "foo" collision'', path = Some ''/r/a.md'',
                   collisionInfo = Some \<lparr>resourceType = ''skill'', cname = ''foo'',
                                          winnerPath = ''/r/foo/SKILL.md'', loserPath = ''/r/a.md''\<rparr>\<rparr>]\<rparr>
   \<and> loadSkills_index 1 demoEnv \<lparr>cwd = Some ''/w'', skillPaths = Some [''/r/foo/SKILL.md'', ''/r/a.md'']\<rparr>
       = Some (Inr \<lparr>skills = [skFoo],
               diagnostics =
                 [warningAt (msgNameMismatch ''foo'' ''r'') ''/r/a.md'',
                  \<lparr>type = collision, message = ''name "foo" collision'', path = Some ''/r/a.md'',
                   collisionInfo = Some \<lparr>resourceType = ''skill'', cname = ''foo'',
                                          winnerPath = ''/r/foo/SKILL.md'', loserPath = ''/r/a.md''\<rparr>\<rparr>]\<rparr>)
   \<and> loadSkills 1 demoEnv
         \<lparr>cwd = Some ''/w'', skillPaths = Some ([''/r/foo/SKILL.md'', ''/c/SKILL.md''] @ [''/r/a.md''])\<rparr>
       = Some \<lparr>skills = [skFoo, skC],
               diagnostics =
                 [warningAt (msgNameMismatch ''foo'' ''r'') ''/r/a.md'',
                  \<lparr>type = collision, message = ''name "foo" collision'', path = Some ''/r/a.md'',
                   collisionInfo = Some \<lparr>resourceType = ''skill'', cname = ''foo'',
                                          winnerPath = ''/r/foo/SKILL.md'', loserPath = ''/r/a.md''\<rparr>\<rparr>]\<rparr>
   \<and> loadSkills 3 demoEnv \<lparr>cwd = Some ''/w'', skillPaths = Some [''/r'']\<rparr>
       = Some \<lparr>skills = [skFoo],
               diagnostics =
                 [warningAt (msgNameMismatch ''foo'' ''r'') ''/r/a.md'',
                  \<lparr>type = collision, message = ''name "foo" collision'', path = Some ''/r/a.md'',
                   collisionInfo = Some \<lparr>resourceType = ''skill'', cname = ''foo'',
                                          winnerPath = ''/r/foo/SKILL.md'', loserPath = ''/r/a.md''\<rparr>\<rparr>]\<rparr>
   \<and> loadSkills_index 1 demoEnv
         \<lparr>cwd = Some ''/w'', skillPaths = Some ([''/r/foo/SKILL.md'', ''/c/SKILL.md''] @ [''/r/a.md''])\<rparr>
       = Some (Inr \<lparr>skills = [skFoo, skC],
               diagnostics =
                 [warningAt (msgNameMismatch ''foo'' ''r'') ''/r/a.md'',
                  \<lparr>type = collision, message = ''name "foo" collision'', path = Some ''/r/a.md'',
                   collisionInfo = Some \<lparr>resourceType = ''skill'', cname = ''foo'',
                                          winnerPath = ''/r/foo/SKILL.md'', loserPath = ''/r/a.md''\<rparr>\<rparr>]\<rparr>)
   \<and> loadSkills_index 3 demoEnv \<lparr>cwd = Some ''/w'', skillPaths = Some [''/r'']\<rparr>
       = Some (Inr \<lparr>skills = [skFoo],
               diagnostics =
                 [warningAt (msgNameMismatch ''foo'' ''r'') ''/r/a.md'',
                  \<lparr>type = collision, message = ''name "foo" collision'', path = Some ''/r/a.md'',
                   collisionInfo = Some \<lparr>resourceType = ''skill'', cname = ''foo'',
                                          winnerPath = ''/r/foo/SKILL.md'', loserPath = ''/r/a.md''\<rparr>\<rparr>]\<rparr>)
   \<and> loadSkillsLoop 1 demoEnv ''/w'' [''/c/SKILL.md''] (foldl (addSkill demoEnv) (addSkill demoEnv stFoo skA) [])
       = Some \<lparr>skillMap = [(''foo'', skFoo), (''c'', skC)],
                realPathSet = {''/r/foo/SKILL.md'', ''/c/SKILL.md''}, allDiagnostics = [],
                collisionDiagnostics = [collisionDiagnostic skFoo skA]\<rparr>
   \<and> loadSkillsLoop_index 1 demoEnv ''/w'' [''/c/SKILL.md'']
         (foldl (addSkill demoEnv) (addSkill demoEnv stFoo skA) [])
       = Some (Inr \<lparr>skillMap = [(''foo'', skFoo), (''c'', skC)],
                realPathSet = {''/r/foo/SKILL.md'', ''/c/SKILL.md''}, allDiagnostics = [],
                collisionDiagnostics = [collisionDiagnostic skFoo skA]\<rparr>)
   \<and> skFoo \<in> set (skills (finalResult \<lparr>skillMap = [(''foo'', skFoo), (''c'', skC)],
                realPathSet = {''/r/foo/SKILL.md'', ''/c/SKILL.md''}, allDiagnostics = [],
                collisionDiagnostics = [collisionDiagnostic skFoo skA]\<rparr>))
   \<and> \<lparr>type = collision, message = ''name "foo" collision'', path = Some ''/r/a.md'',
        collisionInfo = Some \<lparr>resourceType = ''skill'', cname = ''foo'',
                               winnerPath = ''/r/foo/SKILL.md'', loserPath = ''/r/a.md''\<rparr>\<rparr>
       \<in> set (diagnostics (finalResult \<lparr>skillMap = [(''foo'', skFoo), (''c'', skC)],
                realPathSet = {''/r/foo/SKILL.md'', ''/c/SKILL.md''}, allDiagnostics = [],
                collisionDiagnostics = [collisionDiagnostic skFoo skA]\<rparr>))\<close>
proof -
  let ?st3 = "\<lparr>skillMap = [(''foo'', skFoo), (''c'', skC)],
                realPathSet = {''/r/foo/SKILL.md'', ''/c/SKILL.md''}, allDiagnostics = [],
                collisionDiagnostics = [collisionDiagnostic skFoo skA]\<rparr>"
  let ?o = "\<lparr>cwd = None, skillPaths = Some [''/r'', ''/c/SKILL.md'']\<rparr>"
  let ?r = "\<lparr>skills = [skFoo, skC],
             diagnostics = [warningAt (msgNameMismatch ''foo'' ''r'') ''/r/a.md'',
                            collisionDiagnostic skFoo skA]\<rparr>"
  let ?st' = "addSkills demoEnv stFoo
         \<lparr>skills = [skA], diagnostics = fdiagnostics (loadSkillFromFile demoEnv ''/r/a.md'' ''path'')\<rparr>"
  let ?st2 = "\<lparr>skillMap = [(''foo'', skFoo), (''c'', skC)],
               realPathSet = {''/r/foo/SKILL.md'', ''/c/SKILL.md''},
               allDiagnostics = [], collisionDiagnostics = []\<rparr>"
  let ?res = "\<lparr>skills = [skFoo, skA],
               diagnostics = [warningAt (msgNameMismatch ''foo'' ''r'') ''/r/a.md'']\<rparr>"
  have h1: "loadSkills 3 demoEnv ?o = Some ?r" by code_simp
  have h2: "loadSkills_index 3 demoEnv ?o = Some (Inr ?r)" by code_simp
  have h3: "realPathOf demoEnv skA \<notin> realPathSet stFoo \<and> map_of (skillMap stFoo) (name skA) = Some skFoo"
    by (simp add: realPathOf_def demoEnv_def skA_def stFoo_def demoFiles_def)
  have h4: "loadSkillsLoop 3 demoEnv ''/w'' [''/r/a.md''] stFoo = Some ?st' \<and> map_of (skillMap stFoo) ''foo'' = Some skFoo"
    by code_simp
  have q: "resolvePath demoEnv ''/w'' ''/r/foo/SKILL.md'' = ''/r/foo/SKILL.md''"
          "resolvePath demoEnv ''/w'' ''/r/a.md'' = ''/r/a.md''"
          "resolvePath demoEnv ''/w'' ''/r'' = ''/r''"
    by code_simp+
  have f1: "loadSkillFromFile demoEnv ''/r/foo/SKILL.md'' ''path'' = \<lparr>skill = Some skFoo, fdiagnostics = []\<rparr>"
    by code_simp
  have f2: "loadSkillFromFile demoEnv ''/r/a.md'' ''path''
              = \<lparr>skill = Some skA, fdiagnostics = [warningAt (msgNameMismatch ''foo'' ''r'') ''/r/a.md'']\<rparr>"
    by code_simp
  have g1: "loadSkillFromFile_index demoEnv ''/r/foo/SKILL.md'' ''path'' = \<lparr>skill = Some skFoo, fdiagnostics = []\<rparr>"
    by code_simp
  have g2: "loadSkillFromFile_index demoEnv ''/r/a.md'' ''path''
              = \<lparr>skill = Some skA, fdiagnostics = [warningAt (msgNameMismatch ''foo'' ''r'') ''/r/a.md'']\<rparr>"
    by code_simp
  have files: "existsSync demoEnv ''/r/foo/SKILL.md'' \<and> statSync demoEnv ''/r/foo/SKILL.md'' = Inr SFile
        \<and> endsWith ''/r/foo/SKILL.md'' ''.md''
        \<and> existsSync demoEnv ''/r/a.md'' \<and> statSync demoEnv ''/r/a.md'' = Inr SFile
        \<and> endsWith ''/r/a.md'' ''.md''"
    by code_simp
  have ids: "realPathOf demoEnv skFoo \<noteq> realPathOf demoEnv skA \<and> name skFoo = name skA"
    by code_simp
  have h5: "existsSync demoEnv (resolvePath demoEnv ''/w'' ''/r/foo/SKILL.md'')
        \<and> statSync demoEnv (resolvePath demoEnv ''/w'' ''/r/foo/SKILL.md'') = Inr SFile
        \<and> endsWith (resolvePath demoEnv ''/w'' ''/r/foo/SKILL.md'') ''.md''
        \<and> existsSync demoEnv (resolvePath demoEnv ''/w'' ''/r/a.md'')
        \<and> statSync demoEnv (resolvePath demoEnv ''/w'' ''/r/a.md'') = Inr SFile
        \<and> endsWith (resolvePath demoEnv ''/w'' ''/r/a.md'') ''.md''
        \<and> skill (loadSkillFromFile demoEnv (resolvePath demoEnv ''/w'' ''/r/foo/SKILL.md'') ''path'') = Some skFoo
        \<and> skill (loadSkillFromFile demoEnv (resolvePath demoEnv ''/w'' ''/r/a.md'') ''path'') = Some skA
        \<and> realPathOf demoEnv skFoo \<noteq> realPathOf demoEnv skA \<and> name skFoo = name skA"
    unfolding q f1 f2 using files ids by simp
  have h6: "existsSync demoEnv (resolvePath demoEnv ''/w'' ''/r/foo/SKILL.md'')
        \<and> statSync demoEnv (resolvePath demoEnv ''/w'' ''/r/foo/SKILL.md'') = Inr SFile
        \<and> endsWith (resolvePath demoEnv ''/w'' ''/r/foo/SKILL.md'') ''.md''
        \<and> existsSync demoEnv (resolvePath demoEnv ''/w'' ''/r/a.md'')
        \<and> statSync demoEnv (resolvePath demoEnv ''/w'' ''/r/a.md'') = Inr SFile
        \<and> endsWith (resolvePath demoEnv ''/w'' ''/r/a.md'') ''.md''
        \<and> skill (loadSkillFromFile_index demoEnv (resolvePath demoEnv ''/w'' ''/r/foo/SKILL.md'') ''path'') = Some skFoo
        \<and> skill (loadSkillFromFile_index demoEnv (resolvePath demoEnv ''/w'' ''/r/a.md'') ''path'') = Some skA
        \<and> realPathOf demoEnv skFoo \<noteq> realPathOf demoEnv skA \<and> name skFoo = name skA"
    unfolding q g1 g2 using files ids by simp
  have pre: "loadSkillsLoop 1 demoEnv ''/w'' [''/r/foo/SKILL.md'', ''/c/SKILL.md''] initialState = Some ?st2"
    by code_simp
  have new: "realPathOf demoEnv skA \<notin> realPathSet ?st2 \<and> map_of (skillMap ?st2) (name skA) = Some skFoo"
    by code_simp
  have h7: "loadSkillsLoop 1 demoEnv ''/w'' [''/r/foo/SKILL.md'', ''/c/SKILL.md''] initialState = Some ?st2
        \<and> existsSync demoEnv (resolvePath demoEnv ''/w'' ''/r/a.md'')
        \<and> statSync demoEnv (resolvePath demoEnv ''/w'' ''/r/a.md'') = Inr SFile
        \<and> endsWith (resolvePath demoEnv ''/w'' ''/r/a.md'') ''.md''
        \<and> skill (loadSkillFromFile demoEnv (resolvePath demoEnv ''/w'' ''/r/a.md'') ''path'') = Some skA
        \<and> realPathOf demoEnv skA \<notin> realPathSet ?st2 \<and> map_of (skillMap ?st2) (name skA) = Some skFoo"
    unfolding q f2 using pre files new by simp
  have walk: "loadSkillsFromDirInternal 3 demoEnv ''/r'' ''path'' True None None = Some (?res, [''bar/foo''])"
    by code_simp
  have dir: "existsSync demoEnv ''/r'' \<and> statSync demoEnv ''/r'' = Inr SDirectory" by code_simp
  have h8: "existsSync demoEnv (resolvePath demoEnv ''/w'' ''/r'')
        \<and> statSync demoEnv (resolvePath demoEnv ''/w'' ''/r'') = Inr SDirectory
        \<and> loadSkillsFromDirInternal 3 demoEnv (resolvePath demoEnv ''/w'' ''/r'') ''path'' True None None
            = Some (?res, [''bar/foo''])
        \<and> skills ?res = [skFoo, skA]
        \<and> realPathOf demoEnv skFoo \<noteq> realPathOf demoEnv skA \<and> name skFoo = name skA"
    unfolding q using walk dir ids by simp
  have pre': "loadSkillsLoop_index 1 demoEnv ''/w'' [''/r/foo/SKILL.md'', ''/c/SKILL.md''] initialState
                = Some (Inr ?st2)"
    by code_simp
  have h9: "loadSkillsLoop_index 1 demoEnv ''/w'' [''/r/foo/SKILL.md'', ''/c/SKILL.md''] initialState
            = Some (Inr ?st2)
        \<and> existsSync demoEnv (resolvePath demoEnv ''/w'' ''/r/a.md'')
        \<and> statSync demoEnv (resolvePath demoEnv ''/w'' ''/r/a.md'') = Inr SFile
        \<and> endsWith (resolvePath demoEnv ''/w'' ''/r/a.md'') ''.md''
        \<and> skill (loadSkillFromFile_index demoEnv (resolvePath demoEnv ''/w'' ''/r/a.md'') ''path'') = Some skA
        \<and> realPathOf demoEnv skA \<notin> realPathSet ?st2 \<and> map_of (skillMap ?st2) (name skA) = Some skFoo"
    unfolding q g2 using pre' files new by simp
  have walk': "loadSkillsFromDir 3 demoEnv ''/r'' ''path'' True None None = Some (?res, [''bar/foo''])"
    by code_simp
  have h10: "existsSync demoEnv (resolvePath demoEnv ''/w'' ''/r'')
        \<and> statSync demoEnv (resolvePath demoEnv ''/w'' ''/r'') = Inr SDirectory
        \<and> loadSkillsFromDir 3 demoEnv (resolvePath demoEnv ''/w'' ''/r'') ''path'' True None None
            = Some (?res, [''bar/foo''])
        \<and> skills ?res = [skFoo, skA]
        \<and> realPathOf demoEnv skFoo \<noteq> realPathOf demoEnv skA \<and> name skFoo = name skA"
    unfolding q using walk' dir ids by simp
  note t = loadSkills_unique_names[where fuel = 3 and e = demoEnv and options = ?o and r = ?r and r' = ?r
        and s = skA and st = stFoo and existing = skFoo and c = "''/w''" and ps = "[''/r/a.md'']"
        and st' = ?st' and k = "''foo''" and dp = "''/r''" and res = ?res and ig = "[''bar/foo'']"
        and ?s1.0 = skFoo and ?s2.0 = skA]
  note u = loadSkills_unique_names[where fuel = 1 and e = demoEnv and c = "''/w''"
        and ?p1.0 = "''/r/foo/SKILL.md''" and ?p2.0 = "''/r/a.md''" and ?s1.0 = skFoo and ?s2.0 = skA
        and pre = "[''/r/foo/SKILL.md'', ''/c/SKILL.md'']" and st = ?st2 and p = "''/r/a.md''" and s = skA
        and existing = skFoo]
  have h11: "loadSkillsLoop 1 demoEnv ''/w'' [''/c/SKILL.md'']
               (foldl (addSkill demoEnv) (addSkill demoEnv stFoo skA) []) = Some ?st3"
    by code_simp
  have h12: "loadSkillsLoop_index 1 demoEnv ''/w'' [''/c/SKILL.md'']
               (foldl (addSkill demoEnv) (addSkill demoEnv stFoo skA) []) = Some (Inr ?st3)"
    by code_simp
  note v = loadSkills_unique_names[where fuel = 1 and e = demoEnv and c = "''/w''"
        and ps = "[''/c/SKILL.md'']" and st = stFoo and s = skA and later = "[]" and st' = ?st3
        and existing = skFoo]
  note v11 = v[THEN conjunct2, THEN conjunct2, THEN conjunct2, THEN conjunct2, THEN conjunct2,
        THEN conjunct2, THEN conjunct2, THEN conjunct2, THEN conjunct2, THEN conjunct2, THEN conjunct1]
  note v12 = v[THEN conjunct2, THEN conjunct2, THEN conjunct2, THEN conjunct2, THEN conjunct2,
        THEN conjunct2, THEN conjunct2, THEN conjunct2, THEN conjunct2, THEN conjunct2, THEN conjunct2,
        THEN conjunct1]
  have k11: \<open>map_of (skillMap ?st3) (name skA) = Some skFoo
        \<and> skFoo \<in> set (skills (finalResult ?st3))
        \<and> \<lparr>type = collision, message = ''name "'' @ name skA @ ''" collision'',
              path = Some (filePath skA),
              collisionInfo = Some \<lparr>resourceType = ''skill'', cname = name skA,
                                     winnerPath = filePath skFoo, loserPath = filePath skA\<rparr>\<rparr>
            \<in> set (diagnostics (finalResult ?st3))\<close>
    using v11 h11 h3 by blast
  have k12: \<open>map_of (skillMap ?st3) (name skA) = Some skFoo
        \<and> skFoo \<in> set (skills (finalResult ?st3))
        \<and> \<lparr>type = collision, message = ''name "'' @ name skA @ ''" collision'',
              path = Some (filePath skA),
              collisionInfo = Some \<lparr>resourceType = ''skill'', cname = name skA,
                                     winnerPath = filePath skFoo, loserPath = filePath skA\<rparr>\<rparr>
            \<in> set (diagnostics (finalResult ?st3))\<close>
    using v12 h12 h3 by blast
  note t2 = t[THEN conjunct2] note t3 = t2[THEN conjunct2] note t4 = t3[THEN conjunct2]
  note t5 = t4[THEN conjunct2] note t6 = t5[THEN conjunct2] note t7 = t6[THEN conjunct2]
  note t8 = t7[THEN conjunct2] note t9 = t8[THEN conjunct2] note t10 = t9[THEN conjunct2]
  note u2 = u[THEN conjunct2] note u3 = u2[THEN conjunct2] note u4 = u3[THEN conjunct2]
  note u5 = u4[THEN conjunct2] note u6 = u5[THEN conjunct2] note u7 = u6[THEN conjunct2]
  note u8 = u7[THEN conjunct2] note u9 = u8[THEN conjunct2]
  have a: "distinct (map name (skills ?r))" using t[THEN conjunct1] h1 by blast
  have b: \<open>collisionDiagnostics (addSkill demoEnv stFoo skA)
            = collisionDiagnostics stFoo
              @ [\<lparr>type = collision, message = ''name "'' @ name skA @ ''" collision'',
                  path = Some (filePath skA),
                  collisionInfo = Some \<lparr>resourceType = ''skill'', cname = name skA,
                                         winnerPath = filePath skFoo, loserPath = filePath skA\<rparr>\<rparr>]\<close>
    using t3[THEN conjunct1] h3 by blast
  have c: "map_of (skillMap ?st') ''foo'' = Some skFoo" using t4[THEN conjunct1] h4 by blast
  have d: \<open>loadSkills 1 demoEnv \<lparr>cwd = Some ''/w'', skillPaths = Some [''/r/foo/SKILL.md'', ''/r/a.md'']\<rparr>
          = Some \<lparr>skills = [skFoo],
                  diagnostics =
                    fdiagnostics (loadSkillFromFile demoEnv (resolvePath demoEnv ''/w'' ''/r/foo/SKILL.md'') ''path'')
                    @ fdiagnostics (loadSkillFromFile demoEnv (resolvePath demoEnv ''/w'' ''/r/a.md'') ''path'')
                    @ [\<lparr>type = collision, message = ''name "'' @ name skFoo @ ''" collision'',
                        path = Some (resolvePath demoEnv ''/w'' ''/r/a.md''),
                        collisionInfo = Some \<lparr>resourceType = ''skill'', cname = name skFoo,
                                               winnerPath = resolvePath demoEnv ''/w'' ''/r/foo/SKILL.md'',
                                               loserPath = resolvePath demoEnv ''/w'' ''/r/a.md''\<rparr>\<rparr>]\<rparr>\<close>
    using u5[THEN conjunct1] h5 by blast
  have d': \<open>loadSkills_index 1 demoEnv \<lparr>cwd = Some ''/w'', skillPaths = Some [''/r/foo/SKILL.md'', ''/r/a.md'']\<rparr>
          = Some (Inr \<lparr>skills = [skFoo],
                  diagnostics =
                    fdiagnostics (loadSkillFromFile_index demoEnv (resolvePath demoEnv ''/w'' ''/r/foo/SKILL.md'') ''path'')
                    @ fdiagnostics (loadSkillFromFile_index demoEnv (resolvePath demoEnv ''/w'' ''/r/a.md'') ''path'')
                    @ [\<lparr>type = collision, message = ''name "'' @ name skFoo @ ''" collision'',
                        path = Some (resolvePath demoEnv ''/w'' ''/r/a.md''),
                        collisionInfo = Some \<lparr>resourceType = ''skill'', cname = name skFoo,
                                               winnerPath = resolvePath demoEnv ''/w'' ''/r/foo/SKILL.md'',
                                               loserPath = resolvePath demoEnv ''/w'' ''/r/a.md''\<rparr>\<rparr>]\<rparr>)\<close>
    using u6[THEN conjunct1] h6 by blast
  have e: \<open>loadSkills 1 demoEnv
              \<lparr>cwd = Some ''/w'', skillPaths = Some ([''/r/foo/SKILL.md'', ''/c/SKILL.md''] @ [''/r/a.md''])\<rparr>
          = Some \<lparr>skills = map snd (skillMap ?st2),
                  diagnostics =
                    allDiagnostics ?st2
                    @ fdiagnostics (loadSkillFromFile demoEnv (resolvePath demoEnv ''/w'' ''/r/a.md'') ''path'')
                    @ collisionDiagnostics ?st2
                    @ [\<lparr>type = collision, message = ''name "'' @ name skA @ ''" collision'',
                        path = Some (resolvePath demoEnv ''/w'' ''/r/a.md''),
                        collisionInfo = Some \<lparr>resourceType = ''skill'', cname = name skA,
                                               winnerPath = filePath skFoo,
                                               loserPath = resolvePath demoEnv ''/w'' ''/r/a.md''\<rparr>\<rparr>]\<rparr>\<close>
    using u7[THEN conjunct1] h7 by blast
  have g: \<open>loadSkills 3 demoEnv \<lparr>cwd = Some ''/w'', skillPaths = Some [''/r'']\<rparr>
          = Some \<lparr>skills = [skFoo],
                  diagnostics =
                    diagnostics ?res
                    @ [\<lparr>type = collision, message = ''name "'' @ name skFoo @ ''" collision'',
                        path = Some (filePath skA),
                        collisionInfo = Some \<lparr>resourceType = ''skill'', cname = name skFoo,
                                               winnerPath = filePath skFoo,
                                               loserPath = filePath skA\<rparr>\<rparr>]\<rparr>\<close>
    using t8[THEN conjunct1] h8 by blast
  have e': \<open>loadSkills_index 1 demoEnv
              \<lparr>cwd = Some ''/w'', skillPaths = Some ([''/r/foo/SKILL.md'', ''/c/SKILL.md''] @ [''/r/a.md''])\<rparr>
          = Some (Inr \<lparr>skills = map snd (skillMap ?st2),
                  diagnostics =
                    allDiagnostics ?st2
                    @ fdiagnostics (loadSkillFromFile_index demoEnv (resolvePath demoEnv ''/w'' ''/r/a.md'') ''path'')
                    @ collisionDiagnostics ?st2
                    @ [\<lparr>type = collision, message = ''name "'' @ name skA @ ''" collision'',
                        path = Some (resolvePath demoEnv ''/w'' ''/r/a.md''),
                        collisionInfo = Some \<lparr>resourceType = ''skill'', cname = name skA,
                                               winnerPath = filePath skFoo,
                                               loserPath = resolvePath demoEnv ''/w'' ''/r/a.md''\<rparr>\<rparr>]\<rparr>)\<close>
    using u9[THEN conjunct1] h9 by blast
  have g': \<open>loadSkills_index 3 demoEnv \<lparr>cwd = Some ''/w'', skillPaths = Some [''/r'']\<rparr>
          = Some (Inr \<lparr>skills = [skFoo],
                  diagnostics =
                    diagnostics ?res
                    @ [\<lparr>type = collision, message = ''name "'' @ name skFoo @ ''" collision'',
                        path = Some (filePath skA),
                        collisionInfo = Some \<lparr>resourceType = ''skill'', cname = name skFoo,
                                               winnerPath = filePath skFoo,
                                               loserPath = filePath skA\<rparr>\<rparr>]\<rparr>)\<close>
    using t10[THEN conjunct1] h10 by blast
  have n: "name skFoo = ''foo''" "name skA = ''foo''" "filePath skFoo = ''/r/foo/SKILL.md''"
          "filePath skA = ''/r/a.md''"
    by (simp_all add: skFoo_def skA_def)
  have a': "distinct (map name (skills ?r))" using t2[THEN conjunct1] h2 by blast
  have k: \<open>skFoo \<in> set (skills (finalResult ?st3))\<close>
    \<open>\<lparr>type = collision, message = ''name "foo" collision'', path = Some ''/r/a.md'',
        collisionInfo = Some \<lparr>resourceType = ''skill'', cname = ''foo'',
                               winnerPath = ''/r/foo/SKILL.md'', loserPath = ''/r/a.md''\<rparr>\<rparr>
       \<in> set (diagnostics (finalResult ?st3))\<close>
    using k11 k12 unfolding n by simp_all
  show ?thesis
    unfolding h1 h2 h11 h12 d[unfolded q f1 f2 n] d'[unfolded q g1 g2 n] e[unfolded q f2 n] g[unfolded n]
      e'[unfolded q g2 n] g'[unfolded n]
    using a a' b c k by (simp add: n stFoo_def)
qed


lemma addSkills_single_fresh:
  "addSkills e initialState \<lparr>skills = [s], diagnostics = ds\<rparr>
     = \<lparr>skillMap = [(name s, s)], realPathSet = {realPathOf e s}, allDiagnostics = ds, collisionDiagnostics = []\<rparr>"
  by (simp add: addSkills_def addSkill_def initialState_def Let_def)

text \<open>
  C2, as amended. A skill whose resolved file identity is already recorded is dropped
  before any name comparison: \<open>addSkill\<close> returns the state as it was, so no collision
  diagnostic and no other diagnostic is added by the loader for it (the warnings of the
  skill parser for that path are recorded all the same). A skill that is kept records
  its identity, and recorded identities stay recorded. So, given two input paths that
  are \<open>.md\<close> files yielding skills of the same resolved identity, and no other input
  path, exactly one skill is returned, the first one, and the diagnostics are the
  parser's diagnostics of the two files: there is no collision diagnostic.
\<close>

theorem duplicate_identity_dropped:
  "(realPathOf e s \<in> realPathSet st \<longrightarrow> addSkill e st s = st)
   \<and> (realPathOf e s \<notin> realPathSet st \<and> map_of (skillMap st) (name s) = None \<longrightarrow>
        realPathOf e s \<in> realPathSet (addSkill e st s))
   \<and> realPathSet st \<subseteq> realPathSet (addSkill e st s)
   \<and> (existsSync e (resolvePath e c p1) \<and> statSync e (resolvePath e c p1) = Inr SFile
        \<and> endsWith (resolvePath e c p1) ''.md''
        \<and> existsSync e (resolvePath e c p2) \<and> statSync e (resolvePath e c p2) = Inr SFile
        \<and> endsWith (resolvePath e c p2) ''.md''
        \<and> skill (loadSkillFromFile e (resolvePath e c p1) ''path'') = Some s1
        \<and> skill (loadSkillFromFile e (resolvePath e c p2) ''path'') = Some s2
        \<and> realPathOf e s1 = realPathOf e s2 \<longrightarrow>
        loadSkills fuel e \<lparr>cwd = Some c, skillPaths = Some [p1, p2]\<rparr>
          = Some \<lparr>skills = [s1],
                  diagnostics = fdiagnostics (loadSkillFromFile e (resolvePath e c p1) ''path'')
                                @ fdiagnostics (loadSkillFromFile e (resolvePath e c p2) ''path'')\<rparr>)"
proof (intro conjI impI)
  assume "realPathOf e s \<in> realPathSet st"
  then show "addSkill e st s = st" by (simp add: addSkill_def Let_def)
next
  assume "realPathOf e s \<notin> realPathSet st \<and> map_of (skillMap st) (name s) = None"
  then show "realPathOf e s \<in> realPathSet (addSkill e st s)" by (simp add: addSkill_def Let_def)
next
  show "realPathSet st \<subseteq> realPathSet (addSkill e st s)"
    by (auto simp: addSkill_def Let_def split: option.splits)
next
  let ?q1 = "resolvePath e c p1" and ?q2 = "resolvePath e c p2"
  assume h: "existsSync e ?q1 \<and> statSync e ?q1 = Inr SFile \<and> endsWith ?q1 ''.md''
        \<and> existsSync e ?q2 \<and> statSync e ?q2 = Inr SFile \<and> endsWith ?q2 ''.md''
        \<and> skill (loadSkillFromFile e ?q1 ''path'') = Some s1
        \<and> skill (loadSkillFromFile e ?q2 ''path'') = Some s2
        \<and> realPathOf e s1 = realPathOf e s2"
  let ?d1 = "fdiagnostics (loadSkillFromFile e ?q1 ''path'')"
  let ?d2 = "fdiagnostics (loadSkillFromFile e ?q2 ''path'')"
  let ?st1 = "\<lparr>skillMap = [(name s1, s1)], realPathSet = {realPathOf e s1}, allDiagnostics = ?d1, collisionDiagnostics = []\<rparr>"
  have second: "addSkills e ?st1 \<lparr>skills = [s2], diagnostics = ?d2\<rparr> = ?st1\<lparr>allDiagnostics := ?d1 @ ?d2\<rparr>"
    using h by (simp add: addSkills_def addSkill_def Let_def)
  have "loadSkillsLoop fuel e c [p1, p2] initialState = Some (?st1\<lparr>allDiagnostics := ?d1 @ ?d2\<rparr>)"
    using h second by (simp add: Let_def addSkills_single_fresh)
  then show "loadSkills fuel e \<lparr>cwd = Some c, skillPaths = Some [p1, p2]\<rparr>
          = Some \<lparr>skills = [s1], diagnostics = ?d1 @ ?d2\<rparr>"
    by (simp add: loadSkills_def finalResult_def)
qed

theorem duplicate_identity_dropped_witness:
  "loadSkills 1 demoEnv \<lparr>cwd = Some ''/w'', skillPaths = Some [''/r/a.md'', ''/l.md'']\<rparr>
     = Some \<lparr>skills = [skA],
             diagnostics = [warningAt (msgNameMismatch ''foo'' ''r'') ''/r/a.md'',
                            warningAt (msgNameMismatch ''foo'' []) ''/l.md'']\<rparr>
   \<and> addSkill demoEnv \<lparr>skillMap = [(''foo'', skA)], realPathSet = {''/r/a.md''},
                         allDiagnostics = [], collisionDiagnostics = []\<rparr> skL
       = \<lparr>skillMap = [(''foo'', skA)], realPathSet = {''/r/a.md''},
          allDiagnostics = [], collisionDiagnostics = []\<rparr>
   \<and> ''/r/a.md'' \<in> realPathSet (addSkill demoEnv initialState skA)"
proof -
  let ?stA = "\<lparr>skillMap = [(''foo'', skA)], realPathSet = {''/r/a.md''},
               allDiagnostics = [], collisionDiagnostics = []\<rparr>"
  have r: "realPathOf demoEnv skL = ''/r/a.md''" "realPathOf demoEnv skA = ''/r/a.md''"
    by (simp_all add: realPathOf_def demoEnv_def skL_def skA_def demoFiles_def)
  have h1: "realPathOf demoEnv skL \<in> realPathSet ?stA" by (simp add: r)
  have h2: "realPathOf demoEnv skA \<notin> realPathSet initialState
            \<and> map_of (skillMap initialState) (name skA) = None"
    by (simp add: initialState_def)
  have f1: "loadSkillFromFile demoEnv ''/r/a.md'' ''path''
              = \<lparr>skill = Some skA, fdiagnostics = [warningAt (msgNameMismatch ''foo'' ''r'') ''/r/a.md'']\<rparr>"
    by code_simp
  have f2: "loadSkillFromFile demoEnv ''/l.md'' ''path''
              = \<lparr>skill = Some skL, fdiagnostics = [warningAt (msgNameMismatch ''foo'' []) ''/l.md'']\<rparr>"
    by code_simp
  have q: "resolvePath demoEnv ''/w'' ''/r/a.md'' = ''/r/a.md''" "resolvePath demoEnv ''/w'' ''/l.md'' = ''/l.md''"
    by code_simp+
  have h3: "existsSync demoEnv (resolvePath demoEnv ''/w'' ''/r/a.md'')
        \<and> statSync demoEnv (resolvePath demoEnv ''/w'' ''/r/a.md'') = Inr SFile
        \<and> endsWith (resolvePath demoEnv ''/w'' ''/r/a.md'') ''.md''
        \<and> existsSync demoEnv (resolvePath demoEnv ''/w'' ''/l.md'')
        \<and> statSync demoEnv (resolvePath demoEnv ''/w'' ''/l.md'') = Inr SFile
        \<and> endsWith (resolvePath demoEnv ''/w'' ''/l.md'') ''.md''
        \<and> skill (loadSkillFromFile demoEnv (resolvePath demoEnv ''/w'' ''/r/a.md'') ''path'') = Some skA
        \<and> skill (loadSkillFromFile demoEnv (resolvePath demoEnv ''/w'' ''/l.md'') ''path'') = Some skL
        \<and> realPathOf demoEnv skA = realPathOf demoEnv skL"
    unfolding q f1 f2 r by code_simp
  note t1 = duplicate_identity_dropped[where e = demoEnv and s = skL and st = ?stA and c = "''/w''"
        and ?p1.0 = "''/r/a.md''" and ?p2.0 = "''/l.md''" and ?s1.0 = skA and ?s2.0 = skL and fuel = 1]
  note t2 = duplicate_identity_dropped[where e = demoEnv and s = skA and st = initialState and c = "''/w''"
        and ?p1.0 = "''/r/a.md''" and ?p2.0 = "''/l.md''" and ?s1.0 = skA and ?s2.0 = skL and fuel = 1]
  have a: "addSkill demoEnv ?stA skL = ?stA" using t1 h1 by blast
  have b: "realPathOf demoEnv skA \<in> realPathSet (addSkill demoEnv initialState skA)" using t2 h2 by blast
  have c: "loadSkills 1 demoEnv \<lparr>cwd = Some ''/w'', skillPaths = Some [''/r/a.md'', ''/l.md'']\<rparr>
          = Some \<lparr>skills = [skA],
                  diagnostics = fdiagnostics (loadSkillFromFile demoEnv (resolvePath demoEnv ''/w'' ''/r/a.md'') ''path'')
                                @ fdiagnostics (loadSkillFromFile demoEnv (resolvePath demoEnv ''/w'' ''/l.md'') ''path'')\<rparr>"
    using t1 h3 by blast
  show ?thesis using a b c unfolding q f1 f2 r by simp
qed

text \<open>
  The claim as first stated fails when the earlier encounter of the file lost a name
  collision: \<open>/r/a.md\<close> and \<open>/l.md\<close> resolve to the same real file, no skill is kept for
  it, and both a warning and a collision diagnostic are emitted for the duplicate.
\<close>

theorem loadSkills_duplicate_counterexample:
  "realpathSync demoEnv ''/r/a.md'' = Inr ''/r/a.md''
   \<and> realpathSync demoEnv ''/l.md'' = Inr ''/r/a.md''
   \<and> loadSkills 1 demoEnv \<lparr>cwd = None, skillPaths = Some [''/r/foo/SKILL.md'', ''/r/a.md'', ''/l.md'']\<rparr>
       = Some \<lparr>skills = [skFoo],
               diagnostics = [warningAt (msgNameMismatch ''foo'' ''r'') ''/r/a.md'',
                              warningAt (msgNameMismatch ''foo'' []) ''/l.md'',
                              collisionDiagnostic skFoo skA,
                              collisionDiagnostic skFoo skL]\<rparr>"
  by code_simp



section \<open>The directory walker: which files reach the skill parser\<close>


lemma entryAction_Parse_iff:
  "entryAction e dir inc root ig entry = Parse p \<longleftrightarrow>
     p = join e dir (d_name entry)
     \<and> \<not> startsWith (d_name entry) ''.'' \<and> d_name entry \<noteq> ''node_modules''
     \<and> entryType e (join e dir (d_name entry)) entry = Some (False, True)
     \<and> \<not> ignores e ig (toPosixPath e (relative e root (join e dir (d_name entry))))
     \<and> ((inc \<and> endsWith (d_name entry) ''.md'') \<or> (\<not> inc \<and> d_name entry = ''SKILL.md''))"
  by (auto simp: entryAction_def Let_def split: option.splits if_splits)

lemma entryAction_Descend_iff:
  "entryAction e dir inc root ig entry = Descend p \<longleftrightarrow>
     p = join e dir (d_name entry)
     \<and> \<not> startsWith (d_name entry) ''.'' \<and> d_name entry \<noteq> ''node_modules''
     \<and> (\<exists>f. entryType e (join e dir (d_name entry)) entry = Some (True, f))
     \<and> \<not> ignores e ig (toPosixPath e (relative e root (join e dir (d_name entry))) @ ''/'')"
  by (auto simp: entryAction_def Let_def split: option.splits if_splits)

lemma entryAction_index_Parse_iff:
  "entryAction_index e dir inc root ig entry = Parse p \<longleftrightarrow>
     p = join e dir (d_name entry)
     \<and> \<not> startsWith (d_name entry) ''.'' \<and> d_name entry \<noteq> ''node_modules''
     \<and> (\<exists>f. entryType e (join e dir (d_name entry)) entry = Some (False, f))
     \<and> \<not> ignores e ig (toPosixPath e (relative e root (join e dir (d_name entry))))
     \<and> ((inc \<and> endsWith (d_name entry) ''.md'') \<or> (\<not> inc \<and> d_name entry = ''SKILL.md''))"
  by (auto simp: entryAction_index_def Let_def split: option.splits if_splits)

lemma entryAction_index_Descend_iff:
  "entryAction_index e dir inc root ig entry = Descend p \<longleftrightarrow>
     p = join e dir (d_name entry)
     \<and> \<not> startsWith (d_name entry) ''.'' \<and> d_name entry \<noteq> ''node_modules''
     \<and> (\<exists>f. entryType e (join e dir (d_name entry)) entry = Some (True, f))
     \<and> \<not> ignores e ig (toPosixPath e (relative e root (join e dir (d_name entry))) @ ''/'')"
  by (auto simp: entryAction_index_def Let_def split: option.splits if_splits)

lemma fromCandidates_empty: "fromCandidates P e src dir inc emptyResult"
  by (simp add: fromCandidates_def emptyResult_def)

lemma candidatePath_nested: "candidatePath p False d n \<Longrightarrow> candidatePath dir inc d n"
  by (simp add: candidatePath_def)

lemma fromCandidates_nested:
  "fromCandidates P e src p False sub \<Longrightarrow> fromCandidates P e src dir inc sub"
  unfolding fromCandidates_def using candidatePath_nested by blast

lemma fromCandidates_merge:
  "fromCandidates P e src dir inc acc \<Longrightarrow> fromCandidates P e src dir inc sub \<Longrightarrow>
   fromCandidates P e src dir inc (mergeResult acc sub)"
  unfolding fromCandidates_def mergeResult_def by auto

lemma fromCandidates_push:
  assumes "fromCandidates P e src dir inc acc" "candidatePath dir inc d n"
  shows "fromCandidates P e src dir inc (pushFile acc (P e (join e d n) src))"
proof -
  let ?res = "P e (join e d n) src"
  have sk: "set (skills (pushFile acc ?res)) \<subseteq> set (skills acc) \<union> {s. skill ?res = Some s}"
    by (auto simp: pushFile_def split: option.splits)
  have dg: "set (diagnostics (pushFile acc ?res)) = set (diagnostics acc) \<union> set (fdiagnostics ?res)"
    by (simp add: pushFile_def)
  show ?thesis
    unfolding fromCandidates_def
  proof (intro conjI ballI)
    fix s assume "s \<in> set (skills (pushFile acc ?res))"
    then consider "s \<in> set (skills acc)" | "skill ?res = Some s" using sk by blast
    then show "\<exists>d n. skill (P e (join e d n) src) = Some s \<and> candidatePath dir inc d n"
    proof cases
      case 1
      then show ?thesis using assms(1) unfolding fromCandidates_def by blast
    next
      case 2
      then show ?thesis using assms(2) by blast
    qed
  next
    fix x assume "x \<in> set (diagnostics (pushFile acc ?res))"
    then consider "x \<in> set (diagnostics acc)" | "x \<in> set (fdiagnostics ?res)" using dg by blast
    then show "\<exists>d n. x \<in> set (fdiagnostics (P e (join e d n) src)) \<and> candidatePath dir inc d n"
    proof cases
      case 1
      then show ?thesis using assms(1) unfolding fromCandidates_def by blast
    next
      case 2
      then show ?thesis using assms(2) by blast
    qed
  qed
qed

lemma walker_fromCandidates:
  shows "loadSkillsFromDirInternal fuel e dir src inc igo ro = Some (r, ig') \<Longrightarrow>
      fromCandidates loadSkillFromFile e src dir inc r"
    and "entriesInternal fuel2 e2 dir2 src2 inc2 root es acc ig = Some (r2, ig2) \<Longrightarrow>
      fromCandidates loadSkillFromFile e2 src2 dir2 inc2 acc \<Longrightarrow>
      fromCandidates loadSkillFromFile e2 src2 dir2 inc2 r2"
proof (induction fuel e dir src inc igo ro and fuel2 e2 dir2 src2 inc2 root es acc ig
       arbitrary: r ig' and r2 ig2 rule: loadSkillsFromDirInternal_entriesInternal.induct)
  case (1 e dir src includeRootFiles ignoreMatcher rootDir)
  then show ?case by simp
next
  case (2 fuel e dir src includeRootFiles ignoreMatcher rootDir)
  show ?case
  proof (cases "existsSync e dir")
    case False
    then show ?thesis using "2.prems" by (auto simp: fromCandidates_empty)
  next
    case True
    show ?thesis
    proof (cases "readdirSync e dir")
      case (Inl m)
      then show ?thesis using "2.prems" True by (auto simp: fromCandidates_empty)
    next
      case (Inr entries)
      have "entriesInternal fuel e dir src includeRootFiles
               (case rootDir of None \<Rightarrow> dir | Some r \<Rightarrow> r) entries emptyResult
               (addIgnoreRules e (case ignoreMatcher of None \<Rightarrow> [] | Some m \<Rightarrow> m) dir
                  (case rootDir of None \<Rightarrow> dir | Some r \<Rightarrow> r)) = Some (r, ig')"
        using "2.prems" True Inr by simp
      then show ?thesis using "2.IH"[OF _ Inr] True by (simp add: fromCandidates_empty)
    qed
  qed
next
  case (3 fuel e dir src includeRootFiles root acc ig)
  then show ?case by simp
next
  case (4 fuel e dir src includeRootFiles root entry entries acc ig)
  note run = "4.prems"(1) and acc = "4.prems"(2)
  show ?case
  proof (cases "entryAction e dir includeRootFiles root ig entry")
    case Skip
    then show ?thesis using "4.IH"(1) run acc by simp
  next
    case (Descend p)
    from run Descend obtain sub ig1 where
      sub: "loadSkillsFromDirInternal fuel e p src False (Some ig) (Some root) = Some (sub, ig1)"
      and rest: "entriesInternal fuel e dir src includeRootFiles root entries (mergeResult acc sub) ig1 = Some (r2, ig2)"
      by (auto split: option.splits)
    have "fromCandidates loadSkillFromFile e src p False sub"
      using "4.IH"(2)[OF Descend sub] .
    then have "fromCandidates loadSkillFromFile e src dir includeRootFiles (mergeResult acc sub)"
      using acc fromCandidates_merge fromCandidates_nested by blast
    then show ?thesis
      by (rule "4.IH"(3)[OF Descend sub refl rest])
  next
    case (Parse p)
    from run Parse have rest:
      "entriesInternal fuel e dir src includeRootFiles root entries (pushFile acc (loadSkillFromFile e p src)) ig = Some (r2, ig2)"
      by simp
    have p: "p = join e dir (d_name entry)"
      and c: "(includeRootFiles \<and> endsWith (d_name entry) ''.md'') \<or> (\<not> includeRootFiles \<and> d_name entry = ''SKILL.md'')"
      using Parse unfolding entryAction_Parse_iff by blast+
    have "candidatePath dir includeRootFiles dir (d_name entry)"
      using c by (auto simp: candidatePath_def)
    then have "fromCandidates loadSkillFromFile e src dir includeRootFiles (pushFile acc (loadSkillFromFile e p src))"
      unfolding p using acc by (intro fromCandidates_push)
    then show ?thesis
      by (rule "4.IH"(4)[OF Parse rest])
  qed
qed

lemma walker_index_fromCandidates:
  shows "loadSkillsFromDir fuel e dir src inc igo ro = Some (r, ig') \<Longrightarrow>
      fromCandidates loadSkillFromFile_index e src dir inc r"
    and "entriesDir fuel2 e2 dir2 src2 inc2 root es acc ig = Some (r2, ig2) \<Longrightarrow>
      fromCandidates loadSkillFromFile_index e2 src2 dir2 inc2 acc \<Longrightarrow>
      fromCandidates loadSkillFromFile_index e2 src2 dir2 inc2 r2"
proof (induction fuel e dir src inc igo ro and fuel2 e2 dir2 src2 inc2 root es acc ig
       arbitrary: r ig' and r2 ig2 rule: loadSkillsFromDir_entriesDir.induct)
  case (1 e dir src includeRootFiles ignoreMatcher rootDir)
  then show ?case by simp
next
  case (2 fuel e dir src includeRootFiles ignoreMatcher rootDir)
  show ?case
  proof (cases "existsSync e dir")
    case False
    then show ?thesis using "2.prems" by (auto simp: fromCandidates_empty)
  next
    case True
    show ?thesis
    proof (cases "readdirSync e dir")
      case (Inl m)
      then show ?thesis using "2.prems" True by (auto simp: fromCandidates_empty)
    next
      case (Inr entries)
      have "entriesDir fuel e dir src includeRootFiles
               (case rootDir of None \<Rightarrow> dir | Some r \<Rightarrow> r) entries emptyResult
               (addIgnoreRules e (case ignoreMatcher of None \<Rightarrow> [] | Some m \<Rightarrow> m) dir
                  (case rootDir of None \<Rightarrow> dir | Some r \<Rightarrow> r)) = Some (r, ig')"
        using "2.prems" True Inr by simp
      then show ?thesis using "2.IH"[OF _ Inr] True by (simp add: fromCandidates_empty)
    qed
  qed
next
  case (3 fuel e dir src includeRootFiles root acc ig)
  then show ?case by simp
next
  case (4 fuel e dir src includeRootFiles root entry entries acc ig)
  note run = "4.prems"(1) and acc = "4.prems"(2)
  show ?case
  proof (cases "entryAction_index e dir includeRootFiles root ig entry")
    case Skip
    then show ?thesis using "4.IH"(1) run acc by simp
  next
    case (Descend p)
    from run Descend obtain sub ig1 where
      sub: "loadSkillsFromDir fuel e p src False (Some ig) (Some root) = Some (sub, ig1)"
      and rest: "entriesDir fuel e dir src includeRootFiles root entries (mergeResult acc sub) ig1 = Some (r2, ig2)"
      by (auto split: option.splits)
    have "fromCandidates loadSkillFromFile_index e src p False sub"
      using "4.IH"(2)[OF Descend sub] .
    then have "fromCandidates loadSkillFromFile_index e src dir includeRootFiles (mergeResult acc sub)"
      using acc fromCandidates_merge fromCandidates_nested by blast
    then show ?thesis
      by (rule "4.IH"(3)[OF Descend sub refl rest])
  next
    case (Parse p)
    from run Parse have rest:
      "entriesDir fuel e dir src includeRootFiles root entries (pushFile acc (loadSkillFromFile_index e p src)) ig = Some (r2, ig2)"
      by simp
    have p: "p = join e dir (d_name entry)"
      and c: "(includeRootFiles \<and> endsWith (d_name entry) ''.md'') \<or> (\<not> includeRootFiles \<and> d_name entry = ''SKILL.md'')"
      using Parse unfolding entryAction_index_Parse_iff by blast+
    have "candidatePath dir includeRootFiles dir (d_name entry)"
      using c by (auto simp: candidatePath_def)
    then have "fromCandidates loadSkillFromFile_index e src dir includeRootFiles (pushFile acc (loadSkillFromFile_index e p src))"
      unfolding p using acc by (intro fromCandidates_push)
    then show ?thesis
      by (rule "4.IH"(4)[OF Parse rest])
  qed
qed

lemma loadSkillFromFile_skill:
  "skill (loadSkillFromFile e fp src) = Some s \<Longrightarrow>
     filePath s = fp \<and> source s = src \<and> description s \<noteq> [] \<and> trim (description s) \<noteq> []"
  by (auto simp: loadSkillFromFile_def Let_def split: sum.splits option.splits if_splits)

lemma loadSkillFromFile_diag_path:
  "x \<in> set (fdiagnostics (loadSkillFromFile e fp src)) \<Longrightarrow> path x = Some fp \<and> type x = warning"
  by (auto simp: loadSkillFromFile_def Let_def warningAt_def split: sum.splits option.splits if_splits)

lemma loadSkillFromFile_index_skill:
  "skill (loadSkillFromFile_index e fp src) = Some s \<Longrightarrow>
     filePath s = fp \<and> source s = src \<and> description s \<noteq> []"
  by (auto simp: loadSkillFromFile_index_def Let_def split: sum.splits option.splits if_splits)

lemma loadSkillFromFile_index_diag_path:
  "x \<in> set (fdiagnostics (loadSkillFromFile_index e fp src)) \<Longrightarrow> path x = Some fp \<and> type x = warning"
  by (auto simp: loadSkillFromFile_index_def Let_def warningAt_def split: sum.splits option.splits if_splits)


text \<open>
  C6, as amended. In every directory walk, an entry that is a file (by its type flag, or
  as the target of a symbolic link), whose name does not begin with \<open>.\<close> and is not
  \<open>node_modules\<close>, and whose path the matcher does not ignore, is passed to the skill
  parser if and only if either \<open>includeRootFiles\<close> is true and its name ends with \<open>.md\<close>,
  or \<open>includeRootFiles\<close> is false and its name is exactly \<open>SKILL.md\<close>; otherwise it is
  skipped, and on such entries both modules decide alike. An entry handed to the parser
  adds the parser's result for its path; every recursive call into a subdirectory is
  made with \<open>includeRootFiles = false\<close>, the same matcher and the same root. So every
  skill and every diagnostic of a walk belongs to a file named \<open>SKILL.md\<close>, or to a file
  directly in the walked directory whose name ends with \<open>.md\<close> when root files are
  included.
\<close>

theorem walker_file_policy:
  "(\<not> startsWith (d_name entry) ''.'' \<and> d_name entry \<noteq> ''node_modules''
      \<and> entryType e (join e dir (d_name entry)) entry = Some (False, True)
      \<and> \<not> ignores e ig (toPosixPath e (relative e root (join e dir (d_name entry)))) \<longrightarrow>
        ((entryAction e dir inc root ig entry = Parse (join e dir (d_name entry)))
           = ((inc \<and> suffix ''.md'' (d_name entry)) \<or> (\<not> inc \<and> d_name entry = ''SKILL.md'')))
        \<and> (entryAction e dir inc root ig entry \<noteq> Parse (join e dir (d_name entry)) \<longrightarrow>
             entryAction e dir inc root ig entry = Skip)
        \<and> entryAction_index e dir inc root ig entry = entryAction e dir inc root ig entry)
   \<and> (entryAction e dir inc root ig entry = Parse p \<longrightarrow>
        entriesInternal fuel e dir src inc root (entry # rest) acc ig
          = entriesInternal fuel e dir src inc root rest (pushFile acc (loadSkillFromFile e p src)) ig)
   \<and> (entryAction e dir inc root ig entry = Skip \<longrightarrow>
        entriesInternal fuel e dir src inc root (entry # rest) acc ig
          = entriesInternal fuel e dir src inc root rest acc ig)
   \<and> (entryAction e dir inc root ig entry = Descend p \<longrightarrow>
        entriesInternal fuel e dir src inc root (entry # rest) acc ig
          = (case loadSkillsFromDirInternal fuel e p src False (Some ig) (Some root) of
               None \<Rightarrow> None
             | Some (sub, ig') \<Rightarrow>
                 entriesInternal fuel e dir src inc root rest (mergeResult acc sub) ig'))
   \<and> (entryAction_index e dir inc root ig entry = Descend p \<longrightarrow>
        entriesDir fuel e dir src inc root (entry # rest) acc ig
          = (case loadSkillsFromDir fuel e p src False (Some ig) (Some root) of
               None \<Rightarrow> None
             | Some (sub, ig') \<Rightarrow>
                 entriesDir fuel e dir src inc root rest (mergeResult acc sub) ig'))
   \<and> (loadSkillsFromDirInternal fuel e dir src inc igo ro = Some (r, ig1) \<longrightarrow>
        (\<forall>s \<in> set (skills r). \<exists>d n. filePath s = join e d n
             \<and> (n = ''SKILL.md'' \<or> (inc \<and> d = dir \<and> suffix ''.md'' n)))
        \<and> (\<forall>x \<in> set (diagnostics r). \<exists>d n. path x = Some (join e d n)
             \<and> (n = ''SKILL.md'' \<or> (inc \<and> d = dir \<and> suffix ''.md'' n))))
   \<and> (loadSkillsFromDir fuel e dir src inc igo ro = Some (r', ig2) \<longrightarrow>
        (\<forall>s \<in> set (skills r'). \<exists>d n. filePath s = join e d n
             \<and> (n = ''SKILL.md'' \<or> (inc \<and> d = dir \<and> suffix ''.md'' n)))
        \<and> (\<forall>x \<in> set (diagnostics r'). \<exists>d n. path x = Some (join e d n)
             \<and> (n = ''SKILL.md'' \<or> (inc \<and> d = dir \<and> suffix ''.md'' n))))"
proof (intro conjI impI)
  assume h: "\<not> startsWith (d_name entry) ''.'' \<and> d_name entry \<noteq> ''node_modules''
      \<and> entryType e (join e dir (d_name entry)) entry = Some (False, True)
      \<and> \<not> ignores e ig (toPosixPath e (relative e root (join e dir (d_name entry))))"
  show "(entryAction e dir inc root ig entry = Parse (join e dir (d_name entry)))
           = ((inc \<and> suffix ''.md'' (d_name entry)) \<or> (\<not> inc \<and> d_name entry = ''SKILL.md''))"
    using h unfolding entryAction_Parse_iff endsWith_suffix by blast
  show "entryAction_index e dir inc root ig entry = entryAction e dir inc root ig entry"
    using h by (simp add: entryAction_def entryAction_index_def Let_def)
  assume "entryAction e dir inc root ig entry \<noteq> Parse (join e dir (d_name entry))"
  then show "entryAction e dir inc root ig entry = Skip"
    using h by (simp add: entryAction_def Let_def split: if_splits)
next
  assume "entryAction e dir inc root ig entry = Parse p"
  then show "entriesInternal fuel e dir src inc root (entry # rest) acc ig
          = entriesInternal fuel e dir src inc root rest (pushFile acc (loadSkillFromFile e p src)) ig"
    by simp
next
  assume "entryAction e dir inc root ig entry = Skip"
  then show "entriesInternal fuel e dir src inc root (entry # rest) acc ig
          = entriesInternal fuel e dir src inc root rest acc ig"
    by simp
next
  assume "entryAction e dir inc root ig entry = Descend p"
  then show "entriesInternal fuel e dir src inc root (entry # rest) acc ig
          = (case loadSkillsFromDirInternal fuel e p src False (Some ig) (Some root) of
               None \<Rightarrow> None
             | Some (sub, ig') \<Rightarrow>
                 entriesInternal fuel e dir src inc root rest (mergeResult acc sub) ig')"
    by simp
next
  assume "entryAction_index e dir inc root ig entry = Descend p"
  then show "entriesDir fuel e dir src inc root (entry # rest) acc ig
          = (case loadSkillsFromDir fuel e p src False (Some ig) (Some root) of
               None \<Rightarrow> None
             | Some (sub, ig') \<Rightarrow>
                 entriesDir fuel e dir src inc root rest (mergeResult acc sub) ig')"
    by simp
next
  assume "loadSkillsFromDirInternal fuel e dir src inc igo ro = Some (r, ig1)"
  then have fc: "fromCandidates loadSkillFromFile e src dir inc r" by (rule walker_fromCandidates(1))
  show "\<forall>s \<in> set (skills r). \<exists>d n. filePath s = join e d n
             \<and> (n = ''SKILL.md'' \<or> (inc \<and> d = dir \<and> suffix ''.md'' n))"
    using fc loadSkillFromFile_skill
    unfolding fromCandidates_def candidatePath_def endsWith_suffix by blast
  show "\<forall>x \<in> set (diagnostics r). \<exists>d n. path x = Some (join e d n)
             \<and> (n = ''SKILL.md'' \<or> (inc \<and> d = dir \<and> suffix ''.md'' n))"
    using fc loadSkillFromFile_diag_path
    unfolding fromCandidates_def candidatePath_def endsWith_suffix by blast
next
  assume "loadSkillsFromDir fuel e dir src inc igo ro = Some (r', ig2)"
  then have fc: "fromCandidates loadSkillFromFile_index e src dir inc r'" by (rule walker_index_fromCandidates(1))
  show "\<forall>s \<in> set (skills r'). \<exists>d n. filePath s = join e d n
             \<and> (n = ''SKILL.md'' \<or> (inc \<and> d = dir \<and> suffix ''.md'' n))"
    using fc loadSkillFromFile_index_skill
    unfolding fromCandidates_def candidatePath_def endsWith_suffix by blast
  show "\<forall>x \<in> set (diagnostics r'). \<exists>d n. path x = Some (join e d n)
             \<and> (n = ''SKILL.md'' \<or> (inc \<and> d = dir \<and> suffix ''.md'' n))"
    using fc loadSkillFromFile_index_diag_path
    unfolding fromCandidates_def candidatePath_def endsWith_suffix by blast
qed

text \<open>
  The claim as first stated says every file whose name ends with \<open>.md\<close> is parsed when
  root files are included. \<open>/r/.h.md\<close> is such a file, and the guard on names that begin
  with a dot skips it.
\<close>

theorem walker_hidden_file_counterexample:
  "entryType demoEnv ''/r/.h.md'' \<lparr>d_name = ''.h.md'', d_kind = DFile\<rparr> = Some (False, True)
   \<and> endsWith ''.h.md'' ''.md''
   \<and> entryAction demoEnv ''/r'' True ''/r'' [] \<lparr>d_name = ''.h.md'', d_kind = DFile\<rparr> = Skip
   \<and> entryAction_index demoEnv ''/r'' True ''/r'' [] \<lparr>d_name = ''.h.md'', d_kind = DFile\<rparr> = Skip"
  by code_simp

theorem walker_file_policy_witness:
  "entryAction demoEnv ''/r'' True ''/r'' [''bar/foo''] \<lparr>d_name = ''a.md'', d_kind = DFile\<rparr> = Parse ''/r/a.md''
   \<and> entriesInternal 1 demoEnv ''/r'' ''path'' True ''/r''
        [\<lparr>d_name = ''a.md'', d_kind = DFile\<rparr>] emptyResult [''bar/foo'']
       = Some (\<lparr>skills = [skA], diagnostics = [warningAt (msgNameMismatch ''foo'' ''r'') ''/r/a.md'']\<rparr>, [''bar/foo''])
   \<and> (\<exists>d n. filePath skFoo = d @ ''/'' @ n \<and> (n = ''SKILL.md'' \<or> (d = ''/r'' \<and> suffix ''.md'' n)))
   \<and> (\<exists>d n. filePath skA = d @ ''/'' @ n \<and> (n = ''SKILL.md'' \<or> (d = ''/r'' \<and> suffix ''.md'' n)))"
proof -
  let ?entry = "\<lparr>d_name = ''a.md'', d_kind = DFile\<rparr>"
  let ?r = "\<lparr>skills = [skFoo, skA], diagnostics = [warningAt (msgNameMismatch ''foo'' ''r'') ''/r/a.md'']\<rparr>"
  note t = walker_file_policy[where e = demoEnv and entry = ?entry and dir = "''/r''" and root = "''/r''"
      and ig = "[''bar/foo'']" and inc = True and p = "''/r/a.md''" and fuel = 3 and src = "''path''"
      and rest = "[]" and acc = emptyResult and igo = None and ro = None and r = ?r and ?ig1.0 = "[''bar/foo'']"
      and r' = ?r and ?ig2.0 = "[''bar/foo'']"]
  have h1: "\<not> startsWith (d_name ?entry) ''.'' \<and> d_name ?entry \<noteq> ''node_modules''
      \<and> entryType demoEnv (join demoEnv ''/r'' (d_name ?entry)) ?entry = Some (False, True)
      \<and> \<not> ignores demoEnv [''bar/foo''] (toPosixPath demoEnv (relative demoEnv ''/r'' (join demoEnv ''/r'' (d_name ?entry))))"
    by code_simp
  have j: "join demoEnv ''/r'' (d_name ?entry) = ''/r/a.md''" by code_simp
  have sfx: "suffix ''.md'' (d_name ?entry)" by (simp add: suffix_def)
  have a: "entryAction demoEnv ''/r'' True ''/r'' [''bar/foo''] ?entry = Parse ''/r/a.md''"
    using t h1 sfx unfolding j by blast
  have w: "loadSkillsFromDirInternal 3 demoEnv ''/r'' ''path'' True None None = Some (?r, [''bar/foo''])"
    by code_simp
  have c: "\<forall>s \<in> set (skills ?r). \<exists>d n. filePath s = join demoEnv d n
             \<and> (n = ''SKILL.md'' \<or> (True \<and> d = ''/r'' \<and> suffix ''.md'' n))"
    using t w by blast
  have jj: "\<And>d n. join demoEnv d n = d @ ''/'' @ n" by (simp add: demoEnv_def)
  have f: "loadSkillFromFile demoEnv ''/r/a.md'' ''path''
             = \<lparr>skill = Some skA, fdiagnostics = [warningAt (msgNameMismatch ''foo'' ''r'') ''/r/a.md'']\<rparr>"
    by code_simp
  have b': "entriesInternal 1 demoEnv ''/r'' ''path'' True ''/r'' [?entry] emptyResult [''bar/foo'']
       = Some (\<lparr>skills = [skA], diagnostics = [warningAt (msgNameMismatch ''foo'' ''r'') ''/r/a.md'']\<rparr>, [''bar/foo''])"
    using a by (simp add: f pushFile_def emptyResult_def)
  have c1: "\<exists>d n. filePath skFoo = d @ ''/'' @ n \<and> (n = ''SKILL.md'' \<or> (d = ''/r'' \<and> suffix ''.md'' n))"
    using c unfolding jj by simp
  have c2: "\<exists>d n. filePath skA = d @ ''/'' @ n \<and> (n = ''SKILL.md'' \<or> (d = ''/r'' \<and> suffix ''.md'' n))"
    using c unfolding jj by simp
  show ?thesis using a b' c1 c2 by blast
qed

section \<open>Ignore rules and their scope\<close>


lemma splitSep_nonempty: "splitSep s cur p \<noteq> []"
  by (induction p arbitrary: cur) auto

lemma joinWith_splitSep:
  "joinWith ''/'' (splitSep s cur p) = cur @ map (\<lambda>c. if c = s then CHR ''/'' else c) p"
proof (induction p arbitrary: cur)
  case Nil
  show ?case by simp
next
  case (Cons c cs)
  show ?case
  proof (cases "c = s")
    case True
    have "joinWith ''/'' (cur # splitSep s [] cs) = cur @ ''/'' @ joinWith ''/'' (splitSep s [] cs)"
      using splitSep_nonempty[of s "[]" cs] by (cases "splitSep s [] cs") auto
    then show ?thesis using True Cons.IH[of "[]"] by simp
  next
    case False
    then show ?thesis using Cons.IH[of "cur @ [c]"] by simp
  qed
qed

lemma toPosixPath_map: "toPosixPath e p = map (\<lambda>c. if c = sep e then CHR ''/'' else c) p"
  unfolding toPosixPath_def using joinWith_splitSep[of "sep e" "[]" p] by simp

lemma hash_not_escaped: "prefix ''#'' t \<Longrightarrow> \<not> prefix [BSL, CHR ''#''] t"
  by (auto simp: prefix_def)

lemma prefixIgnorePattern_skip:
  "trim line = [] \<or> prefix ''#'' (trim line) \<Longrightarrow> prefixIgnorePattern line pfx = None"
  using hash_not_escaped[of "trim line"]
  by (auto simp: prefixIgnorePattern_def Let_def startsWith_prefix)

lemma prefixIgnorePattern_shapes:
  "trim line \<noteq> [] \<and> \<not> prefix ''#'' (trim line) \<longrightarrow>
        (line = ''!/'' @ rest \<longrightarrow> prefixIgnorePattern line pfx = Some (''!'' @ pfx @ rest))
        \<and> (line = ''!'' @ rest \<and> \<not> prefix ''/'' rest \<longrightarrow>
             prefixIgnorePattern line pfx = Some (''!'' @ pfx @ rest))
        \<and> (line = ''/'' @ rest \<longrightarrow> prefixIgnorePattern line pfx = Some (pfx @ rest))
        \<and> (line = BSL # ''!'' @ rest \<longrightarrow> prefixIgnorePattern line pfx = Some (pfx @ ''!'' @ rest))
        \<and> (\<not> prefix ''!'' line \<and> \<not> prefix ''/'' line \<and> \<not> prefix [BSL, CHR ''!''] line \<longrightarrow>
             prefixIgnorePattern line pfx = Some (pfx @ line))"
  by (auto simp: prefixIgnorePattern_def Let_def startsWith_prefix sliceFrom_def)

lemma prefixIgnorePattern_prefixed:
  "prefixIgnorePattern line pfx = Some p \<Longrightarrow> prefix pfx p \<or> prefix (''!'' @ pfx) p"
  by (auto simp: prefixIgnorePattern_def Let_def split: if_splits)

lemma map_filter_mem: "p \<in> set (List.map_filter f xs) \<Longrightarrow> \<exists>x \<in> set xs. f x = Some p"
  by (auto simp: List.map_filter_def)

lemma ignorePatterns_prefixed:
  assumes "p \<in> set (ignorePatterns content pfx)"
  shows "prefix pfx p \<or> prefix (''!'' @ pfx) p"
proof -
  have "p \<in> set (List.map_filter (\<lambda>line. prefixIgnorePattern line pfx) (splitLines [] content))"
    using assms by (simp add: ignorePatterns_def)
  then obtain line where "prefixIgnorePattern line pfx = Some p"
    using map_filter_mem by fastforce
  then show ?thesis by (rule prefixIgnorePattern_prefixed)
qed

lemma addIgnoreFile_added:
  "\<exists>added. addIgnoreFile e dir pfx ig filename = ig @ added
           \<and> (\<forall>p \<in> set added. prefix pfx p \<or> prefix (''!'' @ pfx) p)"
  using ignorePatterns_prefixed
  by (auto simp: addIgnoreFile_def Let_def split: sum.splits)

lemma foldl_addIgnoreFile_added:
  "\<exists>added. foldl (addIgnoreFile e dir pfx) ig names = ig @ added
           \<and> (\<forall>p \<in> set added. prefix pfx p \<or> prefix (''!'' @ pfx) p)"
proof (induction names arbitrary: ig)
  case Nil
  show ?case by simp
next
  case (Cons f fs)
  obtain a1 where a1: "addIgnoreFile e dir pfx ig f = ig @ a1"
    and p1: "\<forall>p \<in> set a1. prefix pfx p \<or> prefix (''!'' @ pfx) p"
    using addIgnoreFile_added by blast
  obtain a2 where a2: "foldl (addIgnoreFile e dir pfx) (ig @ a1) fs = (ig @ a1) @ a2"
    and p2: "\<forall>p \<in> set a2. prefix pfx p \<or> prefix (''!'' @ pfx) p"
    using Cons.IH by blast
  have "foldl (addIgnoreFile e dir pfx) ig (f # fs) = ig @ (a1 @ a2)" using a1 a2 by simp
  moreover have "\<forall>p \<in> set (a1 @ a2). prefix pfx p \<or> prefix (''!'' @ pfx) p" using p1 p2 by auto
  ultimately show ?case by blast
qed

lemma addIgnoreRules_scoped:
  "relative e rootDir dir \<noteq> [] \<Longrightarrow>
   \<exists>added. addIgnoreRules e ig dir rootDir = ig @ added
     \<and> (\<forall>p \<in> set added.
           prefix (map (\<lambda>c. if c = sep e then CHR ''/'' else c) (relative e rootDir dir) @ ''/'') p
           \<or> prefix (''!'' @ map (\<lambda>c. if c = sep e then CHR ''/'' else c) (relative e rootDir dir) @ ''/'') p)"
  unfolding addIgnoreRules_def Let_def toPosixPath_map
  using foldl_addIgnoreFile_added by simp

lemma addIgnoreRules_root:
  "relative e rootDir dir = [] \<Longrightarrow>
   addIgnoreRules e ig dir rootDir = foldl (addIgnoreFile e dir []) ig IGNORE_FILE_NAMES"
  by (simp add: addIgnoreRules_def)

lemma ignorePatterns_foo: "ignorePatterns ''foo'' ''bar/'' = [''bar/foo'']"
  by (simp add: ignorePatterns_def List.map_filter_def prefixIgnorePattern_def Let_def trim_def
        isWhitespace_def startsWith_def)

lemma splitLines_step:
  "c \<noteq> LF \<Longrightarrow> d \<noteq> LF \<Longrightarrow> splitLines cur (c # d # cs) = splitLines (cur @ [c]) (d # cs)"
  by simp

lemma splitLines_last: "LF \<notin> set l \<Longrightarrow> splitLines cur l = [cur @ l]"
proof (induction l arbitrary: cur)
  case Nil
  show ?case by simp
next
  case (Cons c l)
  from Cons.prems have c: "c \<noteq> LF" and l: "LF \<notin> set l" by auto
  show ?case
  proof (cases l)
    case Nil
    then show ?thesis using c by simp
  next
    case (Cons d cs)
    have d: "d \<noteq> LF" using l Cons by auto
    have "splitLines cur (c # l) = splitLines (cur @ [c]) l"
      unfolding Cons by (rule splitLines_step[OF c d])
    then show ?thesis using Cons.IH[OF l, of "cur @ [c]"] by simp
  qed
qed

lemma splitLines_CRLF:
  "LF \<notin> set l \<Longrightarrow> splitLines cur (l @ CR # LF # others) = (cur @ l) # splitLines [] others"
proof (induction l arbitrary: cur)
  case Nil
  show ?case by simp
next
  case (Cons c l)
  from Cons.prems have c: "c \<noteq> LF" and l: "LF \<notin> set l" by auto
  obtain d cs where t: "l @ CR # LF # others = d # cs" and d: "d \<noteq> LF"
    using l by (cases l) auto
  have "splitLines cur ((c # l) @ CR # LF # others) = splitLines (cur @ [c]) (l @ CR # LF # others)"
    using splitLines_step[OF c d, of cur cs] unfolding t[symmetric] by simp
  then show ?case using Cons.IH[OF l, of "cur @ [c]"] by simp
qed

lemma splitLines_LF:
  "LF \<notin> set l \<Longrightarrow> \<not> suffix [CR] l \<Longrightarrow>
   splitLines cur (l @ LF # others) = (cur @ l) # splitLines [] others"
proof (induction l arbitrary: cur)
  case Nil
  show ?case by (cases others) simp_all
next
  case (Cons c l)
  from Cons.prems have c: "c \<noteq> LF" and l: "LF \<notin> set l" by auto
  show ?case
  proof (cases l)
    case Nil
    have "c \<noteq> CR" using Cons.prems(2) Nil by (simp add: suffix_def)
    then show ?thesis using c Nil by (cases others) simp_all
  next
    case (Cons d cs)
    have d: "d \<noteq> LF" using l Cons by auto
    have s: "\<not> suffix [CR] l" using Cons.prems(2) Cons by (auto simp: suffix_def)
    have "splitLines cur ((c # l) @ LF # others) = splitLines (cur @ [c]) (l @ LF # others)"
      unfolding Cons using splitLines_step[OF c d, of cur "cs @ LF # others"] by simp
    then show ?thesis using Cons.IH[OF l s, of "cur @ [c]"] by simp
  qed
qed

lemma ignorePatterns_Cons:
  "filter (\<lambda>p. p \<noteq> []) (List.map_filter f (x # xs))
     = (case f x of None \<Rightarrow> [] | Some p \<Rightarrow> if p = [] then [] else [p])
       @ filter (\<lambda>p. p \<noteq> []) (List.map_filter f xs)"
  by (simp split: option.splits)

lemma ignorePatterns_lines:
  assumes "LF \<notin> set line"
  shows "ignorePatterns line pfx
           = (case prefixIgnorePattern line pfx of None \<Rightarrow> [] | Some p \<Rightarrow> if p = [] then [] else [p])"
    and "ignorePatterns (line @ CR # LF # others) pfx
           = (case prefixIgnorePattern line pfx of None \<Rightarrow> [] | Some p \<Rightarrow> if p = [] then [] else [p])
             @ ignorePatterns others pfx"
    and "\<not> suffix [CR] line \<Longrightarrow> ignorePatterns (line @ LF # others) pfx
           = (case prefixIgnorePattern line pfx of None \<Rightarrow> [] | Some p \<Rightarrow> if p = [] then [] else [p])
             @ ignorePatterns others pfx"
  unfolding ignorePatterns_def
  using splitLines_last[OF assms, of "[]"] splitLines_LF[OF assms, of "[]" others]
    splitLines_CRLF[OF assms, of "[]" others]
  by (simp_all split: option.splits)

lemma prefixIgnorePattern_nonempty: "pfx \<noteq> [] \<Longrightarrow> prefixIgnorePattern line pfx \<noteq> Some []"
  by (auto simp: prefixIgnorePattern_def Let_def split: if_splits)

lemma addIgnoreFile_read:
  "existsSync e (join e dir f) \<Longrightarrow> readFileSync e (join e dir f) = Inr content \<Longrightarrow>
   addIgnoreFile e dir pfx ig f = ig @ ignorePatterns content pfx"
  by (simp add: addIgnoreFile_def Let_def)

lemma addIgnoreFile_absent:
  "\<not> existsSync e (join e dir f) \<or> readFileSync e (join e dir f) = Inl msg \<Longrightarrow>
   addIgnoreFile e dir pfx ig f = ig"
  by (auto simp: addIgnoreFile_def Let_def)

lemma addIgnoreRules_files:
  "addIgnoreRules e ig dir rootDir
     = foldl (addIgnoreFile e dir
               (if relative e rootDir dir \<noteq> []
                then map (\<lambda>c. if c = sep e then CHR ''/'' else c) (relative e rootDir dir) @ ''/''
                else []))
         ig [''.gitignore'', ''.ignore'', ''.fdignore'']"
  by (simp add: addIgnoreRules_def Let_def IGNORE_FILE_NAMES_def toPosixPath_map)

text \<open>
  C8. A blank line or a comment line of an ignore file yields no pattern. Every other
  line yields its pattern with the negation marker \<open>!\<close> (or the backslash of \<open>\!\<close>) and
  one leading \<open>/\<close> stripped, the prefix put in front, and the \<open>!\<close> put back before the
  prefix. For an ignore file in a subdirectory the prefix is the directory's path
  relative to the walk root, written with forward slashes and a trailing \<open>/\<close>, so every
  pattern the directory adds to the matcher begins with it; when the directory is the
  root the prefix is empty. So the rule \<open>foo\<close> in \<open>bar/.gitignore\<close> reaches the matcher as
  \<open>bar/foo\<close>: for a matcher that ignores \<open>bar/foo/\<close> by that pattern and does not ignore
  \<open>foo/\<close>, the walk (of either module) skips \<open>bar/foo\<close> and enters the sibling \<open>foo\<close> of the
  root, before and after \<open>bar\<close> was visited.

  Each line of an ignore file is read. A line is a text without \<open>\n\<close>, ended by \<open>\r\n\<close>, by
  \<open>\n\<close> (then it does not end with \<open>\r\<close>) or by the end of the file: the first line of a
  file contributes its pattern (nothing when it is blank, a comment, or left empty by the
  stripping) and the lines after its line end contribute theirs behind it, in order. With a
  prefix that is not empty no pattern is left empty. A file that exists and can be read
  adds the patterns of its content behind those the matcher holds; a file that is
  missing or cannot be read adds nothing. The three files \<open>.gitignore\<close>, \<open>.ignore\<close> and
  \<open>.fdignore\<close> of a directory are read in that order with the directory's prefix, and
  the walker (of either module) reads them for a directory it can list before it looks
  at the first entry, relative to the root of the walk.
\<close>

theorem ignore_rules_scoped:
  "(trim line = [] \<or> prefix ''#'' (trim line) \<longrightarrow> prefixIgnorePattern line pfx = None)
   \<and> (trim line \<noteq> [] \<and> \<not> prefix ''#'' (trim line) \<longrightarrow>
        (line = ''!/'' @ rest \<longrightarrow> prefixIgnorePattern line pfx = Some (''!'' @ pfx @ rest))
        \<and> (line = ''!'' @ rest \<and> \<not> prefix ''/'' rest \<longrightarrow>
             prefixIgnorePattern line pfx = Some (''!'' @ pfx @ rest))
        \<and> (line = ''/'' @ rest \<longrightarrow> prefixIgnorePattern line pfx = Some (pfx @ rest))
        \<and> (line = BSL # ''!'' @ rest \<longrightarrow> prefixIgnorePattern line pfx = Some (pfx @ ''!'' @ rest))
        \<and> (\<not> prefix ''!'' line \<and> \<not> prefix ''/'' line \<and> \<not> prefix [BSL, CHR ''!''] line \<longrightarrow>
             prefixIgnorePattern line pfx = Some (pfx @ line)))
   \<and> (relative e rootDir dir \<noteq> [] \<longrightarrow>
        (\<exists>added. addIgnoreRules e ig dir rootDir = ig @ added
           \<and> (\<forall>p \<in> set added.
                 prefix (map (\<lambda>c. if c = sep e then CHR ''/'' else c) (relative e rootDir dir) @ ''/'') p
                 \<or> prefix (''!'' @ map (\<lambda>c. if c = sep e then CHR ''/'' else c) (relative e rootDir dir) @ ''/'') p)))
   \<and> (relative e rootDir dir = [] \<longrightarrow>
        addIgnoreRules e ig dir rootDir = foldl (addIgnoreFile e dir []) ig IGNORE_FILE_NAMES)
   \<and> (relative e root (join e root ''bar'') \<noteq> []
        \<and> toPosixPath e (relative e root (join e root ''bar'')) = ''bar''
        \<and> existsSync e (join e (join e root ''bar'') ''.gitignore'')
        \<and> readFileSync e (join e (join e root ''bar'') ''.gitignore'') = Inr ''foo''
        \<and> \<not> existsSync e (join e (join e root ''bar'') ''.ignore'')
        \<and> \<not> existsSync e (join e (join e root ''bar'') ''.fdignore'')
        \<and> toPosixPath e (relative e root (join e (join e root ''bar'') ''foo'')) = ''bar/foo''
        \<and> toPosixPath e (relative e root (join e root ''foo'')) = ''foo''
        \<and> ignores e (ig0 @ [''bar/foo'']) ''bar/foo/''
        \<and> \<not> ignores e ig0 ''foo/'' \<and> \<not> ignores e (ig0 @ [''bar/foo'']) ''foo/'' \<longrightarrow>
        addIgnoreRules e ig0 (join e root ''bar'') root = ig0 @ [''bar/foo'']
        \<and> entryAction e (join e root ''bar'') False root (ig0 @ [''bar/foo''])
              \<lparr>d_name = ''foo'', d_kind = DDirectory\<rparr> = Skip
        \<and> entryAction e root True root ig0 \<lparr>d_name = ''foo'', d_kind = DDirectory\<rparr>
              = Descend (join e root ''foo'')
        \<and> entryAction e root True root (ig0 @ [''bar/foo'']) \<lparr>d_name = ''foo'', d_kind = DDirectory\<rparr>
              = Descend (join e root ''foo'')
        \<and> entryAction_index e (join e root ''bar'') False root (ig0 @ [''bar/foo''])
              \<lparr>d_name = ''foo'', d_kind = DDirectory\<rparr> = Skip
        \<and> entryAction_index e root True root ig0 \<lparr>d_name = ''foo'', d_kind = DDirectory\<rparr>
              = Descend (join e root ''foo'')
        \<and> entryAction_index e root True root (ig0 @ [''bar/foo'']) \<lparr>d_name = ''foo'', d_kind = DDirectory\<rparr>
              = Descend (join e root ''foo'')
        \<and> entriesInternal fuel e (join e root ''bar'') src False root
              (\<lparr>d_name = ''foo'', d_kind = DDirectory\<rparr> # es) acc (ig0 @ [''bar/foo''])
            = entriesInternal fuel e (join e root ''bar'') src False root es acc (ig0 @ [''bar/foo''])
        \<and> entriesDir fuel e (join e root ''bar'') src False root
              (\<lparr>d_name = ''foo'', d_kind = DDirectory\<rparr> # es) acc (ig0 @ [''bar/foo''])
            = entriesDir fuel e (join e root ''bar'') src False root es acc (ig0 @ [''bar/foo''])
        \<and> entriesInternal fuel e root src True root (\<lparr>d_name = ''foo'', d_kind = DDirectory\<rparr> # es) acc ig0
            = (case loadSkillsFromDirInternal fuel e (join e root ''foo'') src False (Some ig0) (Some root) of
                 None \<Rightarrow> None
               | Some (sub, ig') \<Rightarrow> entriesInternal fuel e root src True root es (mergeResult acc sub) ig')
        \<and> entriesDir fuel e root src True root (\<lparr>d_name = ''foo'', d_kind = DDirectory\<rparr> # es) acc ig0
            = (case loadSkillsFromDir fuel e (join e root ''foo'') src False (Some ig0) (Some root) of
                 None \<Rightarrow> None
               | Some (sub, ig') \<Rightarrow> entriesDir fuel e root src True root es (mergeResult acc sub) ig'))
   \<and> (LF \<notin> set line \<longrightarrow>
        ignorePatterns line pfx
          = (case prefixIgnorePattern line pfx of None \<Rightarrow> [] | Some p \<Rightarrow> if p = [] then [] else [p])
        \<and> ignorePatterns (line @ CR # LF # others) pfx
          = (case prefixIgnorePattern line pfx of None \<Rightarrow> [] | Some p \<Rightarrow> if p = [] then [] else [p])
            @ ignorePatterns others pfx
        \<and> (\<not> suffix [CR] line \<longrightarrow>
             ignorePatterns (line @ LF # others) pfx
               = (case prefixIgnorePattern line pfx of None \<Rightarrow> [] | Some p \<Rightarrow> if p = [] then [] else [p])
                 @ ignorePatterns others pfx))
   \<and> (pfx \<noteq> [] \<longrightarrow> prefixIgnorePattern line pfx \<noteq> Some [])
   \<and> (existsSync e (join e dir f) \<and> readFileSync e (join e dir f) = Inr content \<longrightarrow>
        addIgnoreFile e dir pfx ig f = ig @ ignorePatterns content pfx)
   \<and> (\<not> existsSync e (join e dir f) \<or> readFileSync e (join e dir f) = Inl msg \<longrightarrow>
        addIgnoreFile e dir pfx ig f = ig)
   \<and> addIgnoreRules e ig dir rootDir
        = foldl (addIgnoreFile e dir
                  (if relative e rootDir dir \<noteq> []
                   then map (\<lambda>c. if c = sep e then CHR ''/'' else c) (relative e rootDir dir) @ ''/''
                   else []))
            ig [''.gitignore'', ''.ignore'', ''.fdignore'']
   \<and> (existsSync e dir \<and> readdirSync e dir = Inr entries \<longrightarrow>
        loadSkillsFromDirInternal (Suc fuel) e dir src inc None None
          = entriesInternal fuel e dir src inc dir entries emptyResult (addIgnoreRules e [] dir dir)
        \<and> loadSkillsFromDirInternal (Suc fuel) e dir src inc (Some ig) (Some rootDir)
          = entriesInternal fuel e dir src inc rootDir entries emptyResult (addIgnoreRules e ig dir rootDir)
        \<and> loadSkillsFromDir (Suc fuel) e dir src inc None None
          = entriesDir fuel e dir src inc dir entries emptyResult (addIgnoreRules e [] dir dir)
        \<and> loadSkillsFromDir (Suc fuel) e dir src inc (Some ig) (Some rootDir)
          = entriesDir fuel e dir src inc rootDir entries emptyResult (addIgnoreRules e ig dir rootDir))"
proof (intro conjI)
  show "LF \<notin> set line \<longrightarrow>
        ignorePatterns line pfx
          = (case prefixIgnorePattern line pfx of None \<Rightarrow> [] | Some p \<Rightarrow> if p = [] then [] else [p])
        \<and> ignorePatterns (line @ CR # LF # others) pfx
          = (case prefixIgnorePattern line pfx of None \<Rightarrow> [] | Some p \<Rightarrow> if p = [] then [] else [p])
            @ ignorePatterns others pfx
        \<and> (\<not> suffix [CR] line \<longrightarrow>
             ignorePatterns (line @ LF # others) pfx
               = (case prefixIgnorePattern line pfx of None \<Rightarrow> [] | Some p \<Rightarrow> if p = [] then [] else [p])
                 @ ignorePatterns others pfx)"
    using ignorePatterns_lines by blast
next
  show "pfx \<noteq> [] \<longrightarrow> prefixIgnorePattern line pfx \<noteq> Some []"
    using prefixIgnorePattern_nonempty by blast
next
  show "existsSync e (join e dir f) \<and> readFileSync e (join e dir f) = Inr content \<longrightarrow>
        addIgnoreFile e dir pfx ig f = ig @ ignorePatterns content pfx"
    using addIgnoreFile_read by blast
next
  show "\<not> existsSync e (join e dir f) \<or> readFileSync e (join e dir f) = Inl msg \<longrightarrow>
        addIgnoreFile e dir pfx ig f = ig"
    using addIgnoreFile_absent by blast
next
  show "addIgnoreRules e ig dir rootDir
        = foldl (addIgnoreFile e dir
                  (if relative e rootDir dir \<noteq> []
                   then map (\<lambda>c. if c = sep e then CHR ''/'' else c) (relative e rootDir dir) @ ''/''
                   else []))
            ig [''.gitignore'', ''.ignore'', ''.fdignore'']"
    by (rule addIgnoreRules_files)
next
  show "existsSync e dir \<and> readdirSync e dir = Inr entries \<longrightarrow>
        loadSkillsFromDirInternal (Suc fuel) e dir src inc None None
          = entriesInternal fuel e dir src inc dir entries emptyResult (addIgnoreRules e [] dir dir)
        \<and> loadSkillsFromDirInternal (Suc fuel) e dir src inc (Some ig) (Some rootDir)
          = entriesInternal fuel e dir src inc rootDir entries emptyResult (addIgnoreRules e ig dir rootDir)
        \<and> loadSkillsFromDir (Suc fuel) e dir src inc None None
          = entriesDir fuel e dir src inc dir entries emptyResult (addIgnoreRules e [] dir dir)
        \<and> loadSkillsFromDir (Suc fuel) e dir src inc (Some ig) (Some rootDir)
          = entriesDir fuel e dir src inc rootDir entries emptyResult (addIgnoreRules e ig dir rootDir)"
    by simp
next
  show "trim line = [] \<or> prefix ''#'' (trim line) \<longrightarrow> prefixIgnorePattern line pfx = None"
    using prefixIgnorePattern_skip by blast
next
  show "trim line \<noteq> [] \<and> \<not> prefix ''#'' (trim line) \<longrightarrow>
        (line = ''!/'' @ rest \<longrightarrow> prefixIgnorePattern line pfx = Some (''!'' @ pfx @ rest))
        \<and> (line = ''!'' @ rest \<and> \<not> prefix ''/'' rest \<longrightarrow>
             prefixIgnorePattern line pfx = Some (''!'' @ pfx @ rest))
        \<and> (line = ''/'' @ rest \<longrightarrow> prefixIgnorePattern line pfx = Some (pfx @ rest))
        \<and> (line = BSL # ''!'' @ rest \<longrightarrow> prefixIgnorePattern line pfx = Some (pfx @ ''!'' @ rest))
        \<and> (\<not> prefix ''!'' line \<and> \<not> prefix ''/'' line \<and> \<not> prefix [BSL, CHR ''!''] line \<longrightarrow>
             prefixIgnorePattern line pfx = Some (pfx @ line))"
    by (rule prefixIgnorePattern_shapes)
next
  show "relative e rootDir dir \<noteq> [] \<longrightarrow>
        (\<exists>added. addIgnoreRules e ig dir rootDir = ig @ added
           \<and> (\<forall>p \<in> set added.
                 prefix (map (\<lambda>c. if c = sep e then CHR ''/'' else c) (relative e rootDir dir) @ ''/'') p
                 \<or> prefix (''!'' @ map (\<lambda>c. if c = sep e then CHR ''/'' else c) (relative e rootDir dir) @ ''/'') p))"
    using addIgnoreRules_scoped by blast
next
  show "relative e rootDir dir = [] \<longrightarrow>
        addIgnoreRules e ig dir rootDir = foldl (addIgnoreFile e dir []) ig IGNORE_FILE_NAMES"
    using addIgnoreRules_root by blast
next
  let ?bar = "join e root ''bar''"
  let ?foo = "\<lparr>d_name = ''foo'', d_kind = DDirectory\<rparr>"
  show "relative e root ?bar \<noteq> []
        \<and> toPosixPath e (relative e root ?bar) = ''bar''
        \<and> existsSync e (join e ?bar ''.gitignore'')
        \<and> readFileSync e (join e ?bar ''.gitignore'') = Inr ''foo''
        \<and> \<not> existsSync e (join e ?bar ''.ignore'')
        \<and> \<not> existsSync e (join e ?bar ''.fdignore'')
        \<and> toPosixPath e (relative e root (join e ?bar ''foo'')) = ''bar/foo''
        \<and> toPosixPath e (relative e root (join e root ''foo'')) = ''foo''
        \<and> ignores e (ig0 @ [''bar/foo'']) ''bar/foo/''
        \<and> \<not> ignores e ig0 ''foo/'' \<and> \<not> ignores e (ig0 @ [''bar/foo'']) ''foo/'' \<longrightarrow>
        addIgnoreRules e ig0 ?bar root = ig0 @ [''bar/foo'']
        \<and> entryAction e ?bar False root (ig0 @ [''bar/foo'']) ?foo = Skip
        \<and> entryAction e root True root ig0 ?foo = Descend (join e root ''foo'')
        \<and> entryAction e root True root (ig0 @ [''bar/foo'']) ?foo = Descend (join e root ''foo'')
        \<and> entryAction_index e ?bar False root (ig0 @ [''bar/foo'']) ?foo = Skip
        \<and> entryAction_index e root True root ig0 ?foo = Descend (join e root ''foo'')
        \<and> entryAction_index e root True root (ig0 @ [''bar/foo'']) ?foo = Descend (join e root ''foo'')
        \<and> entriesInternal fuel e ?bar src False root (?foo # es) acc (ig0 @ [''bar/foo''])
            = entriesInternal fuel e ?bar src False root es acc (ig0 @ [''bar/foo''])
        \<and> entriesDir fuel e ?bar src False root (?foo # es) acc (ig0 @ [''bar/foo''])
            = entriesDir fuel e ?bar src False root es acc (ig0 @ [''bar/foo''])
        \<and> entriesInternal fuel e root src True root (?foo # es) acc ig0
            = (case loadSkillsFromDirInternal fuel e (join e root ''foo'') src False (Some ig0) (Some root) of
                 None \<Rightarrow> None
               | Some (sub, ig') \<Rightarrow> entriesInternal fuel e root src True root es (mergeResult acc sub) ig')
        \<and> entriesDir fuel e root src True root (?foo # es) acc ig0
            = (case loadSkillsFromDir fuel e (join e root ''foo'') src False (Some ig0) (Some root) of
                 None \<Rightarrow> None
               | Some (sub, ig') \<Rightarrow> entriesDir fuel e root src True root es (mergeResult acc sub) ig')"
  proof (intro impI)
    assume h: "relative e root ?bar \<noteq> []
        \<and> toPosixPath e (relative e root ?bar) = ''bar''
        \<and> existsSync e (join e ?bar ''.gitignore'')
        \<and> readFileSync e (join e ?bar ''.gitignore'') = Inr ''foo''
        \<and> \<not> existsSync e (join e ?bar ''.ignore'')
        \<and> \<not> existsSync e (join e ?bar ''.fdignore'')
        \<and> toPosixPath e (relative e root (join e ?bar ''foo'')) = ''bar/foo''
        \<and> toPosixPath e (relative e root (join e root ''foo'')) = ''foo''
        \<and> ignores e (ig0 @ [''bar/foo'']) ''bar/foo/''
        \<and> \<not> ignores e ig0 ''foo/'' \<and> \<not> ignores e (ig0 @ [''bar/foo'']) ''foo/''"
    have a: "addIgnoreRules e ig0 ?bar root = ig0 @ [''bar/foo'']"
      using h by (simp add: addIgnoreRules_def Let_def IGNORE_FILE_NAMES_def addIgnoreFile_def
                    ignorePatterns_foo)
    have t: "entryType e (join e ?bar ''foo'') ?foo = Some (True, False)"
            "entryType e (join e root ''foo'') ?foo = Some (True, False)"
      by (simp_all add: entryType_def)
    have n: "\<not> startsWith ''foo'' ''.''" by (simp add: startsWith_def)
    have b: "entryAction e ?bar False root (ig0 @ [''bar/foo'']) ?foo = Skip"
      using h n by (simp add: entryAction_def Let_def t)
    have c: "entryAction e root True root ig0 ?foo = Descend (join e root ''foo'')"
      using h n by (simp add: entryAction_def Let_def t)
    have d: "entryAction e root True root (ig0 @ [''bar/foo'']) ?foo = Descend (join e root ''foo'')"
      using h n by (simp add: entryAction_def Let_def t)
    have b': "entryAction_index e ?bar False root (ig0 @ [''bar/foo'']) ?foo = Skip"
      using h n by (simp add: entryAction_index_def Let_def t)
    have c': "entryAction_index e root True root ig0 ?foo = Descend (join e root ''foo'')"
      using h n by (simp add: entryAction_index_def Let_def t)
    have d': "entryAction_index e root True root (ig0 @ [''bar/foo'']) ?foo = Descend (join e root ''foo'')"
      using h n by (simp add: entryAction_index_def Let_def t)
    show "addIgnoreRules e ig0 ?bar root = ig0 @ [''bar/foo'']
        \<and> entryAction e ?bar False root (ig0 @ [''bar/foo'']) ?foo = Skip
        \<and> entryAction e root True root ig0 ?foo = Descend (join e root ''foo'')
        \<and> entryAction e root True root (ig0 @ [''bar/foo'']) ?foo = Descend (join e root ''foo'')
        \<and> entryAction_index e ?bar False root (ig0 @ [''bar/foo'']) ?foo = Skip
        \<and> entryAction_index e root True root ig0 ?foo = Descend (join e root ''foo'')
        \<and> entryAction_index e root True root (ig0 @ [''bar/foo'']) ?foo = Descend (join e root ''foo'')
        \<and> entriesInternal fuel e ?bar src False root (?foo # es) acc (ig0 @ [''bar/foo''])
            = entriesInternal fuel e ?bar src False root es acc (ig0 @ [''bar/foo''])
        \<and> entriesDir fuel e ?bar src False root (?foo # es) acc (ig0 @ [''bar/foo''])
            = entriesDir fuel e ?bar src False root es acc (ig0 @ [''bar/foo''])
        \<and> entriesInternal fuel e root src True root (?foo # es) acc ig0
            = (case loadSkillsFromDirInternal fuel e (join e root ''foo'') src False (Some ig0) (Some root) of
                 None \<Rightarrow> None
               | Some (sub, ig') \<Rightarrow> entriesInternal fuel e root src True root es (mergeResult acc sub) ig')
        \<and> entriesDir fuel e root src True root (?foo # es) acc ig0
            = (case loadSkillsFromDir fuel e (join e root ''foo'') src False (Some ig0) (Some root) of
                 None \<Rightarrow> None
               | Some (sub, ig') \<Rightarrow> entriesDir fuel e root src True root es (mergeResult acc sub) ig')"
      using a b c d b' c' d' by simp
  qed
qed

theorem ignore_rules_scoped_witness:
  "prefixIgnorePattern ''!/x'' ''bar/'' = Some ''!bar/x''
   \<and> prefixIgnorePattern ''# c'' ''bar/'' = None
   \<and> addIgnoreRules demoEnv [] ''/r/bar'' ''/r'' = [''bar/foo'']
   \<and> entryAction demoEnv ''/r/bar'' False ''/r'' [''bar/foo''] \<lparr>d_name = ''foo'', d_kind = DDirectory\<rparr> = Skip
   \<and> entryAction demoEnv ''/r'' True ''/r'' [''bar/foo''] \<lparr>d_name = ''foo'', d_kind = DDirectory\<rparr>
       = Descend ''/r/foo''
   \<and> entryAction_index demoEnv ''/r/bar'' False ''/r'' [''bar/foo''] \<lparr>d_name = ''foo'', d_kind = DDirectory\<rparr>
       = Skip
   \<and> entryAction_index demoEnv ''/r'' True ''/r'' [''bar/foo''] \<lparr>d_name = ''foo'', d_kind = DDirectory\<rparr>
       = Descend ''/r/foo''
   \<and> entriesInternal 2 demoEnv ''/r/bar'' ''path'' False ''/r'' [\<lparr>d_name = ''foo'', d_kind = DDirectory\<rparr>]
         emptyResult [''bar/foo'']
       = Some (emptyResult, [''bar/foo''])
   \<and> entriesDir 2 demoEnv ''/r/bar'' ''path'' False ''/r'' [\<lparr>d_name = ''foo'', d_kind = DDirectory\<rparr>]
         emptyResult [''bar/foo'']
       = Some (emptyResult, [''bar/foo''])
   \<and> loadSkillsFromDirInternal 3 demoEnv ''/r'' ''path'' True None None
       = Some (\<lparr>skills = [skFoo, skA],
                diagnostics = [warningAt (msgNameMismatch ''foo'' ''r'') ''/r/a.md'']\<rparr>,
               [''bar/foo''])
   \<and> loadSkillsFromDir 3 demoEnv ''/r'' ''path'' True None None
       = Some (\<lparr>skills = [skFoo, skA],
                diagnostics = [warningAt (msgNameMismatch ''foo'' ''r'') ''/r/a.md'']\<rparr>,
               [''bar/foo''])
   \<and> ignorePatterns (''x'' @ CR # LF # ''!/y'') ''sub/'' = [''sub/x'', ''!sub/y'']
   \<and> ignorePatterns (''!/y'' @ LF # ''/z'') ''sub/'' = [''!sub/y'', ''sub/z'']
   \<and> addIgnoreFile demoEnv ''/m/sub'' ''sub/'' [''q''] ''.ignore'' = [''q'', ''sub/x'', ''!sub/y'', ''sub/z'']
   \<and> addIgnoreFile demoEnv ''/m/sub'' ''sub/'' [''q''] ''.gitignore'' = [''q'']
   \<and> addIgnoreRules demoEnv [''q''] ''/m/sub'' ''/m'' = [''q'', ''sub/x'', ''!sub/y'', ''sub/z'']
   \<and> loadSkillsFromDirInternal 1 demoEnv ''/r/bar'' ''path'' False (Some []) (Some ''/r'')
       = entriesInternal 0 demoEnv ''/r/bar'' ''path'' False ''/r''
           [\<lparr>d_name = ''.gitignore'', d_kind = DFile\<rparr>, \<lparr>d_name = ''foo'', d_kind = DDirectory\<rparr>]
           emptyResult [''bar/foo'']"
proof -
  note t1 = ignore_rules_scoped[where line = "''!/x''" and pfx = "''bar/''" and rest = "''x''"
      and e = demoEnv and rootDir = "''/r''" and dir = "''/r/bar''" and ig = "[]"
      and root = "''/r''" and ?ig0.0 = "[]" and fuel = 0 and src = "''path''" and inc = False
      and entries = "[\<lparr>d_name = ''.gitignore'', d_kind = DFile\<rparr>, \<lparr>d_name = ''foo'', d_kind = DDirectory\<rparr>]"]
  note t2 = ignore_rules_scoped[where line = "''# c''" and pfx = "''bar/''"]
  note t3 = ignore_rules_scoped[where line = "''x''" and pfx = "''sub/''" and others = "''!/y''"
      and e = demoEnv and rootDir = "''/m''" and dir = "''/m/sub''" and ig = "[''q'']"
      and f = "''.ignore''"
      and content = "''# c'' @ [LF, LF] @ ''x'' @ [CR, LF] @ ''!/y'' @ [LF] @ ''/z''"]
  note t5 = ignore_rules_scoped[where line = "''/z''" and pfx = "''sub/''" and rest = "''z''"]
  note t4 = ignore_rules_scoped[where line = "''!/y''" and pfx = "''sub/''" and rest = "''y''"
      and others = "''/z''" and e = demoEnv and dir = "''/m/sub''" and ig = "[''q'']" and f = "''.gitignore''" and msg = "[]"]
  note shape1 = t1[THEN conjunct2, THEN conjunct1]
  note skip2 = t2[THEN conjunct1]
  note ts = ignore_rules_scoped[where e = demoEnv and root = "''/r''" and ?ig0.0 = "[]" and fuel = 2
      and src = "''path''" and es = "[]" and acc = emptyResult]
  note scenario1 = ts[THEN conjunct2, THEN conjunct2, THEN conjunct2, THEN conjunct2, THEN conjunct1]
  note shape3 = t3[THEN conjunct2, THEN conjunct1]
  note shape4 = t4[THEN conjunct2, THEN conjunct1]
  note lines3 = t3[THEN conjunct2, THEN conjunct2, THEN conjunct2, THEN conjunct2, THEN conjunct2,
      THEN conjunct1]
  note lines4 = t4[THEN conjunct2, THEN conjunct2, THEN conjunct2, THEN conjunct2, THEN conjunct2,
      THEN conjunct1]
  note read3 = t3[THEN conjunct2, THEN conjunct2, THEN conjunct2, THEN conjunct2, THEN conjunct2,
      THEN conjunct2, THEN conjunct2, THEN conjunct1]
  note absent4 = t4[THEN conjunct2, THEN conjunct2, THEN conjunct2, THEN conjunct2, THEN conjunct2,
      THEN conjunct2, THEN conjunct2, THEN conjunct2, THEN conjunct1]
  note rules3 = t3[THEN conjunct2, THEN conjunct2, THEN conjunct2, THEN conjunct2, THEN conjunct2,
      THEN conjunct2, THEN conjunct2, THEN conjunct2, THEN conjunct2, THEN conjunct1]
  note shape5 = t5[THEN conjunct2, THEN conjunct1]
  note lines5 = t5[THEN conjunct2, THEN conjunct2, THEN conjunct2, THEN conjunct2, THEN conjunct2,
      THEN conjunct1]
  note walk1 = t1[THEN conjunct2, THEN conjunct2, THEN conjunct2, THEN conjunct2, THEN conjunct2,
      THEN conjunct2, THEN conjunct2, THEN conjunct2, THEN conjunct2, THEN conjunct2]
  have l1: "trim ''!/x'' \<noteq> [] \<and> \<not> prefix ''#'' (trim ''!/x'')"
    by (simp add: trim_def isWhitespace_def)
  have l2: "trim ''# c'' = [] \<or> prefix ''#'' (trim ''# c'')"
    by (simp add: trim_def isWhitespace_def)
  have a: "prefixIgnorePattern ''!/x'' ''bar/'' = Some (''!'' @ ''bar/'' @ ''x'')"
    using shape1 l1 by simp
  have b: "prefixIgnorePattern ''# c'' ''bar/'' = None"
    using skip2 l2 by blast
  have j: "join demoEnv ''/r'' ''bar'' = ''/r/bar''" "join demoEnv ''/r'' ''foo'' = ''/r/foo''"
    by (simp_all add: demoEnv_def)
  have h: "relative demoEnv ''/r'' (join demoEnv ''/r'' ''bar'') \<noteq> []
        \<and> toPosixPath demoEnv (relative demoEnv ''/r'' (join demoEnv ''/r'' ''bar'')) = ''bar''
        \<and> existsSync demoEnv (join demoEnv (join demoEnv ''/r'' ''bar'') ''.gitignore'')
        \<and> readFileSync demoEnv (join demoEnv (join demoEnv ''/r'' ''bar'') ''.gitignore'') = Inr ''foo''
        \<and> \<not> existsSync demoEnv (join demoEnv (join demoEnv ''/r'' ''bar'') ''.ignore'')
        \<and> \<not> existsSync demoEnv (join demoEnv (join demoEnv ''/r'' ''bar'') ''.fdignore'')
        \<and> toPosixPath demoEnv (relative demoEnv ''/r'' (join demoEnv (join demoEnv ''/r'' ''bar'') ''foo'')) = ''bar/foo''
        \<and> toPosixPath demoEnv (relative demoEnv ''/r'' (join demoEnv ''/r'' ''foo'')) = ''foo''
        \<and> ignores demoEnv ([] @ [''bar/foo'']) ''bar/foo/''
        \<and> \<not> ignores demoEnv [] ''foo/'' \<and> \<not> ignores demoEnv ([] @ [''bar/foo'']) ''foo/''"
    by code_simp
  have c: "addIgnoreRules demoEnv [] (join demoEnv ''/r'' ''bar'') ''/r'' = [] @ [''bar/foo'']
        \<and> entryAction demoEnv (join demoEnv ''/r'' ''bar'') False ''/r'' ([] @ [''bar/foo''])
              \<lparr>d_name = ''foo'', d_kind = DDirectory\<rparr> = Skip
        \<and> entryAction demoEnv ''/r'' True ''/r'' [] \<lparr>d_name = ''foo'', d_kind = DDirectory\<rparr>
              = Descend (join demoEnv ''/r'' ''foo'')
        \<and> entryAction demoEnv ''/r'' True ''/r'' ([] @ [''bar/foo'']) \<lparr>d_name = ''foo'', d_kind = DDirectory\<rparr>
              = Descend (join demoEnv ''/r'' ''foo'')
        \<and> entryAction_index demoEnv (join demoEnv ''/r'' ''bar'') False ''/r'' ([] @ [''bar/foo''])
              \<lparr>d_name = ''foo'', d_kind = DDirectory\<rparr> = Skip
        \<and> entryAction_index demoEnv ''/r'' True ''/r'' [] \<lparr>d_name = ''foo'', d_kind = DDirectory\<rparr>
              = Descend (join demoEnv ''/r'' ''foo'')
        \<and> entryAction_index demoEnv ''/r'' True ''/r'' ([] @ [''bar/foo'']) \<lparr>d_name = ''foo'', d_kind = DDirectory\<rparr>
              = Descend (join demoEnv ''/r'' ''foo'')
        \<and> entriesInternal 2 demoEnv (join demoEnv ''/r'' ''bar'') ''path'' False ''/r''
              (\<lparr>d_name = ''foo'', d_kind = DDirectory\<rparr> # []) emptyResult ([] @ [''bar/foo''])
            = entriesInternal 2 demoEnv (join demoEnv ''/r'' ''bar'') ''path'' False ''/r'' [] emptyResult
                ([] @ [''bar/foo''])
        \<and> entriesDir 2 demoEnv (join demoEnv ''/r'' ''bar'') ''path'' False ''/r''
              (\<lparr>d_name = ''foo'', d_kind = DDirectory\<rparr> # []) emptyResult ([] @ [''bar/foo''])
            = entriesDir 2 demoEnv (join demoEnv ''/r'' ''bar'') ''path'' False ''/r'' [] emptyResult
                ([] @ [''bar/foo''])"
    using scenario1 h by blast
  have w: "loadSkillsFromDirInternal 3 demoEnv ''/r'' ''path'' True None None
       = Some (\<lparr>skills = [skFoo, skA],
                diagnostics = [warningAt (msgNameMismatch ''foo'' ''r'') ''/r/a.md'']\<rparr>,
               [''bar/foo''])"
    by code_simp
  have w': "loadSkillsFromDir 3 demoEnv ''/r'' ''path'' True None None
       = Some (\<lparr>skills = [skFoo, skA],
                diagnostics = [warningAt (msgNameMismatch ''foo'' ''r'') ''/r/a.md'']\<rparr>,
               [''bar/foo''])"
    by code_simp
  have x1: "LF \<notin> set ''x''" by simp
  have x2: "LF \<notin> set ''!/y''" by simp
  have x3: "trim ''x'' \<noteq> [] \<and> \<not> prefix ''#'' (trim ''x'')"
           "\<not> prefix ''!'' ''x'' \<and> \<not> prefix ''/'' ''x'' \<and> \<not> prefix [BSL, CHR ''!''] ''x''"
    by (simp_all add: trim_def isWhitespace_def)
  have x4: "trim ''!/y'' \<noteq> [] \<and> \<not> prefix ''#'' (trim ''!/y'')" "''!/y'' = ''!/'' @ ''y''"
    by (simp_all add: trim_def isWhitespace_def)
  have px: "prefixIgnorePattern ''x'' ''sub/'' = Some (''sub/'' @ ''x'')" using shape3 x3 by blast
  have py: "prefixIgnorePattern ''!/y'' ''sub/'' = Some (''!'' @ ''sub/'' @ ''y'')" using shape4 x4 by blast
  have ix: "ignorePatterns (''x'' @ CR # LF # ''!/y'') ''sub/''
              = (case prefixIgnorePattern ''x'' ''sub/'' of None \<Rightarrow> [] | Some p \<Rightarrow> if p = [] then [] else [p])
                @ ignorePatterns ''!/y'' ''sub/''"
    using lines3 x1 by blast
  have iy: "ignorePatterns ''!/y'' ''sub/''
              = (case prefixIgnorePattern ''!/y'' ''sub/'' of None \<Rightarrow> [] | Some p \<Rightarrow> if p = [] then [] else [p])"
    using lines4 x2 by blast
  have d: "ignorePatterns (''x'' @ CR # LF # ''!/y'') ''sub/'' = [''sub/x'', ''!sub/y'']"
    unfolding ix iy px py by simp
  have x5: "LF \<notin> set ''/z''" "trim ''/z'' \<noteq> [] \<and> \<not> prefix ''#'' (trim ''/z'')" "''/z'' = ''/'' @ ''z''"
    by (simp_all add: trim_def isWhitespace_def)
  have x6: "\<not> suffix [CR] ''!/y''" by (simp add: suffix_def)
  have pz: "prefixIgnorePattern ''/z'' ''sub/'' = Some (''sub/'' @ ''z'')" using shape5 x5 by blast
  have iz: "ignorePatterns ''/z'' ''sub/''
              = (case prefixIgnorePattern ''/z'' ''sub/'' of None \<Rightarrow> [] | Some p \<Rightarrow> if p = [] then [] else [p])"
    using lines5 x5 by blast
  have iyz: "ignorePatterns (''!/y'' @ LF # ''/z'') ''sub/''
              = (case prefixIgnorePattern ''!/y'' ''sub/'' of None \<Rightarrow> [] | Some p \<Rightarrow> if p = [] then [] else [p])
                @ ignorePatterns ''/z'' ''sub/''"
    using lines4 x2 x6 by blast
  have d2: "ignorePatterns (''!/y'' @ LF # ''/z'') ''sub/'' = [''!sub/y'', ''sub/z'']"
    unfolding iyz iz py pz by simp
  have r1: "existsSync demoEnv (join demoEnv ''/m/sub'' ''.ignore'')
        \<and> readFileSync demoEnv (join demoEnv ''/m/sub'' ''.ignore'')
            = Inr (''# c'' @ [LF, LF] @ ''x'' @ [CR, LF] @ ''!/y'' @ [LF] @ ''/z'')"
    by code_simp
  have r2: "\<not> existsSync demoEnv (join demoEnv ''/m/sub'' ''.gitignore'')
        \<or> readFileSync demoEnv (join demoEnv ''/m/sub'' ''.gitignore'') = Inl []"
    by (simp add: demoEnv_def demoFiles_def demoDirs_def)
  have ip: "ignorePatterns (''# c'' @ [LF, LF] @ ''x'' @ [CR, LF] @ ''!/y'' @ [LF] @ ''/z'') ''sub/''
              = [''sub/x'', ''!sub/y'', ''sub/z'']"
    by code_simp
  have f1: "addIgnoreFile demoEnv ''/m/sub'' ''sub/'' [''q''] ''.ignore''
              = [''q''] @ ignorePatterns (''# c'' @ [LF, LF] @ ''x'' @ [CR, LF] @ ''!/y'' @ [LF] @ ''/z'') ''sub/''"
    using read3 r1 by blast
  have f2: "addIgnoreFile demoEnv ''/m/sub'' ''sub/'' [''q''] ''.gitignore'' = [''q'']"
    using absent4 r2 by blast
  have ar: "addIgnoreRules demoEnv [''q''] ''/m/sub'' ''/m''
              = foldl (addIgnoreFile demoEnv ''/m/sub''
                  (if relative demoEnv ''/m'' ''/m/sub'' \<noteq> []
                   then map (\<lambda>c. if c = sep demoEnv then CHR ''/'' else c) (relative demoEnv ''/m'' ''/m/sub'') @ ''/''
                   else []))
                  [''q''] [''.gitignore'', ''.ignore'', ''.fdignore'']"
    by (rule rules3)
  have ar': "foldl (addIgnoreFile demoEnv ''/m/sub''
                  (if relative demoEnv ''/m'' ''/m/sub'' \<noteq> []
                   then map (\<lambda>c. if c = sep demoEnv then CHR ''/'' else c) (relative demoEnv ''/m'' ''/m/sub'') @ ''/''
                   else []))
                  [''q''] [''.gitignore'', ''.ignore'', ''.fdignore'']
               = [''q'', ''sub/x'', ''!sub/y'', ''sub/z'']"
    by code_simp
  have ls: "existsSync demoEnv ''/r/bar''
        \<and> readdirSync demoEnv ''/r/bar''
            = Inr [\<lparr>d_name = ''.gitignore'', d_kind = DFile\<rparr>, \<lparr>d_name = ''foo'', d_kind = DDirectory\<rparr>]"
    by code_simp
  have wk: "loadSkillsFromDirInternal (Suc 0) demoEnv ''/r/bar'' ''path'' False (Some []) (Some ''/r'')
       = entriesInternal 0 demoEnv ''/r/bar'' ''path'' False ''/r''
           [\<lparr>d_name = ''.gitignore'', d_kind = DFile\<rparr>, \<lparr>d_name = ''foo'', d_kind = DDirectory\<rparr>]
           emptyResult (addIgnoreRules demoEnv [] ''/r/bar'' ''/r'')"
    using walk1 ls by blast
  have c1: "addIgnoreRules demoEnv [] ''/r/bar'' ''/r'' = [''bar/foo'']" using c unfolding j by simp
  show ?thesis using a b c w w' d d2 f1 f2 ar wk unfolding j ip ar' c1 by simp
qed

section \<open>Failures of the filesystem primitives\<close>

text \<open>
  In the module with \<open>loadSkillsFromDirInternal\<close> no exception of a primitive leaves
  \<open>loadSkills\<close>: the model of that function has no exceptional result, and on a ranked
  filesystem whose input paths have ranks below the fuel it returns a result.
\<close>


lemma walker_total_aux:
  assumes rank: "ranked e rank"
  shows "(\<forall>dir src inc igo ro. rank dir < fuel \<longrightarrow>
            loadSkillsFromDirInternal fuel e dir src inc igo ro \<noteq> None)
         \<and> (\<forall>dir src inc root (es :: Dirent list) acc ig. (\<forall>en \<in> set es. rank (join e dir (d_name en)) < fuel) \<longrightarrow>
            entriesInternal fuel e dir src inc root es acc ig \<noteq> None)"
proof (induction fuel)
  case 0
  have "\<And>dir src inc root (es :: Dirent list) acc ig. (\<forall>en \<in> set es. rank (join e dir (d_name en)) < (0::nat)) \<Longrightarrow>
            entriesInternal 0 e dir src inc root es acc ig \<noteq> None"
  proof -
    fix dir src inc root acc ig and es :: "Dirent list"
    assume "\<forall>en \<in> set es. rank (join e dir (d_name en)) < (0::nat)"
    then have "es = []" by (cases es) auto
    then show "entriesInternal 0 e dir src inc root es acc ig \<noteq> None" by simp
  qed
  then show ?case by simp
next
  case (Suc f)
  have walker: "\<And>dir src inc igo ro. rank dir < Suc f \<Longrightarrow>
            loadSkillsFromDirInternal (Suc f) e dir src inc igo ro \<noteq> None"
  proof -
    fix dir src inc igo ro
    assume r: "rank dir < Suc f"
    show "loadSkillsFromDirInternal (Suc f) e dir src inc igo ro \<noteq> None"
    proof (cases "readdirSync e dir")
      case (Inl m)
      then show ?thesis by simp
    next
      case (Inr es)
      have "\<forall>en \<in> set es. rank (join e dir (d_name en)) < f"
        using rank Inr r unfolding ranked_def by fastforce
      then have "\<And>src inc root acc ig. entriesInternal f e dir src inc root es acc ig \<noteq> None"
        using Suc.IH by blast
      then show ?thesis using Inr by simp
    qed
  qed
  have entries: "\<And>dir src inc root (es :: Dirent list) acc ig. (\<forall>en \<in> set es. rank (join e dir (d_name en)) < Suc f) \<Longrightarrow>
            entriesInternal (Suc f) e dir src inc root es acc ig \<noteq> None"
  proof -
    fix dir src inc root acc ig and es :: "Dirent list"
    show "(\<forall>en \<in> set es. rank (join e dir (d_name en)) < Suc f) \<Longrightarrow>
            entriesInternal (Suc f) e dir src inc root es acc ig \<noteq> None"
    proof (induction es arbitrary: acc ig)
      case Nil
      show ?case by simp
    next
      case (Cons en rest)
      have rest: "\<And>acc ig. entriesInternal (Suc f) e dir src inc root rest acc ig \<noteq> None"
        using Cons by simp
      show ?case
      proof (cases "entryAction e dir inc root ig en")
        case Skip
        then show ?thesis using rest by simp
      next
        case (Parse p)
        then show ?thesis using rest by simp
      next
        case (Descend p)
        then have "p = join e dir (d_name en)" unfolding entryAction_Descend_iff by blast
        then have "rank p < Suc f" using Cons.prems by simp
        then have "loadSkillsFromDirInternal (Suc f) e p src False (Some ig) (Some root) \<noteq> None"
          by (rule walker)
        then show ?thesis using Descend rest by (auto split: option.splits)
      qed
    qed
  qed
  show ?case using walker entries by blast
qed

lemma loadSkills_total:
  assumes rank: "ranked e rank"
    and bound: "\<forall>p \<in> set ps. rank (resolvePath e c p) < fuel"
  shows "\<exists>r. loadSkills fuel e \<lparr>cwd = Some c, skillPaths = Some ps\<rparr> = Some r"
proof -
  have w: "\<And>dir. rank dir < fuel \<Longrightarrow> loadSkillsFromDirInternal fuel e dir ''path'' True None None \<noteq> None"
    using walker_total_aux[OF rank, of fuel] by blast
  have "\<And>st. \<exists>st'. loadSkillsLoop fuel e c ps st = Some st'"
    using bound
  proof (induction ps)
    case Nil
    show ?case by simp
  next
    case (Cons p ps)
    have rest: "\<And>st. \<exists>st'. loadSkillsLoop fuel e c ps st = Some st'" using Cons by simp
    have "loadSkillsFromDirInternal fuel e (resolvePath e c p) ''path'' True None None \<noteq> None"
      using w Cons.prems by simp
    then obtain res ig where
      "loadSkillsFromDirInternal fuel e (resolvePath e c p) ''path'' True None None = Some (res, ig)"
      by fastforce
    then show ?case using rest
      by (simp add: Let_def split: sum.splits option.splits)
  qed
  then show ?thesis by (simp add: loadSkills_def split: option.splits)
qed


text \<open>
  C9. \<open>loadSkills\<close> is to turn every failure of a filesystem primitive into a warning and
  go on with the remaining paths. The \<open>loadSkills\<close> of \<open>index\<close> calls \<open>statSync\<close> outside any
  \<open>try\<close>: for the input path \<open>/gone.md\<close>, which passes the existence check and whose
  \<open>stat\<close> then fails, the exception leaves \<open>loadSkills\<close> and \<open>/c/SKILL.md\<close> is never
  processed. The other module, on the same input, records a warning for \<open>/gone.md\<close> and
  loads \<open>/c/SKILL.md\<close>.
\<close>

theorem loadSkills_index_stat_throws:
  "existsSync demoEnv ''/gone.md''
   \<and> statSync demoEnv ''/gone.md'' = Inl ''ENOENT: no such file or directory''
   \<and> loadSkills_index 3 demoEnv \<lparr>cwd = None, skillPaths = Some [''/gone.md'', ''/c/SKILL.md'']\<rparr>
       = Some (Inl ''ENOENT: no such file or directory'')
   \<and> loadSkills 3 demoEnv \<lparr>cwd = None, skillPaths = Some [''/gone.md'', ''/c/SKILL.md'']\<rparr>
       = Some \<lparr>skills = [skC],
               diagnostics = [warningAt ''ENOENT: no such file or directory'' ''/gone.md'']\<rparr>"
  by code_simp

text \<open>
  A path that does not exist yields a warning and the next path is processed, in both
  modules; a failing \<open>stat\<close> does the same in the module that catches it.
\<close>

lemma loadSkills_missing_path:
  "\<not> existsSync e (resolvePath e c p) \<Longrightarrow>
   loadSkillsLoop fuel e c (p # ps) st
     = loadSkillsLoop fuel e c ps (pushDiagnostics st [warningAt ''skill path does not exist'' (resolvePath e c p)])"
  by (simp add: Let_def)

lemma loadSkills_index_missing_path:
  "\<not> existsSync e (resolvePath e c p) \<Longrightarrow>
   loadSkillsLoop_index fuel e c (p # ps) st
     = loadSkillsLoop_index fuel e c ps (pushDiagnostics st [warningAt ''path not found'' (resolvePath e c p)])"
  by (simp add: Let_def)

lemma loadSkills_stat_failure:
  "existsSync e (resolvePath e c p) \<Longrightarrow> statSync e (resolvePath e c p) = Inl msg \<Longrightarrow>
   loadSkillsLoop fuel e c (p # ps) st
     = loadSkillsLoop fuel e c ps (pushDiagnostics st [warningAt msg (resolvePath e c p)])"
  by (simp add: Let_def)


section \<open>Descriptions that are missing or blank\<close>

text \<open>
  In the module with \<open>loadSkillsFromDirInternal\<close>, a file whose description is missing,
  empty or blank yields no skill and the validation diagnostics, and every skill
  \<open>loadSkills\<close> returns has a description that is not blank.
\<close>


lemma loadSkillFromFile_blank_description:
  assumes "readFileSync e fp = Inr raw"
    and "descriptionBlank (fm_description (frontmatter (parseFrontmatter (parse e) raw)))"
  shows "loadSkillFromFile e fp src
          = \<lparr>skill = None,
             fdiagnostics = map (\<lambda>m. warningAt m fp)
              (''description is required''
               # validateName (nameOr (fm_name (frontmatter (parseFrontmatter (parse e) raw)))
                                 (basename e (dirname e fp)))
                   (basename e (dirname e fp)))\<rparr>"
proof (cases "fm_description (frontmatter (parseFrontmatter (parse e) raw))")
  case None
  then show ?thesis
    using assms(1) by (simp add: loadSkillFromFile_def Let_def validateDescription_def)
next
  case (Some d)
  then have "d = [] \<or> trim d = []" using assms(2) by (simp add: descriptionBlank_def)
  then show ?thesis
    using assms(1) Some by (simp add: loadSkillFromFile_def Let_def validateDescription_def)
qed


lemma loop_results_invariant:
  assumes add: "\<And>st r. P st \<Longrightarrow>
                  (\<forall>s \<in> set (skills r). \<exists>p. skill (loadSkillFromFile e p ''path'') = Some s) \<Longrightarrow>
                  P (addSkills e st r)"
    and push: "\<And>st ds. P st \<Longrightarrow> P (pushDiagnostics st ds)"
  shows "P st \<Longrightarrow> loadSkillsLoop fuel e c ps st = Some st' \<Longrightarrow> P st'"
proof (induction ps arbitrary: st)
  case Nil
  then show ?case by simp
next
  case (Cons p ps)
  let ?q = "resolvePath e c p"
  note st = Cons.prems(1) and run = Cons.prems(2)
  show ?case
  proof (cases "existsSync e ?q")
    case False
    then have "loadSkillsLoop fuel e c ps (pushDiagnostics st [warningAt ''skill path does not exist'' ?q]) = Some st'"
      using run by (simp add: Let_def)
    then show ?thesis using Cons.IH push[OF st] by blast
  next
    case True
    show ?thesis
    proof (cases "statSync e ?q")
      case (Inl msg)
      then have "loadSkillsLoop fuel e c ps (pushDiagnostics st [warningAt msg ?q]) = Some st'"
        using run True by (simp add: Let_def)
      then show ?thesis using Cons.IH push[OF st] by blast
    next
      case (Inr stats)
      show ?thesis
      proof (cases "stats = SDirectory")
        case True
        then obtain res ig where
          w: "loadSkillsFromDirInternal fuel e ?q ''path'' True None None = Some (res, ig)"
          and rest: "loadSkillsLoop fuel e c ps (addSkills e st res) = Some st'"
          using run \<open>existsSync e ?q\<close> Inr by (auto simp: Let_def split: option.splits)
        have "fromCandidates loadSkillFromFile e ''path'' ?q True res"
          using w by (rule walker_fromCandidates(1))
        then have "\<forall>s \<in> set (skills res). \<exists>p. skill (loadSkillFromFile e p ''path'') = Some s"
          unfolding fromCandidates_def by blast
        then have "P (addSkills e st res)" using add[OF st] by blast
        then show ?thesis using Cons.IH rest by blast
      next
        case False
        note notdir = False
        show ?thesis
        proof (cases "stats = SFile \<and> endsWith ?q ''.md''")
          case False
          then have "loadSkillsLoop fuel e c ps st = Some st'"
            using run \<open>existsSync e ?q\<close> Inr notdir by (auto simp: Let_def)
          then show ?thesis using Cons.IH st by blast
        next
          case True
          show ?thesis
          proof (cases "skill (loadSkillFromFile e ?q ''path'')")
            case None
            then have "loadSkillsLoop fuel e c ps (pushDiagnostics st (fdiagnostics (loadSkillFromFile e ?q ''path''))) = Some st'"
              using run \<open>existsSync e ?q\<close> Inr notdir True by (simp add: Let_def)
            then show ?thesis using Cons.IH push[OF st] by blast
          next
            case (Some s)
            then have rest: "loadSkillsLoop fuel e c ps
                (addSkills e st \<lparr>skills = [s], diagnostics = fdiagnostics (loadSkillFromFile e ?q ''path'')\<rparr>) = Some st'"
              using run \<open>existsSync e ?q\<close> Inr notdir True by (simp add: Let_def)
            have "\<forall>s' \<in> set (skills \<lparr>skills = [s], diagnostics = fdiagnostics (loadSkillFromFile e ?q ''path'')\<rparr>).
                    \<exists>p. skill (loadSkillFromFile e p ''path'') = Some s'"
              using Some by auto
            then have "P (addSkills e st \<lparr>skills = [s], diagnostics = fdiagnostics (loadSkillFromFile e ?q ''path'')\<rparr>)"
              using add[OF st] by blast
            then show ?thesis using Cons.IH rest by blast
          qed
        qed
      qed
    qed
  qed
qed

lemma describedOk_addSkill:
  "describedOk st \<Longrightarrow> skill (loadSkillFromFile e p src) = Some s \<Longrightarrow> describedOk (addSkill e st s)"
  using loadSkillFromFile_skill[of e p src s]
  by (auto simp: describedOk_def addSkill_def Let_def split: option.splits)

lemma describedOk_foldl:
  "describedOk st \<Longrightarrow> (\<forall>s \<in> set xs. \<exists>p. skill (loadSkillFromFile e p ''path'') = Some s) \<Longrightarrow>
   describedOk (foldl (addSkill e) st xs)"
proof (induction xs arbitrary: st)
  case Nil
  then show ?case by simp
next
  case (Cons x xs)
  obtain p where "skill (loadSkillFromFile e p ''path'') = Some x" using Cons.prems(2) by auto
  then have "describedOk (addSkill e st x)" using describedOk_addSkill Cons.prems(1) by blast
  then show ?case using Cons.IH Cons.prems(2) by simp
qed

lemma loadSkills_descriptions_nonblank:
  assumes "loadSkills fuel e options = Some r"
  shows "\<forall>s \<in> set (skills r). description s \<noteq> [] \<and> trim (description s) \<noteq> []"
proof -
  have add: "\<And>st r. describedOk st \<Longrightarrow>
                  (\<forall>s \<in> set (skills r). \<exists>p. skill (loadSkillFromFile e p ''path'') = Some s) \<Longrightarrow>
                  describedOk (addSkills e st r)"
    unfolding addSkills_def by (rule describedOk_foldl) (simp_all add: describedOk_def)
  have push: "\<And>st ds. describedOk st \<Longrightarrow> describedOk (pushDiagnostics st ds)"
    by (simp add: pushDiagnostics_def describedOk_def)
  obtain st where l: "loadSkillsLoop fuel e
             (case cwd options of None \<Rightarrow> process_cwd e | Some c \<Rightarrow> c)
             (case skillPaths options of None \<Rightarrow> [] | Some ps \<Rightarrow> ps) initialState = Some st"
    and r: "r = finalResult st"
    using assms by (auto simp: loadSkills_def split: option.splits)
  have init: "describedOk initialState" by (simp add: initialState_def describedOk_def)
  have "describedOk st"
  proof (rule loop_results_invariant[where P = describedOk and e = e, OF _ _ init l])
    fix st :: LoaderState and r :: LoadSkillsResult
    assume "describedOk st"
      and "\<forall>s \<in> set (skills r). \<exists>p. skill (loadSkillFromFile e p ''path'') = Some s"
    then show "describedOk (addSkills e st r)" by (rule add)
  next
    fix st :: LoaderState and ds :: "ResourceDiagnostic list"
    assume "describedOk st"
    then show "describedOk (pushDiagnostics st ds)" by (rule push)
  qed
  then show ?thesis unfolding r finalResult_def describedOk_def by auto
qed

text \<open>
  C3. A file whose description is missing, empty or only white space is to yield no
  skill, with the validation diagnostics still returned. The \<open>loadSkillFromFile\<close> of
  \<open>index\<close> tests \<open>!frontmatter.description\<close> alone: for \<open>/b/SKILL.md\<close>, whose description is
  two spaces, it returns a skill with that description next to the warning
  \<open>description is required\<close>, and \<open>loadSkills\<close> of \<open>index\<close> returns that skill. The other
  module returns no skill for the same file.
\<close>

theorem loadSkillFromFile_index_blank_description:
  "readFileSync demoEnv ''/b/SKILL.md'' = Inr docBlank
   \<and> fm_description (frontmatter (parseFrontmatter (parse demoEnv) docBlank)) = Some ''  ''
   \<and> loadSkillFromFile_index demoEnv ''/b/SKILL.md'' ''path''
       = \<lparr>skill = Some \<lparr>name = ''b'', description = ''  '', filePath = ''/b/SKILL.md'',
                          baseDir = ''/b'', source = ''path'', disableModelInvocation = False\<rparr>,
          fdiagnostics = [warningAt ''description is required'' ''/b/SKILL.md'']\<rparr>
   \<and> loadSkills_index 1 demoEnv \<lparr>cwd = None, skillPaths = Some [''/b/SKILL.md'']\<rparr>
       = Some (Inr \<lparr>skills = [\<lparr>name = ''b'', description = ''  '', filePath = ''/b/SKILL.md'',
                                baseDir = ''/b'', source = ''path'', disableModelInvocation = False\<rparr>],
                    diagnostics = [warningAt ''description is required'' ''/b/SKILL.md'']\<rparr>)
   \<and> loadSkillFromFile demoEnv ''/b/SKILL.md'' ''path''
       = \<lparr>skill = None, fdiagnostics = [warningAt ''description is required'' ''/b/SKILL.md'']\<rparr>"
  by code_simp

end
